theory Spec2Isabelle
  imports Complex_Main "HOL-Library.AList" "HOL-Library.Log_Nat"
begin

section \<open>JavaScript values\<close>

text \<open>
  The extracted documents are untyped objects (\<^verbatim>\<open>form1099Data: any\<close>,
  \<^verbatim>\<open>ExtractedFieldData\<close>). A value is modelled by the datatype below; an object is
  an association list of its own properties. Finite numbers are exact rationals: the
  model does not round to binary floating point, and the infinities are outside it.
  \<^verbatim>\<open>NaN\<close> has a constructor of its own, since the code tests for it.
\<close>

datatype jsval =
    JUndefined
  | JNull
  | JBool bool
  | JNaN
  | JNum rat
  | JStr string
  | JObj "(string \<times> jsval) list"

text \<open>Property read \<^verbatim>\<open>o[k]\<close> on an object: \<^verbatim>\<open>undefined\<close> when the key is missing.\<close>

definition getprop :: "(string \<times> jsval) list \<Rightarrow> string \<Rightarrow> jsval" where
  "getprop kvs k = (case map_of kvs k of None \<Rightarrow> JUndefined | Some v \<Rightarrow> v)"

text \<open>Property write \<^verbatim>\<open>o[k] = v\<close>.\<close>

definition setprop :: "(string \<times> jsval) list \<Rightarrow> string \<Rightarrow> jsval \<Rightarrow> (string \<times> jsval) list" where
  "setprop kvs k v = AList.update k v kvs"

text \<open>JavaScript truthiness, as used by \<^verbatim>\<open>if (x)\<close>, \<^verbatim>\<open>!x\<close> and \<^verbatim>\<open>x || y\<close>.\<close>

fun truthy :: "jsval \<Rightarrow> bool" where
  "truthy JUndefined = False"
| "truthy JNull = False"
| "truthy (JBool b) = b"
| "truthy JNaN = False"
| "truthy (JNum x) = (x \<noteq> 0)"
| "truthy (JStr s) = (s \<noteq> [])"
| "truthy (JObj kvs) = True"

text \<open>\<^verbatim>\<open>a || b\<close> on values.\<close>

definition js_or :: "jsval \<Rightarrow> jsval \<Rightarrow> jsval" where
  "js_or a b = (if truthy a then a else b)"

text \<open>
  \<^verbatim>\<open>parseFloat\<close> belongs to the runtime, not to the repository. It is a parameter
  \<open>pf\<close> of the model: \<open>pf s = None\<close> stands for \<^verbatim>\<open>NaN\<close>, \<open>Some q\<close> for the finite
  number \<open>q\<close>.
\<close>

type_synonym parseFloat = "string \<Rightarrow> rat option"

text \<open>The whitespace class \<^verbatim>\<open>\s\<close> of a regular expression, on one-byte characters.\<close>

definition is_space :: "char \<Rightarrow> bool" where
  "is_space c = (c \<in> set [CHR '' '', CHR 0x09, CHR 0x0A, CHR 0x0B, CHR 0x0C, CHR 0x0D, CHR 0xA0])"

text \<open>\<^verbatim>\<open>value.replace(/[$,\s]/g, '')\<close> of the mapper's \<^verbatim>\<open>parseAmount\<close>.\<close>

definition clean_amount :: "string \<Rightarrow> string" where
  "clean_amount s = filter (\<lambda>c. c \<noteq> CHR ''$'' \<and> c \<noteq> CHR '','' \<and> \<not> is_space c) s"

section \<open>The 1099 mapper: amounts\<close>

text \<open>
  \<^verbatim>\<open>Form1099ToForm1040Mapper.parseAmount\<close> (1099-to-1040-mapping.ts, 511-548):
  \<^verbatim>\<open>null\<close> and \<^verbatim>\<open>undefined\<close> give 0, a number is returned unless it is
  \<^verbatim>\<open>NaN\<close>, a string is cleaned and parsed, an object is entered through its
  \<^verbatim>\<open>value\<close> property, else through its \<^verbatim>\<open>content\<close> property, and everything
  else gives 0.
\<close>

lemma size_getprop: "getprop kvs k \<noteq> JUndefined \<Longrightarrow> size (getprop kvs k) < size (JObj kvs)"
proof (induction kvs)
  case Nil
  then show ?case by (simp add: getprop_def)
next
  case (Cons kv kvs)
  obtain k' v' where kv: "kv = (k', v')" by (cases kv)
  show ?case
  proof (cases "k' = k")
    case True
    then show ?thesis using kv by (simp add: getprop_def)
  next
    case False
    then have "getprop (kv # kvs) k = getprop kvs k" using kv by (simp add: getprop_def)
    with Cons show ?thesis by simp
  qed
qed

function parseAmount :: "parseFloat \<Rightarrow> jsval \<Rightarrow> rat" where
  "parseAmount pf JNull = 0"
| "parseAmount pf JUndefined = 0"
| "parseAmount pf (JNum x) = x"
| "parseAmount pf JNaN = 0"
| "parseAmount pf (JStr s) = (case pf (clean_amount s) of None \<Rightarrow> 0 | Some q \<Rightarrow> q)"
| "parseAmount pf (JObj kvs) =
     (if getprop kvs ''value'' \<noteq> JUndefined then parseAmount pf (getprop kvs ''value'')
      else if getprop kvs ''content'' \<noteq> JUndefined then parseAmount pf (getprop kvs ''content'')
      else 0)"
| "parseAmount pf (JBool b) = 0"
  by pat_completeness auto
termination
  by (relation "measure (\<lambda>(pf, v). size v)") (auto dest!: size_getprop)

section \<open>The form state\<close>

text \<open>
  \<^verbatim>\<open>FilingStatus\<close> (eligibility-service.ts, 349-355) and the numeric part of
  \<^verbatim>\<open>Partial<Form1040Data>\<close> that the mapper reads and writes. Every line is optional:
  \<open>None\<close> is \<^verbatim>\<open>undefined\<close>. The code reads a line only through \<^verbatim>\<open>line || 0\<close> or
  \<^verbatim>\<open>!line\<close>, which treat \<^verbatim>\<open>NaN\<close> like \<^verbatim>\<open>undefined\<close>. The identity fields (name,
  SSN, address, \<^verbatim>\<open>personalInfo\<close>) are not part of the record: no numeric line is
  computed from them.
\<close>

datatype FilingStatus =
    SINGLE
  | MARRIED_FILING_JOINTLY
  | MARRIED_FILING_SEPARATELY
  | HEAD_OF_HOUSEHOLD
  | QUALIFYING_SURVIVING_SPOUSE

record AmtAdjustments =
  privateActivityBondInterest :: "rat option"

record ScheduleA =
  stateTaxWithheld :: "rat option"
  investmentExpenses :: "rat option"

record StateData =
  interestIncome :: "rat option"

record Schedule1 =
  earlyWithdrawalPenalty :: "rat option"

record ForeignTaxCredit =
  foreignTaxPaid :: "rat option"
  foreignCountry :: "jsval"

record Form1040Data =
  filingStatus :: "FilingStatus option"
  line1 :: "rat option"
  line2a :: "rat option"
  line2b :: "rat option"
  line3a :: "rat option"
  line3b :: "rat option"
  line4b :: "rat option"
  line5b :: "rat option"
  line6b :: "rat option"
  line7 :: "rat option"
  line8 :: "rat option"
  line9 :: "rat option"
  line10 :: "rat option"
  line11 :: "rat option"
  line12 :: "rat option"
  line13 :: "rat option"
  line15 :: "rat option"
  line16 :: "rat option"
  line17 :: "rat option"
  line23 :: "rat option"
  line24 :: "rat option"
  line25a :: "rat option"
  line25b :: "rat option"
  line25c :: "rat option"
  line25d :: "rat option"
  line32 :: "rat option"
  line33 :: "rat option"
  line34 :: "rat option"
  line37 :: "rat option"
  amtAdjustments :: "AmtAdjustments option"
  scheduleA :: "ScheduleA option"
  stateData :: "StateData option"
  schedule1 :: "Schedule1 option"
  foreignTaxCredit :: "ForeignTaxCredit option"

text \<open>\<^verbatim>\<open>line || 0\<close> on an optional number.\<close>

definition or0 :: "rat option \<Rightarrow> rat" where
  "or0 x = (case x of None \<Rightarrow> 0 | Some q \<Rightarrow> q)"

text \<open>The empty form \<^verbatim>\<open>{}\<close>.\<close>

definition emptyForm :: "Form1040Data" where
  "emptyForm = \<lparr> filingStatus = None,
     line1 = None, line2a = None, line2b = None, line3a = None, line3b = None,
     line4b = None, line5b = None, line6b = None, line7 = None, line8 = None,
     line9 = None, line10 = None, line11 = None, line12 = None, line13 = None,
     line15 = None, line16 = None, line17 = None, line23 = None, line24 = None,
     line25a = None, line25b = None, line25c = None, line25d = None,
     line32 = None, line33 = None, line34 = None, line37 = None,
     amtAdjustments = None, scheduleA = None, stateData = None, schedule1 = None,
     foreignTaxCredit = None \<rparr>"

section \<open>Tax computation of the mapper\<close>

text \<open>\<^verbatim>\<open>calculateTotalIncome\<close> (1099-to-1040-mapping.ts, 705-716).\<close>

definition calculateTotalIncome :: "Form1040Data \<Rightarrow> rat" where
  "calculateTotalIncome f =
     or0 (line1 f) + or0 (line2b f) + or0 (line3b f) + or0 (line4b f) +
     or0 (line5b f) + or0 (line6b f) + or0 (line7 f) + or0 (line8 f)"

text \<open>
  \<^verbatim>\<open>getStandardDeduction\<close> (718-728): the table of 2023, and the entry of
  \<^verbatim>\<open>SINGLE\<close> when the lookup is falsy (no filing status).
\<close>

fun STANDARD_DEDUCTION_2023 :: "FilingStatus \<Rightarrow> rat" where
  "STANDARD_DEDUCTION_2023 SINGLE = 13850"
| "STANDARD_DEDUCTION_2023 MARRIED_FILING_JOINTLY = 27700"
| "STANDARD_DEDUCTION_2023 MARRIED_FILING_SEPARATELY = 13850"
| "STANDARD_DEDUCTION_2023 HEAD_OF_HOUSEHOLD = 20800"
| "STANDARD_DEDUCTION_2023 QUALIFYING_SURVIVING_SPOUSE = 27700"

definition getStandardDeduction :: "FilingStatus option \<Rightarrow> rat" where
  "getStandardDeduction fs =
     (case fs of
        None \<Rightarrow> STANDARD_DEDUCTION_2023 SINGLE
      | Some s \<Rightarrow> (if STANDARD_DEDUCTION_2023 s \<noteq> 0 then STANDARD_DEDUCTION_2023 s
                  else STANDARD_DEDUCTION_2023 SINGLE))"

text \<open>
  A bracket \<^verbatim>\<open>{ min, max, rate }\<close>; \<open>max_b = None\<close> is \<^verbatim>\<open>Infinity\<close>. The rates are
  the decimal fractions the source writes.
\<close>

record bracket =
  min_b :: rat
  max_b :: "rat option"
  rate :: rat

definition brackets_joint :: "bracket list" where
  "brackets_joint =
    [\<lparr>min_b = 0, max_b = Some 22000, rate = 10 / 100\<rparr>,
     \<lparr>min_b = 22000, max_b = Some 89450, rate = 12 / 100\<rparr>,
     \<lparr>min_b = 89450, max_b = Some 190750, rate = 22 / 100\<rparr>,
     \<lparr>min_b = 190750, max_b = Some 364200, rate = 24 / 100\<rparr>,
     \<lparr>min_b = 364200, max_b = Some 462500, rate = 32 / 100\<rparr>,
     \<lparr>min_b = 462500, max_b = Some 693750, rate = 35 / 100\<rparr>,
     \<lparr>min_b = 693750, max_b = None, rate = 37 / 100\<rparr>]"

definition brackets_other :: "bracket list" where
  "brackets_other =
    [\<lparr>min_b = 0, max_b = Some 11000, rate = 10 / 100\<rparr>,
     \<lparr>min_b = 11000, max_b = Some 44725, rate = 12 / 100\<rparr>,
     \<lparr>min_b = 44725, max_b = Some 95375, rate = 22 / 100\<rparr>,
     \<lparr>min_b = 95375, max_b = Some 182050, rate = 24 / 100\<rparr>,
     \<lparr>min_b = 182050, max_b = Some 231250, rate = 32 / 100\<rparr>,
     \<lparr>min_b = 231250, max_b = Some 578125, rate = 35 / 100\<rparr>,
     \<lparr>min_b = 578125, max_b = None, rate = 37 / 100\<rparr>]"

text \<open>
  The loop of \<^verbatim>\<open>calculateTaxLiability\<close> (754-760) with its two variables \<^verbatim>\<open>tax\<close> and
  \<^verbatim>\<open>remainingIncome\<close>; it leaves at the first bracket reached with nothing remaining.
\<close>

fun bracket_loop :: "bracket list \<Rightarrow> rat \<Rightarrow> rat \<Rightarrow> rat" where
  "bracket_loop [] tax remainingIncome = tax"
| "bracket_loop (b # bs) tax remainingIncome =
     (if remainingIncome \<le> 0 then tax
      else
        let taxableAtThisBracket =
              (case max_b b of
                 None \<Rightarrow> remainingIncome
               | Some m \<Rightarrow> min remainingIncome (m - min_b b))
        in bracket_loop bs (tax + taxableAtThisBracket * rate b)
             (remainingIncome - taxableAtThisBracket))"

text \<open>\<^verbatim>\<open>Math.round\<close>: the nearest integer, a half rounded up.\<close>

definition js_round :: "rat \<Rightarrow> int" where
  "js_round x = \<lfloor>x + 1 / 2\<rfloor>"

text \<open>\<^verbatim>\<open>calculateTaxLiability\<close> (730-763).\<close>

definition calculateTaxLiability :: "rat \<Rightarrow> FilingStatus option \<Rightarrow> rat" where
  "calculateTaxLiability taxableIncome fs =
     (let brackets = (if fs = Some MARRIED_FILING_JOINTLY then brackets_joint else brackets_other);
          tax = bracket_loop brackets 0 taxableIncome
      in of_int (js_round (tax * 100)) / 100)"

text \<open>
  \<^verbatim>\<open>recalculateForm1040Totals\<close> (664-703). The source mutates the form line by line;
  each \<open>let\<close> below is one assignment, in the source's order.
\<close>

definition recalculateForm1040Totals :: "Form1040Data \<Rightarrow> Form1040Data" where
  "recalculateForm1040Totals f0 =
     (let f1 = f0\<lparr>line9 := Some (calculateTotalIncome f0)\<rparr>;
          f2 = f1\<lparr>line11 := line9 f1\<rparr>;
          f3 = (if or0 (line12 f2) = 0 \<and> filingStatus f2 \<noteq> None
                then f2\<lparr>line12 := Some (getStandardDeduction (filingStatus f2))\<rparr>
                else f2);
          f4 = f3\<lparr>line15 := Some (max 0 (or0 (line11 f3) - or0 (line12 f3) - or0 (line13 f3)))\<rparr>;
          f5 = f4\<lparr>line16 := Some (calculateTaxLiability (or0 (line15 f4)) (filingStatus f4))\<rparr>;
          f6 = f5\<lparr>line24 := Some (or0 (line16 f5) + or0 (line17 f5) + or0 (line23 f5))\<rparr>;
          f7 = f6\<lparr>line32 := Some (or0 (line25a f6) + or0 (line25b f6) + or0 (line25c f6) + or0 (line25d f6))\<rparr>;
          totalTax = or0 (line24 f7);
          totalPayments = or0 (line32 f7)
      in if totalPayments > totalTax
         then f7\<lparr>line33 := Some (totalPayments - totalTax),
                 line34 := Some (totalPayments - totalTax),
                 line37 := Some 0\<rparr>
         else f7\<lparr>line33 := Some 0, line34 := Some 0, line37 := Some (totalTax - totalPayments)\<rparr>)"

section \<open>The 1099 mapper: box rules\<close>

text \<open>
  \<^verbatim>\<open>map1099ToForm1040\<close> (1099-to-1040-mapping.ts, 8-253) mutates the form one rule after
  the other. Each rule is a function from the form to the form here, named after the
  document field it reads, and the mapper is their composition in the source's order.
  A rule fires when the parsed amount is strictly positive. The block before the rules
  (28-88) reads and writes the identity fields only (name, SSN, address) and is not
  modelled; it raises a \<^verbatim>\<open>TypeError\<close> when an identity field of the document is truthy
  and not a string, so the model describes the calls that return.
\<close>

type_synonym jsobj = "(string \<times> jsval) list"

text \<open>Lines 96-100. Box 1, interest income, is added to line 2b.\<close>

definition map_interestIncome :: "parseFloat \<Rightarrow> jsobj \<Rightarrow> Form1040Data \<Rightarrow> Form1040Data" where
  "map_interestIncome pf d f =
     (let interestIncome = parseAmount pf (getprop d ''interestIncome'')
      in if interestIncome > 0
         then f\<lparr>line2b := Some (or0 (line2b f) + interestIncome)\<rparr>
         else f)"

text \<open>Lines 103-107. Box 3, interest on U.S. savings bonds, is added to line 2b.\<close>

definition map_interestOnUSavingsBonds :: "parseFloat \<Rightarrow> jsobj \<Rightarrow> Form1040Data \<Rightarrow> Form1040Data" where
  "map_interestOnUSavingsBonds pf d f =
     (let interestOnUSavingsBonds = parseAmount pf (getprop d ''interestOnUSavingsBonds'')
      in if interestOnUSavingsBonds > 0
         then f\<lparr>line2b := Some (or0 (line2b f) + interestOnUSavingsBonds)\<rparr>
         else f)"

text \<open>Lines 110-114. Box 8, tax-exempt interest, is added to line 2a.\<close>

definition map_taxExemptInterest :: "parseFloat \<Rightarrow> jsobj \<Rightarrow> Form1040Data \<Rightarrow> Form1040Data" where
  "map_taxExemptInterest pf d f =
     (let taxExemptInterest = parseAmount pf (getprop d ''taxExemptInterest'')
      in if taxExemptInterest > 0
         then f\<lparr>line2a := Some (or0 (line2a f) + taxExemptInterest)\<rparr>
         else f)"

text \<open>Lines 117-123. Box 9 is stored (not accumulated) in the AMT adjustments.\<close>

definition map_specifiedPrivateActivityBondInterest :: "parseFloat \<Rightarrow> jsobj \<Rightarrow> Form1040Data \<Rightarrow> Form1040Data" where
  "map_specifiedPrivateActivityBondInterest pf d f =
     (let specifiedPrivateActivityBondInterest = parseAmount pf (getprop d ''specifiedPrivateActivityBondInterest'')
      in if specifiedPrivateActivityBondInterest > 0
         then f\<lparr>amtAdjustments := Some ((case amtAdjustments f of None \<Rightarrow> \<lparr>privateActivityBondInterest = None\<rparr> | Some a \<Rightarrow> a)
                 \<lparr>privateActivityBondInterest := Some specifiedPrivateActivityBondInterest\<rparr>)\<rparr>
         else f)"

text \<open>Lines 126-130. Box 10, market discount, is added to line 2b.\<close>

definition map_marketDiscount :: "parseFloat \<Rightarrow> jsobj \<Rightarrow> Form1040Data \<Rightarrow> Form1040Data" where
  "map_marketDiscount pf d f =
     (let marketDiscount = parseAmount pf (getprop d ''marketDiscount'')
      in if marketDiscount > 0
         then f\<lparr>line2b := Some (or0 (line2b f) + marketDiscount)\<rparr>
         else f)"

text \<open>Lines 133-137. Box 11, bond premium, is subtracted from line 2b, which is floored at zero.\<close>

definition map_bondPremium :: "parseFloat \<Rightarrow> jsobj \<Rightarrow> Form1040Data \<Rightarrow> Form1040Data" where
  "map_bondPremium pf d f =
     (let bondPremium = parseAmount pf (getprop d ''bondPremium'')
      in if bondPremium > 0
         then f\<lparr>line2b := Some (max 0 (or0 (line2b f) - bondPremium))\<rparr>
         else f)"

text \<open>Lines 140-145. Box 13, state tax withheld, is added to Schedule A.\<close>

definition map_stateTaxWithheld :: "parseFloat \<Rightarrow> jsobj \<Rightarrow> Form1040Data \<Rightarrow> Form1040Data" where
  "map_stateTaxWithheld pf d f =
     (let stateTaxWithheld' = parseAmount pf (getprop d ''stateTaxWithheld'')
      in if stateTaxWithheld' > 0
         then (let a = (case scheduleA f of None \<Rightarrow> \<lparr>stateTaxWithheld = None, investmentExpenses = None\<rparr> | Some a \<Rightarrow> a)
            in f\<lparr>scheduleA := Some (a\<lparr>stateTaxWithheld := Some (or0 (stateTaxWithheld a) + stateTaxWithheld')\<rparr>)\<rparr>)
         else f)"

text \<open>Lines 148-153. Box 15, state interest, is added to the state data.\<close>

definition map_stateInterest :: "parseFloat \<Rightarrow> jsobj \<Rightarrow> Form1040Data \<Rightarrow> Form1040Data" where
  "map_stateInterest pf d f =
     (let stateInterest = parseAmount pf (getprop d ''stateInterest'')
      in if stateInterest > 0
         then (let a = (case stateData f of None \<Rightarrow> \<lparr>interestIncome = None\<rparr> | Some a \<Rightarrow> a)
            in f\<lparr>stateData := Some (a\<lparr>interestIncome := Some (or0 (interestIncome a) + stateInterest)\<rparr>)\<rparr>)
         else f)"

text \<open>Lines 156-161. Box 2, early withdrawal penalty, is added to Schedule 1.\<close>

definition map_earlyWithdrawalPenalty :: "parseFloat \<Rightarrow> jsobj \<Rightarrow> Form1040Data \<Rightarrow> Form1040Data" where
  "map_earlyWithdrawalPenalty pf d f =
     (let earlyWithdrawalPenalty' = parseAmount pf (getprop d ''earlyWithdrawalPenalty'')
      in if earlyWithdrawalPenalty' > 0
         then (let a = (case schedule1 f of None \<Rightarrow> \<lparr>earlyWithdrawalPenalty = None\<rparr> | Some a \<Rightarrow> a)
            in f\<lparr>schedule1 := Some (a\<lparr>earlyWithdrawalPenalty := Some (or0 (earlyWithdrawalPenalty a) + earlyWithdrawalPenalty')\<rparr>)\<rparr>)
         else f)"

text \<open>Lines 164-169. Box 5, investment expenses, is added to Schedule A.\<close>

definition map_investmentExpenses :: "parseFloat \<Rightarrow> jsobj \<Rightarrow> Form1040Data \<Rightarrow> Form1040Data" where
  "map_investmentExpenses pf d f =
     (let investmentExpenses' = parseAmount pf (getprop d ''investmentExpenses'')
      in if investmentExpenses' > 0
         then (let a = (case scheduleA f of None \<Rightarrow> \<lparr>stateTaxWithheld = None, investmentExpenses = None\<rparr> | Some a \<Rightarrow> a)
            in f\<lparr>scheduleA := Some (a\<lparr>investmentExpenses := Some (or0 (investmentExpenses a) + investmentExpenses')\<rparr>)\<rparr>)
         else f)"

text \<open>Lines 172-178. Box 6, foreign tax paid, is added to the foreign tax credit, with the country.\<close>

definition map_foreignTaxPaid :: "parseFloat \<Rightarrow> jsobj \<Rightarrow> Form1040Data \<Rightarrow> Form1040Data" where
  "map_foreignTaxPaid pf d f =
     (let foreignTaxPaid' = parseAmount pf (getprop d ''foreignTaxPaid'')
      in if foreignTaxPaid' > 0
         then (let a = (case foreignTaxCredit f of None \<Rightarrow> \<lparr>foreignTaxPaid = None, foreignCountry = JUndefined\<rparr> | Some a \<Rightarrow> a)
            in f\<lparr>foreignTaxCredit := Some (a\<lparr>foreignTaxPaid := Some (or0 (foreignTaxPaid a) + foreignTaxPaid'),
                 foreignCountry := js_or (getprop d ''foreignCountry'') (JStr ''Unknown'')\<rparr>)\<rparr>)
         else f)"

text \<open>Lines 181-185. Ordinary dividends are added to line 3b.\<close>

definition map_ordinaryDividends :: "parseFloat \<Rightarrow> jsobj \<Rightarrow> Form1040Data \<Rightarrow> Form1040Data" where
  "map_ordinaryDividends pf d f =
     (let ordinaryDividends = parseAmount pf (getprop d ''ordinaryDividends'')
      in if ordinaryDividends > 0
         then f\<lparr>line3b := Some (or0 (line3b f) + ordinaryDividends)\<rparr>
         else f)"

text \<open>Lines 187-191. Qualified dividends are added to line 3a.\<close>

definition map_qualifiedDividends :: "parseFloat \<Rightarrow> jsobj \<Rightarrow> Form1040Data \<Rightarrow> Form1040Data" where
  "map_qualifiedDividends pf d f =
     (let qualifiedDividends = parseAmount pf (getprop d ''qualifiedDividends'')
      in if qualifiedDividends > 0
         then f\<lparr>line3a := Some (or0 (line3a f) + qualifiedDividends)\<rparr>
         else f)"

text \<open>Lines 194-198. Capital gain distributions are added to line 7.\<close>

definition map_totalCapitalGain :: "parseFloat \<Rightarrow> jsobj \<Rightarrow> Form1040Data \<Rightarrow> Form1040Data" where
  "map_totalCapitalGain pf d f =
     (let totalCapitalGain = parseAmount pf (getprop d ''totalCapitalGain'')
      in if totalCapitalGain > 0
         then f\<lparr>line7 := Some (or0 (line7 f) + totalCapitalGain)\<rparr>
         else f)"

text \<open>Lines 201-206. Rents are added to line 8.\<close>

definition map_rents :: "parseFloat \<Rightarrow> jsobj \<Rightarrow> Form1040Data \<Rightarrow> Form1040Data" where
  "map_rents pf d f =
     (let rents = parseAmount pf (getprop d ''rents'')
      in if rents > 0
         then f\<lparr>line8 := Some (or0 (line8 f) + rents)\<rparr>
         else f)"

text \<open>Lines 208-213. Royalties are added to line 8.\<close>

definition map_royalties :: "parseFloat \<Rightarrow> jsobj \<Rightarrow> Form1040Data \<Rightarrow> Form1040Data" where
  "map_royalties pf d f =
     (let royalties = parseAmount pf (getprop d ''royalties'')
      in if royalties > 0
         then f\<lparr>line8 := Some (or0 (line8 f) + royalties)\<rparr>
         else f)"

text \<open>Lines 215-220. Other income is added to line 8.\<close>

definition map_otherIncome :: "parseFloat \<Rightarrow> jsobj \<Rightarrow> Form1040Data \<Rightarrow> Form1040Data" where
  "map_otherIncome pf d f =
     (let otherIncome = parseAmount pf (getprop d ''otherIncome'')
      in if otherIncome > 0
         then f\<lparr>line8 := Some (or0 (line8 f) + otherIncome)\<rparr>
         else f)"

text \<open>Lines 223-228. Nonemployee compensation is added to line 8.\<close>

definition map_nonemployeeCompensation :: "parseFloat \<Rightarrow> jsobj \<Rightarrow> Form1040Data \<Rightarrow> Form1040Data" where
  "map_nonemployeeCompensation pf d f =
     (let nonemployeeCompensation = parseAmount pf (getprop d ''nonemployeeCompensation'')
      in if nonemployeeCompensation > 0
         then f\<lparr>line8 := Some (or0 (line8 f) + nonemployeeCompensation)\<rparr>
         else f)"

text \<open>
  Lines 231-243. The withholding is read from \<^verbatim>\<open>federalTaxWithheld\<close>, else from
  \<^verbatim>\<open>FederalIncomeTaxWithheld\<close>, and added to line 25a.
\<close>

definition map_federalTaxWithheld :: "parseFloat \<Rightarrow> jsobj \<Rightarrow> Form1040Data \<Rightarrow> Form1040Data" where
  "map_federalTaxWithheld pf d f =
     (let federalTaxWithheldValue =
            js_or (js_or (getprop d ''federalTaxWithheld'') (getprop d ''FederalIncomeTaxWithheld''))
              (getprop d ''FederalIncomeTaxWithheld'');
          federalTaxWithheld = parseAmount pf federalTaxWithheldValue
      in if federalTaxWithheld > 0
         then f\<lparr>line25a := Some (or0 (line25a f) + federalTaxWithheld)\<rparr>
         else f)"

text \<open>The income rules of lines 93-243, in order.\<close>

definition income_mapping :: "parseFloat \<Rightarrow> jsobj \<Rightarrow> Form1040Data \<Rightarrow> Form1040Data" where
  "income_mapping pf d =
     map_federalTaxWithheld pf d \<circ>
     map_nonemployeeCompensation pf d \<circ>
     map_otherIncome pf d \<circ>
     map_royalties pf d \<circ>
     map_rents pf d \<circ>
     map_totalCapitalGain pf d \<circ>
     map_qualifiedDividends pf d \<circ>
     map_ordinaryDividends pf d \<circ>
     map_foreignTaxPaid pf d \<circ>
     map_investmentExpenses pf d \<circ>
     map_earlyWithdrawalPenalty pf d \<circ>
     map_stateInterest pf d \<circ>
     map_stateTaxWithheld pf d \<circ>
     map_bondPremium pf d \<circ>
     map_marketDiscount pf d \<circ>
     map_specifiedPrivateActivityBondInterest pf d \<circ>
     map_taxExemptInterest pf d \<circ>
     map_interestOnUSavingsBonds pf d \<circ>
     map_interestIncome pf d"

text \<open>
  The mapper: the data nested under \<^verbatim>\<open>extractedData\<close> is used when that property is
  an object (19-24), the income rules run, and the totals are recomputed (246). A call
  without an existing form starts from \<open>emptyForm\<close>.
\<close>

definition actual1099Data :: "jsobj \<Rightarrow> jsobj" where
  "actual1099Data form1099Data =
     (case getprop form1099Data ''extractedData'' of
        JObj nested \<Rightarrow> nested
      | _ \<Rightarrow> form1099Data)"

definition map1099ToForm1040 :: "parseFloat \<Rightarrow> jsobj \<Rightarrow> Form1040Data \<Rightarrow> Form1040Data" where
  "map1099ToForm1040 pf form1099Data existingForm1040 =
     recalculateForm1040Totals
       (income_mapping pf (actual1099Data form1099Data) existingForm1040)"

text \<open>
  The derived totals of a form: total income (9), adjusted gross income (11), taxable
  income (15), liability (16), total tax (24), total payments (32), refund (33, 34)
  and amount owed (37).
\<close>

definition derivedTotals :: "Form1040Data \<Rightarrow> rat option list" where
  "derivedTotals f =
     [line9 f, line11 f, line15 f, line16 f, line24 f, line32 f, line33 f, line34 f, line37 f]"

text \<open>
  What a document adds to line 2b (interest income, savings-bond interest and market
  discount, each when positive), and its bond premium when positive.
\<close>

definition positive :: "rat \<Rightarrow> rat" where
  "positive x = (if x > 0 then x else 0)"

definition line2bAdditions :: "parseFloat \<Rightarrow> jsobj \<Rightarrow> rat" where
  "line2bAdditions pf d =
     positive (parseAmount pf (getprop d ''interestIncome'')) +
     positive (parseAmount pf (getprop d ''interestOnUSavingsBonds'')) +
     positive (parseAmount pf (getprop d ''marketDiscount''))"

definition bondPremiumOf :: "parseFloat \<Rightarrow> jsobj \<Rightarrow> rat" where
  "bondPremiumOf pf d = positive (parseAmount pf (getprop d ''bondPremium''))"

section \<open>Taxable income of the form classes\<close>

text \<open>
  \<^verbatim>\<open>AbstractForm1040\<close> (abstract-form.ts, 84-115): \<^verbatim>\<open>calculateTotalIncome\<close> is the sum
  of the same eight lines, \<^verbatim>\<open>calculateAGI\<close> subtracts line 10, and
  \<^verbatim>\<open>calculateTaxableIncome\<close> subtracts the larger of the standard deduction and
  line 12, then line 13, and floors the result at zero. \<^verbatim>\<open>getStandardDeduction\<close> is
  abstract in the class and a parameter here.
\<close>

definition calculateAGI :: "Form1040Data \<Rightarrow> rat" where
  "calculateAGI f = calculateTotalIncome f - or0 (line10 f)"

definition calculateTaxableIncome :: "(FilingStatus option \<Rightarrow> rat) \<Rightarrow> Form1040Data \<Rightarrow> rat" where
  "calculateTaxableIncome getStandardDeduction' f =
     (let agi = calculateAGI f;
          standardDeduction = getStandardDeduction' (filingStatus f);
          deductions = max standardDeduction (or0 (line12 f));
          qbiDeduction = or0 (line13 f)
      in max 0 (agi - deductions - qbiDeduction))"

section \<open>The recomputation in closed form\<close>

text \<open>
  The values \<^verbatim>\<open>recalculateForm1040Totals\<close> assigns, as functions of the form it is
  given: line 12 after the standard deduction is filled in, taxable income, total tax and
  total payments.
\<close>

definition new_line12 :: "Form1040Data \<Rightarrow> rat option" where
  "new_line12 f = (if or0 (line12 f) = 0 \<and> filingStatus f \<noteq> None
                   then Some (getStandardDeduction (filingStatus f)) else line12 f)"

definition new_line15 :: "Form1040Data \<Rightarrow> rat" where
  "new_line15 f = max 0 (calculateTotalIncome f - or0 (new_line12 f) - or0 (line13 f))"

definition new_line24 :: "Form1040Data \<Rightarrow> rat" where
  "new_line24 f = calculateTaxLiability (new_line15 f) (filingStatus f) + or0 (line17 f) + or0 (line23 f)"

definition new_line32 :: "Form1040Data \<Rightarrow> rat" where
  "new_line32 f = or0 (line25a f) + or0 (line25b f) + or0 (line25c f) + or0 (line25d f)"

section \<open>Strings\<close>

text \<open>
  A string of the program is a list of one-byte characters here; the conversion to lower
  case acts on the letters A to Z and leaves every other character alone.
\<close>

definition toLowerChar :: "char \<Rightarrow> char" where
  "toLowerChar c =
     (case map_of (zip ''ABCDEFGHIJKLMNOPQRSTUVWXYZ'' ''abcdefghijklmnopqrstuvwxyz'') c of
        Some l \<Rightarrow> l
      | None \<Rightarrow> c)"

definition toLowerCase :: "string \<Rightarrow> string" where
  "toLowerCase s = map toLowerChar s"

text \<open>\<^verbatim>\<open>text.includes(s)\<close>: \<open>s\<close> occurs in \<open>text\<close> as a contiguous substring.\<close>

fun startsWith :: "string \<Rightarrow> string \<Rightarrow> bool" where
  "startsWith t [] = True"
| "startsWith [] (c # cs) = False"
| "startsWith (x # xs) (c # cs) = (x = c \<and> startsWith xs cs)"

fun js_includes :: "string \<Rightarrow> string \<Rightarrow> bool" where
  "js_includes [] s = (s = [])"
| "js_includes (x # xs) s = (startsWith (x # xs) s \<or> js_includes xs s)"

text \<open>\<^verbatim>\<open>s.trim()\<close>.\<close>

definition js_trim :: "string \<Rightarrow> string" where
  "js_trim s = rev (dropWhile is_space (rev (dropWhile is_space s)))"

section \<open>Document classifier\<close>

text \<open>
  The counting loops of \<^verbatim>\<open>detectFormType\<close> and \<^verbatim>\<open>detectSpecific1099Type\<close>
  (azure-document-intelligence-service.ts, 923-933 and 881-886): the score goes up by one
  for every indicator the lower-cased text includes.
\<close>

fun countLoop :: "string \<Rightarrow> string list \<Rightarrow> nat \<Rightarrow> nat" where
  "countLoop text [] score = score"
| "countLoop text (indicator # rest) score =
     countLoop text rest (if js_includes text indicator then score + 1 else score)"

definition w2Indicators :: "string list" where
  "w2Indicators =
    [''form w-2'', ''wage and tax statement'', ''wages, tips, other compensation'',
     ''federal income tax withheld'', ''social security wages'', ''medicare wages'']"

definition form1099Indicators :: "string list" where
  "form1099Indicators = [''form 1099'', ''1099-'', ''payer'', ''recipient'', ''tin'']"

definition w2Score :: "string \<Rightarrow> nat" where
  "w2Score ocrText = countLoop (toLowerCase ocrText) w2Indicators 0"

definition form1099Score :: "string \<Rightarrow> nat" where
  "form1099Score ocrText = countLoop (toLowerCase ocrText) form1099Indicators 0"

text \<open>\<^verbatim>\<open>detectFormType\<close> (897-944).\<close>

definition detectFormType :: "string \<Rightarrow> string" where
  "detectFormType ocrText =
     (if w2Score ocrText > form1099Score ocrText then ''W2''
      else if form1099Score ocrText > 0 then ''1099''
      else ''UNKNOWN'')"

text \<open>The table \<^verbatim>\<open>formTypePatterns\<close> of \<^verbatim>\<open>detectSpecific1099Type\<close> (833-874).\<close>

definition formTypePatterns :: "(string \<times> string list) list" where
  "formTypePatterns =
    [(''FORM_1099_DIV'',
        [''form 1099-div'', ''dividends and distributions'', ''ordinary dividends'',
         ''qualified dividends'', ''total capital gain distributions'',
         ''capital gain distributions'']),
     (''FORM_1099_INT'',
        [''form 1099-int'', ''interest income'', ''early withdrawal penalty'',
         ''interest on u.s. treasury obligations'', ''investment expenses'']),
     (''FORM_1099_MISC'',
        [''form 1099-misc'', ''miscellaneous income'', ''nonemployee compensation'',
         ''rents'', ''royalties'', ''fishing boat proceeds'']),
     (''FORM_1099_NEC'',
        [''form 1099-nec'', ''nonemployee compensation'', ''nec''])]"

text \<open>The score of one entry of the table on a lower-cased text.\<close>

definition patternScore :: "string \<Rightarrow> string \<times> string list \<Rightarrow> nat" where
  "patternScore text formPattern = countLoop text (snd formPattern) 0"

text \<open>
  The loop over the table (879-891) with its variable \<^verbatim>\<open>bestMatch\<close>, a pair of type and
  score: an entry replaces the best match when its score is strictly higher.
\<close>

fun bestMatchLoop :: "string \<Rightarrow> (string \<times> string list) list \<Rightarrow> string \<times> nat \<Rightarrow> string \<times> nat" where
  "bestMatchLoop text [] bestMatch = bestMatch"
| "bestMatchLoop text (formPattern # rest) bestMatch =
     (let score = patternScore text formPattern
      in bestMatchLoop text rest
           (if score > snd bestMatch then (fst formPattern, score) else bestMatch))"

text \<open>\<^verbatim>\<open>detectSpecific1099Type\<close> (827-895); the best match starts as \<^verbatim>\<open>FORM_1099_MISC\<close> with score 0.\<close>

definition detectSpecific1099Type :: "string \<Rightarrow> string" where
  "detectSpecific1099Type ocrText =
     fst (bestMatchLoop (toLowerCase ocrText) formTypePatterns (''FORM_1099_MISC'', 0))"

text \<open>\<^verbatim>\<open>analyzeDocumentTypeFromOCR\<close> (809-825).\<close>

definition analyzeDocumentTypeFromOCR :: "string \<Rightarrow> string" where
  "analyzeDocumentTypeFromOCR ocrText =
     (let formType = detectFormType ocrText
      in if formType = ''W2'' then ''W2''
         else if formType = ''1099'' then detectSpecific1099Type ocrText
         else ''UNKNOWN'')"

text \<open>The score of a subtype: the score of its entry in the table, 0 for any other name.\<close>

definition typeScore :: "string \<Rightarrow> string \<Rightarrow> nat" where
  "typeScore ocrText t =
     (case map_of formTypePatterns t of
        None \<Rightarrow> 0
      | Some indicators \<Rightarrow> countLoop (toLowerCase ocrText) indicators 0)"

section \<open>Reconciliation of the 1099-MISC fields\<close>

text \<open>
  \<^verbatim>\<open>AzureDocumentIntelligenceService.parseAmount\<close>
  (azure-document-intelligence-service.ts, 2867-2880): a number is returned as it is
  (\<open>None\<close> is \<^verbatim>\<open>NaN\<close>), a string is parsed after its dollar signs and commas are
  removed, with 0 for an unparsable one, and every other value gives 0.
\<close>

fun service_parseAmount :: "parseFloat \<Rightarrow> jsval \<Rightarrow> rat option" where
  "service_parseAmount pf (JNum x) = Some x"
| "service_parseAmount pf JNaN = None"
| "service_parseAmount pf (JStr s) =
     (case pf (filter (\<lambda>c. c \<noteq> CHR ''$'' \<and> c \<noteq> CHR '','') s) of
        None \<Rightarrow> Some 0
      | Some q \<Rightarrow> Some q)"
| "service_parseAmount pf v = Some 0"

text \<open>\<^verbatim>\<open>this.parseAmount(v) || 0\<close>.\<close>

definition amountOr0 :: "parseFloat \<Rightarrow> jsval \<Rightarrow> rat" where
  "amountOr0 pf v = or0 (service_parseAmount pf v)"





fun adjacentSwapLoop :: "parseFloat \<Rightarrow> jsobj \<Rightarrow> jsobj \<Rightarrow> (string \<times> string) list \<Rightarrow> jsobj \<Rightarrow> jsobj" where
  "adjacentSwapLoop pf structuredData ocrData [] correctedData = correctedData"
| "adjacentSwapLoop pf structuredData ocrData ((field1, field2) # rest) correctedData =
     (let struct1 = amountOr0 pf (getprop structuredData field1);
          struct2 = amountOr0 pf (getprop structuredData field2);
          ocr1 = amountOr0 pf (getprop ocrData field1);
          ocr2 = amountOr0 pf (getprop ocrData field2)
      in adjacentSwapLoop pf structuredData ocrData rest
           (if struct1 > 0 \<and> struct2 > 0 \<and> ocr1 > 0 \<and> ocr2 > 0 \<and>
               \<bar>struct1 - ocr2\<bar> < 100 \<and> \<bar>struct2 - ocr1\<bar> < 100
            then setprop (setprop correctedData field1 (JNum ocr1)) field2 (JNum ocr2)
            else correctedData))"



text \<open>The condition under which the loop over the adjacent pairs corrects a pair (709-710).\<close>

definition swapFires :: "parseFloat \<Rightarrow> jsobj \<Rightarrow> jsobj \<Rightarrow> string \<Rightarrow> string \<Rightarrow> bool" where
  "swapFires pf sd od a b =
     (amountOr0 pf (getprop sd a) > 0 \<and> amountOr0 pf (getprop sd b) > 0 \<and>
      amountOr0 pf (getprop od a) > 0 \<and> amountOr0 pf (getprop od b) > 0 \<and>
      \<bar>amountOr0 pf (getprop sd a) - amountOr0 pf (getprop od b)\<bar> < 100 \<and>
      \<bar>amountOr0 pf (getprop sd b) - amountOr0 pf (getprop od a)\<bar> < 100)"


section \<open>Text-pattern extraction of the 1099-INT fields\<close>

text \<open>
  \<^verbatim>\<open>extract1099IntFieldsFromOCR\<close> (azure-document-intelligence-service.ts, 2368-2467)
  finds the section of a box with a regular expression built from the box number, the
  field label and the next box number. The regular-expression engine is not part of the
  repository: the match of that section pattern is the parameter \<open>sectionMatch\<close>, which
  gives the captured section, or \<open>None\<close> when the pattern does not match the text.
  \<^verbatim>\<open>extractPersonalInfoFromOCR\<close> is a battery of regular expressions too; its result
  is the parameter \<open>personalInfo\<close>.
\<close>

type_synonym sectionMatcher = "string \<Rightarrow> string \<Rightarrow> string \<Rightarrow> string \<Rightarrow> string option"

definition is_digit :: "char \<Rightarrow> bool" where
  "is_digit c = (c \<in> set ''0123456789'')"

definition is_alpha :: "char \<Rightarrow> bool" where
  "is_alpha c = (c \<in> set ''ABCDEFGHIJKLMNOPQRSTUVWXYZabcdefghijklmnopqrstuvwxyz'')"

text \<open>
  The first match of \<^verbatim>\<open>/([0-9,]+\.?\d{0,2})/\<close> in a section (2399-2400): the first
  run of digits and commas, a dot if one follows, and up to two digits after it.
\<close>

definition valueMatch :: "string \<Rightarrow> string option" where
  "valueMatch section =
     (let rest = dropWhile (\<lambda>c. \<not> (is_digit c \<or> c = CHR '','')) section
      in if rest = [] then None
         else
           let run = takeWhile (\<lambda>c. is_digit c \<or> c = CHR '','') rest;
               after = dropWhile (\<lambda>c. is_digit c \<or> c = CHR '','') rest;
               dot = (case after of c # r \<Rightarrow> (if c = CHR ''.'' then [c] else []) | [] \<Rightarrow> []);
               after' = drop (length dot) after
           in Some (run @ dot @ take 2 (takeWhile is_digit after')))"

text \<open>
  The closure \<^verbatim>\<open>extractFieldValue\<close> (2383-2417): 0 when the section is not found, the
  parsed first amount of the section when there is one (\<^verbatim>\<open>NaN\<close> when it does not
  parse), and 0 otherwise.
\<close>

definition extractFieldValue ::
  "parseFloat \<Rightarrow> sectionMatcher \<Rightarrow> string \<Rightarrow> string \<Rightarrow> string \<Rightarrow> string \<Rightarrow> jsval" where
  "extractFieldValue pf sectionMatch ocrText boxNumber fieldLabel nextBoxNumber =
     (case sectionMatch boxNumber fieldLabel nextBoxNumber ocrText of
        None \<Rightarrow> JNum 0
      | Some section \<Rightarrow>
          (case valueMatch section of
             Some m \<Rightarrow>
               (case pf (filter (\<lambda>c. c \<noteq> CHR '','') m) of
                  None \<Rightarrow> JNaN
                | Some v \<Rightarrow> JNum v)
           | None \<Rightarrow> JNum 0))"

text \<open>
  The first match of \<^verbatim>\<open>/([A-Za-z][A-Za-z\s]*[A-Za-z]|[A-Za-z0-9\-]+)/\<close> (2436-2437). It
  starts at the first letter, digit or hyphen. From a letter, the first alternative takes
  the letters and spaces that follow up to the last letter among them; when there is no
  such letter, or the start is not a letter, the second alternative takes the run of
  letters, digits and hyphens.
\<close>

definition textMatch :: "string \<Rightarrow> string option" where
  "textMatch s =
     (let word = (\<lambda>c. is_alpha c \<or> is_digit c \<or> c = CHR ''-'');
          rest = dropWhile (\<lambda>c. \<not> word c) s
      in case rest of
           [] \<Rightarrow> None
         | c # cs \<Rightarrow>
             (let run = takeWhile (\<lambda>x. is_alpha x \<or> is_space x) cs;
                  upToLastLetter = rev (dropWhile (\<lambda>x. \<not> is_alpha x) (rev run))
              in if is_alpha c \<and> upToLastLetter \<noteq> []
                 then Some (c # upToLastLetter)
                 else Some (takeWhile word rest)))"

text \<open>The closure \<^verbatim>\<open>extractTextFieldValue\<close> (2420-2447).\<close>

definition extractTextFieldValue ::
  "sectionMatcher \<Rightarrow> string \<Rightarrow> string \<Rightarrow> string \<Rightarrow> string \<Rightarrow> jsval" where
  "extractTextFieldValue sectionMatch ocrText boxNumber fieldLabel nextBoxNumber =
     (case sectionMatch boxNumber fieldLabel nextBoxNumber ocrText of
        None \<Rightarrow> JStr ''''
      | Some section \<Rightarrow>
          (case textMatch (js_trim section) of
             Some m \<Rightarrow> JStr (js_trim m)
           | None \<Rightarrow> JStr ''''))"

text \<open>
  Lines 2371-2379: the copy of \<^verbatim>\<open>baseData\<close> and the five identity fields, each written
  when the personal information has a truthy value for it.
\<close>

definition copyPersonalInfo :: "jsobj \<Rightarrow> jsobj \<Rightarrow> jsobj" where
  "copyPersonalInfo personalInfo baseData =
     (let data = baseData;
          data = (if truthy (getprop personalInfo ''name'')
                  then setprop data ''recipientName'' (getprop personalInfo ''name'') else data);
          data = (if truthy (getprop personalInfo ''tin'')
                  then setprop data ''recipientTIN'' (getprop personalInfo ''tin'') else data);
          data = (if truthy (getprop personalInfo ''address'')
                  then setprop data ''recipientAddress'' (getprop personalInfo ''address'') else data);
          data = (if truthy (getprop personalInfo ''payerName'')
                  then setprop data ''payerName'' (getprop personalInfo ''payerName'') else data);
          data = (if truthy (getprop personalInfo ''payerTIN'')
                  then setprop data ''payerTIN'' (getprop personalInfo ''payerTIN'') else data)
      in data)"

text \<open>
  The three field labels that are written as regular expressions in the source:
  \<^verbatim>\<open>Interest on U\.?S\.? Savings Bonds and Treasury obligations\<close>,
  \<^verbatim>\<open>Foreign country or U\.?S\.? possession\<close> and \<^verbatim>\<open>State/Payer's state no\.\<close>
  (character 0x5C is the backslash, 0x27 the apostrophe).
\<close>

definition label_box3 :: "string" where
  "label_box3 = ''Interest on U'' @ [CHR 0x5C] @ ''.?S'' @ [CHR 0x5C] @
     ''.? Savings Bonds and Treasury obligations''"

definition label_box7 :: "string" where
  "label_box7 = ''Foreign country or U'' @ [CHR 0x5C] @ ''.?S'' @ [CHR 0x5C] @ ''.? possession''"

definition label_box14 :: "string" where
  "label_box14 = ''State/Payer'' @ [CHR 0x27] @ ''s state no'' @ [CHR 0x5C] @ ''.''"

text \<open>Lines 2450-2463: the fourteen assignments, in order.\<close>

definition extract1099IntFieldsFromOCR ::
  "parseFloat \<Rightarrow> sectionMatcher \<Rightarrow> jsobj \<Rightarrow> string \<Rightarrow> jsobj \<Rightarrow> jsobj" where
  "extract1099IntFieldsFromOCR pf sectionMatch personalInfo ocrText baseData =
     (let amount = extractFieldValue pf sectionMatch ocrText;
          txt = extractTextFieldValue sectionMatch ocrText;
          data = copyPersonalInfo personalInfo baseData;
          data = setprop data ''interestIncome'' (amount ''1'' ''Interest income'' ''2'');
          data = setprop data ''earlyWithdrawalPenalty'' (amount ''2'' ''Early withdrawal penalty'' ''3'');
          data = setprop data ''interestOnUSavingsBonds''
                   (amount ''3'' label_box3 ''4'');
          data = setprop data ''federalTaxWithheld'' (amount ''4'' ''Federal income tax withheld'' ''5'');
          data = setprop data ''investmentExpenses'' (amount ''5'' ''Investment expenses'' ''6'');
          data = setprop data ''foreignTaxPaid'' (amount ''6'' ''Foreign tax paid'' ''7'');
          data = setprop data ''foreignCountry'' (txt ''7'' label_box7 ''8'');
          data = setprop data ''taxExemptInterest'' (amount ''8'' ''Tax-exempt interest'' ''9'');
          data = setprop data ''specifiedPrivateActivityBondInterest''
                   (amount ''9'' ''Specified private activity bond interest'' ''10'');
          data = setprop data ''marketDiscount'' (amount ''10'' ''Market discount'' ''11'');
          data = setprop data ''bondPremium'' (amount ''11'' ''Bond premium'' ''13'');
          data = setprop data ''stateTaxWithheld'' (amount ''13'' ''State tax withheld'' ''14'');
          data = setprop data ''statePayerNumber'' (txt ''14'' label_box14 ''15'');
          data = setprop data ''stateInterest'' (amount ''15'' ''State interest'' ''16'')
      in data)"

text \<open>
  The canonical numeric fields of the interest statement, each with the box number, the
  field label and the next box number its extraction is called with.
\<close>

definition amountFields1099Int :: "(string \<times> string \<times> string \<times> string) list" where
  "amountFields1099Int =
    [(''interestIncome'', ''1'', ''Interest income'', ''2''),
     (''earlyWithdrawalPenalty'', ''2'', ''Early withdrawal penalty'', ''3''),
     (''interestOnUSavingsBonds'', ''3'',
        label_box3, ''4''),
     (''federalTaxWithheld'', ''4'', ''Federal income tax withheld'', ''5''),
     (''investmentExpenses'', ''5'', ''Investment expenses'', ''6''),
     (''foreignTaxPaid'', ''6'', ''Foreign tax paid'', ''7''),
     (''taxExemptInterest'', ''8'', ''Tax-exempt interest'', ''9''),
     (''specifiedPrivateActivityBondInterest'', ''9'',
        ''Specified private activity bond interest'', ''10''),
     (''marketDiscount'', ''10'', ''Market discount'', ''11''),
     (''bondPremium'', ''11'', ''Bond premium'', ''13''),
     (''stateTaxWithheld'', ''13'', ''State tax withheld'', ''14''),
     (''stateInterest'', ''15'', ''State interest'', ''16'')]"

section \<open>Double-precision arithmetic\<close>

text \<open>
  A number of the program is an IEEE 754 double. The sections above compute with exact
  rationals; this section gives the arithmetic of the runtime on finite values: the exact
  result rounded to the nearest double, ties to even. \<open>roundDouble\<close> rounds to 53
  significant bits with an unbounded exponent, so overflow to infinity and the subnormal
  range are outside the model; amounts of currency are far from both.
\<close>

definition pow2 :: "int \<Rightarrow> rat" where
  "pow2 k = (if k \<ge> 0 then 2 ^ nat k else 1 / 2 ^ nat (- k))"

text \<open>The exponent of a positive rational: the integer \<open>e\<close> with \<open>2^e \<le> a < 2^(e+1)\<close>.\<close>

definition floorLog2 :: "rat \<Rightarrow> int" where
  "floorLog2 a =
     (let (p, q) = quotient_of a;
          k = bitlen p - bitlen q
      in if pow2 k \<le> a then k else k - 1)"

definition roundHalfEven :: "rat \<Rightarrow> int" where
  "roundHalfEven m =
     (let f = \<lfloor>m\<rfloor>;
          d = m - of_int f
      in if d < 1 / 2 then f
         else if d > 1 / 2 then f + 1
         else if even f then f else f + 1)"

definition roundDouble :: "rat \<Rightarrow> rat" where
  "roundDouble x =
     (if x = 0 then 0
      else
        let a = \<bar>x\<bar>;
            ulp = pow2 (floorLog2 a - 52);
            m = of_int (roundHalfEven (a / ulp)) * ulp
        in if x < 0 then - m else m)"

text \<open>A rational is a double when rounding leaves it as it is.\<close>

definition isDouble :: "rat \<Rightarrow> bool" where
  "isDouble x = (roundDouble x = x)"

text \<open>The operators \<^verbatim>\<open>+\<close>, \<^verbatim>\<open>-\<close>, \<^verbatim>\<open>*\<close> and \<^verbatim>\<open>/\<close> of the runtime.\<close>

definition dadd :: "rat \<Rightarrow> rat \<Rightarrow> rat" where
  "dadd a b = roundDouble (a + b)"

definition dsub :: "rat \<Rightarrow> rat \<Rightarrow> rat" where
  "dsub a b = roundDouble (a - b)"

definition dmul :: "rat \<Rightarrow> rat \<Rightarrow> rat" where
  "dmul a b = roundDouble (a * b)"

definition ddiv :: "rat \<Rightarrow> rat \<Rightarrow> rat" where
  "ddiv a b = roundDouble (a / b)"

section \<open>The mapper and the recomputation in double precision\<close>

text \<open>
  The functions of 1099-to-1040-mapping.ts once more, now with every arithmetic operation
  rounded as the runtime rounds it. Each definition follows the exact one of the same name
  line by line; only the operators differ. Sums are rounded after every addition, from
  left to right, as the source's expressions are evaluated.
\<close>

definition calculateTotalIncome_dbl :: "Form1040Data \<Rightarrow> rat" where
  "calculateTotalIncome_dbl f =
     dadd (dadd (dadd (dadd (dadd (dadd (dadd (or0 (line1 f)) (or0 (line2b f))) (or0 (line3b f)))
       (or0 (line4b f))) (or0 (line5b f))) (or0 (line6b f))) (or0 (line7 f))) (or0 (line8 f))"

text \<open>The rate literals \<^verbatim>\<open>0.10\<close>, \<^verbatim>\<open>0.12\<close>, ... denote the nearest doubles.\<close>

definition brackets_dbl :: "bracket list \<Rightarrow> bracket list" where
  "brackets_dbl bs = map (\<lambda>b. b\<lparr>rate := roundDouble (rate b)\<rparr>) bs"

fun bracket_loop_dbl :: "bracket list \<Rightarrow> rat \<Rightarrow> rat \<Rightarrow> rat" where
  "bracket_loop_dbl [] tax remainingIncome = tax"
| "bracket_loop_dbl (b # bs) tax remainingIncome =
     (if remainingIncome \<le> 0 then tax
      else
        let taxableAtThisBracket =
              (case max_b b of
                 None \<Rightarrow> remainingIncome
               | Some m \<Rightarrow> min remainingIncome (dsub m (min_b b)))
        in bracket_loop_dbl bs (dadd tax (dmul taxableAtThisBracket (rate b)))
             (dsub remainingIncome taxableAtThisBracket))"

text \<open>\<^verbatim>\<open>Math.round(tax * 100) / 100\<close>: the product and the quotient are rounded.\<close>

definition calculateTaxLiability_dbl :: "rat \<Rightarrow> FilingStatus option \<Rightarrow> rat" where
  "calculateTaxLiability_dbl taxableIncome fs =
     (let brackets = brackets_dbl
            (if fs = Some MARRIED_FILING_JOINTLY then brackets_joint else brackets_other);
          tax = bracket_loop_dbl brackets 0 taxableIncome
      in ddiv (of_int (js_round (dmul tax 100))) 100)"

definition recalculateForm1040Totals_dbl :: "Form1040Data \<Rightarrow> Form1040Data" where
  "recalculateForm1040Totals_dbl f0 =
     (let f1 = f0\<lparr>line9 := Some (calculateTotalIncome_dbl f0)\<rparr>;
          f2 = f1\<lparr>line11 := line9 f1\<rparr>;
          f3 = (if or0 (line12 f2) = 0 \<and> filingStatus f2 \<noteq> None
                then f2\<lparr>line12 := Some (getStandardDeduction (filingStatus f2))\<rparr>
                else f2);
          f4 = f3\<lparr>line15 := Some (max 0 (dsub (dsub (or0 (line11 f3)) (or0 (line12 f3))) (or0 (line13 f3))))\<rparr>;
          f5 = f4\<lparr>line16 := Some (calculateTaxLiability_dbl (or0 (line15 f4)) (filingStatus f4))\<rparr>;
          f6 = f5\<lparr>line24 := Some (dadd (dadd (or0 (line16 f5)) (or0 (line17 f5))) (or0 (line23 f5)))\<rparr>;
          f7 = f6\<lparr>line32 := Some (dadd (dadd (dadd (or0 (line25a f6)) (or0 (line25b f6))) (or0 (line25c f6))) (or0 (line25d f6)))\<rparr>;
          totalTax = or0 (line24 f7);
          totalPayments = or0 (line32 f7)
      in if totalPayments > totalTax
         then f7\<lparr>line33 := Some (dsub totalPayments totalTax),
                 line34 := Some (dsub totalPayments totalTax),
                 line37 := Some 0\<rparr>
         else f7\<lparr>line33 := Some 0, line34 := Some 0, line37 := Some (dsub totalTax totalPayments)\<rparr>)"

text \<open>Lines 96-100. Box 1, interest income, is added to line 2b.\<close>

definition map_interestIncome_dbl :: "parseFloat \<Rightarrow> jsobj \<Rightarrow> Form1040Data \<Rightarrow> Form1040Data" where
  "map_interestIncome_dbl pf d f =
     (let interestIncome = parseAmount pf (getprop d ''interestIncome'')
      in if interestIncome > 0
         then f\<lparr>line2b := Some (dadd (or0 (line2b f)) interestIncome)\<rparr>
         else f)"

text \<open>Lines 103-107. Box 3, interest on U.S. savings bonds, is added to line 2b.\<close>

definition map_interestOnUSavingsBonds_dbl :: "parseFloat \<Rightarrow> jsobj \<Rightarrow> Form1040Data \<Rightarrow> Form1040Data" where
  "map_interestOnUSavingsBonds_dbl pf d f =
     (let interestOnUSavingsBonds = parseAmount pf (getprop d ''interestOnUSavingsBonds'')
      in if interestOnUSavingsBonds > 0
         then f\<lparr>line2b := Some (dadd (or0 (line2b f)) interestOnUSavingsBonds)\<rparr>
         else f)"

text \<open>Lines 110-114. Box 8, tax-exempt interest, is added to line 2a.\<close>

definition map_taxExemptInterest_dbl :: "parseFloat \<Rightarrow> jsobj \<Rightarrow> Form1040Data \<Rightarrow> Form1040Data" where
  "map_taxExemptInterest_dbl pf d f =
     (let taxExemptInterest = parseAmount pf (getprop d ''taxExemptInterest'')
      in if taxExemptInterest > 0
         then f\<lparr>line2a := Some (dadd (or0 (line2a f)) taxExemptInterest)\<rparr>
         else f)"

text \<open>Lines 117-123. Box 9 is stored (not accumulated) in the AMT adjustments.\<close>

definition map_specifiedPrivateActivityBondInterest_dbl :: "parseFloat \<Rightarrow> jsobj \<Rightarrow> Form1040Data \<Rightarrow> Form1040Data" where
  "map_specifiedPrivateActivityBondInterest_dbl pf d f =
     (let specifiedPrivateActivityBondInterest = parseAmount pf (getprop d ''specifiedPrivateActivityBondInterest'')
      in if specifiedPrivateActivityBondInterest > 0
         then f\<lparr>amtAdjustments := Some ((case amtAdjustments f of None \<Rightarrow> \<lparr>privateActivityBondInterest = None\<rparr> | Some a \<Rightarrow> a)
                 \<lparr>privateActivityBondInterest := Some specifiedPrivateActivityBondInterest\<rparr>)\<rparr>
         else f)"

text \<open>Lines 126-130. Box 10, market discount, is added to line 2b.\<close>

definition map_marketDiscount_dbl :: "parseFloat \<Rightarrow> jsobj \<Rightarrow> Form1040Data \<Rightarrow> Form1040Data" where
  "map_marketDiscount_dbl pf d f =
     (let marketDiscount = parseAmount pf (getprop d ''marketDiscount'')
      in if marketDiscount > 0
         then f\<lparr>line2b := Some (dadd (or0 (line2b f)) marketDiscount)\<rparr>
         else f)"

text \<open>Lines 133-137. Box 11, bond premium, is subtracted from line 2b, which is floored at zero.\<close>

definition map_bondPremium_dbl :: "parseFloat \<Rightarrow> jsobj \<Rightarrow> Form1040Data \<Rightarrow> Form1040Data" where
  "map_bondPremium_dbl pf d f =
     (let bondPremium = parseAmount pf (getprop d ''bondPremium'')
      in if bondPremium > 0
         then f\<lparr>line2b := Some (max 0 (dsub (or0 (line2b f)) bondPremium))\<rparr>
         else f)"

text \<open>Lines 140-145. Box 13, state tax withheld, is added to Schedule A.\<close>

definition map_stateTaxWithheld_dbl :: "parseFloat \<Rightarrow> jsobj \<Rightarrow> Form1040Data \<Rightarrow> Form1040Data" where
  "map_stateTaxWithheld_dbl pf d f =
     (let stateTaxWithheld' = parseAmount pf (getprop d ''stateTaxWithheld'')
      in if stateTaxWithheld' > 0
         then (let a = (case scheduleA f of None \<Rightarrow> \<lparr>stateTaxWithheld = None, investmentExpenses = None\<rparr> | Some a \<Rightarrow> a)
            in f\<lparr>scheduleA := Some (a\<lparr>stateTaxWithheld := Some (dadd (or0 (stateTaxWithheld a)) stateTaxWithheld')\<rparr>)\<rparr>)
         else f)"

text \<open>Lines 148-153. Box 15, state interest, is added to the state data.\<close>

definition map_stateInterest_dbl :: "parseFloat \<Rightarrow> jsobj \<Rightarrow> Form1040Data \<Rightarrow> Form1040Data" where
  "map_stateInterest_dbl pf d f =
     (let stateInterest = parseAmount pf (getprop d ''stateInterest'')
      in if stateInterest > 0
         then (let a = (case stateData f of None \<Rightarrow> \<lparr>interestIncome = None\<rparr> | Some a \<Rightarrow> a)
            in f\<lparr>stateData := Some (a\<lparr>interestIncome := Some (dadd (or0 (interestIncome a)) stateInterest)\<rparr>)\<rparr>)
         else f)"

text \<open>Lines 156-161. Box 2, early withdrawal penalty, is added to Schedule 1.\<close>

definition map_earlyWithdrawalPenalty_dbl :: "parseFloat \<Rightarrow> jsobj \<Rightarrow> Form1040Data \<Rightarrow> Form1040Data" where
  "map_earlyWithdrawalPenalty_dbl pf d f =
     (let earlyWithdrawalPenalty' = parseAmount pf (getprop d ''earlyWithdrawalPenalty'')
      in if earlyWithdrawalPenalty' > 0
         then (let a = (case schedule1 f of None \<Rightarrow> \<lparr>earlyWithdrawalPenalty = None\<rparr> | Some a \<Rightarrow> a)
            in f\<lparr>schedule1 := Some (a\<lparr>earlyWithdrawalPenalty := Some (dadd (or0 (earlyWithdrawalPenalty a)) earlyWithdrawalPenalty')\<rparr>)\<rparr>)
         else f)"

text \<open>Lines 164-169. Box 5, investment expenses, is added to Schedule A.\<close>

definition map_investmentExpenses_dbl :: "parseFloat \<Rightarrow> jsobj \<Rightarrow> Form1040Data \<Rightarrow> Form1040Data" where
  "map_investmentExpenses_dbl pf d f =
     (let investmentExpenses' = parseAmount pf (getprop d ''investmentExpenses'')
      in if investmentExpenses' > 0
         then (let a = (case scheduleA f of None \<Rightarrow> \<lparr>stateTaxWithheld = None, investmentExpenses = None\<rparr> | Some a \<Rightarrow> a)
            in f\<lparr>scheduleA := Some (a\<lparr>investmentExpenses := Some (dadd (or0 (investmentExpenses a)) investmentExpenses')\<rparr>)\<rparr>)
         else f)"

text \<open>Lines 172-178. Box 6, foreign tax paid, is added to the foreign tax credit, with the country.\<close>

definition map_foreignTaxPaid_dbl :: "parseFloat \<Rightarrow> jsobj \<Rightarrow> Form1040Data \<Rightarrow> Form1040Data" where
  "map_foreignTaxPaid_dbl pf d f =
     (let foreignTaxPaid' = parseAmount pf (getprop d ''foreignTaxPaid'')
      in if foreignTaxPaid' > 0
         then (let a = (case foreignTaxCredit f of None \<Rightarrow> \<lparr>foreignTaxPaid = None, foreignCountry = JUndefined\<rparr> | Some a \<Rightarrow> a)
            in f\<lparr>foreignTaxCredit := Some (a\<lparr>foreignTaxPaid := Some (dadd (or0 (foreignTaxPaid a)) foreignTaxPaid'),
                 foreignCountry := js_or (getprop d ''foreignCountry'') (JStr ''Unknown'')\<rparr>)\<rparr>)
         else f)"

text \<open>Lines 181-185. Ordinary dividends are added to line 3b.\<close>

definition map_ordinaryDividends_dbl :: "parseFloat \<Rightarrow> jsobj \<Rightarrow> Form1040Data \<Rightarrow> Form1040Data" where
  "map_ordinaryDividends_dbl pf d f =
     (let ordinaryDividends = parseAmount pf (getprop d ''ordinaryDividends'')
      in if ordinaryDividends > 0
         then f\<lparr>line3b := Some (dadd (or0 (line3b f)) ordinaryDividends)\<rparr>
         else f)"

text \<open>Lines 187-191. Qualified dividends are added to line 3a.\<close>

definition map_qualifiedDividends_dbl :: "parseFloat \<Rightarrow> jsobj \<Rightarrow> Form1040Data \<Rightarrow> Form1040Data" where
  "map_qualifiedDividends_dbl pf d f =
     (let qualifiedDividends = parseAmount pf (getprop d ''qualifiedDividends'')
      in if qualifiedDividends > 0
         then f\<lparr>line3a := Some (dadd (or0 (line3a f)) qualifiedDividends)\<rparr>
         else f)"

text \<open>Lines 194-198. Capital gain distributions are added to line 7.\<close>

definition map_totalCapitalGain_dbl :: "parseFloat \<Rightarrow> jsobj \<Rightarrow> Form1040Data \<Rightarrow> Form1040Data" where
  "map_totalCapitalGain_dbl pf d f =
     (let totalCapitalGain = parseAmount pf (getprop d ''totalCapitalGain'')
      in if totalCapitalGain > 0
         then f\<lparr>line7 := Some (dadd (or0 (line7 f)) totalCapitalGain)\<rparr>
         else f)"

text \<open>Lines 201-206. Rents are added to line 8.\<close>

definition map_rents_dbl :: "parseFloat \<Rightarrow> jsobj \<Rightarrow> Form1040Data \<Rightarrow> Form1040Data" where
  "map_rents_dbl pf d f =
     (let rents = parseAmount pf (getprop d ''rents'')
      in if rents > 0
         then f\<lparr>line8 := Some (dadd (or0 (line8 f)) rents)\<rparr>
         else f)"

text \<open>Lines 208-213. Royalties are added to line 8.\<close>

definition map_royalties_dbl :: "parseFloat \<Rightarrow> jsobj \<Rightarrow> Form1040Data \<Rightarrow> Form1040Data" where
  "map_royalties_dbl pf d f =
     (let royalties = parseAmount pf (getprop d ''royalties'')
      in if royalties > 0
         then f\<lparr>line8 := Some (dadd (or0 (line8 f)) royalties)\<rparr>
         else f)"

text \<open>Lines 215-220. Other income is added to line 8.\<close>

definition map_otherIncome_dbl :: "parseFloat \<Rightarrow> jsobj \<Rightarrow> Form1040Data \<Rightarrow> Form1040Data" where
  "map_otherIncome_dbl pf d f =
     (let otherIncome = parseAmount pf (getprop d ''otherIncome'')
      in if otherIncome > 0
         then f\<lparr>line8 := Some (dadd (or0 (line8 f)) otherIncome)\<rparr>
         else f)"

text \<open>Lines 223-228. Nonemployee compensation is added to line 8.\<close>

definition map_nonemployeeCompensation_dbl :: "parseFloat \<Rightarrow> jsobj \<Rightarrow> Form1040Data \<Rightarrow> Form1040Data" where
  "map_nonemployeeCompensation_dbl pf d f =
     (let nonemployeeCompensation = parseAmount pf (getprop d ''nonemployeeCompensation'')
      in if nonemployeeCompensation > 0
         then f\<lparr>line8 := Some (dadd (or0 (line8 f)) nonemployeeCompensation)\<rparr>
         else f)"

text \<open>
  Lines 231-243. The withholding is read from \<^verbatim>\<open>federalTaxWithheld\<close>, else from
  \<^verbatim>\<open>FederalIncomeTaxWithheld\<close>, and added to line 25a.
\<close>

definition map_federalTaxWithheld_dbl :: "parseFloat \<Rightarrow> jsobj \<Rightarrow> Form1040Data \<Rightarrow> Form1040Data" where
  "map_federalTaxWithheld_dbl pf d f =
     (let federalTaxWithheldValue =
            js_or (js_or (getprop d ''federalTaxWithheld'') (getprop d ''FederalIncomeTaxWithheld''))
              (getprop d ''FederalIncomeTaxWithheld'');
          federalTaxWithheld = parseAmount pf federalTaxWithheldValue
      in if federalTaxWithheld > 0
         then f\<lparr>line25a := Some (dadd (or0 (line25a f)) federalTaxWithheld)\<rparr>
         else f)"

definition income_mapping_dbl :: "parseFloat \<Rightarrow> jsobj \<Rightarrow> Form1040Data \<Rightarrow> Form1040Data" where
  "income_mapping_dbl pf d =
     map_federalTaxWithheld_dbl pf d \<circ>
     map_nonemployeeCompensation_dbl pf d \<circ>
     map_otherIncome_dbl pf d \<circ>
     map_royalties_dbl pf d \<circ>
     map_rents_dbl pf d \<circ>
     map_totalCapitalGain_dbl pf d \<circ>
     map_qualifiedDividends_dbl pf d \<circ>
     map_ordinaryDividends_dbl pf d \<circ>
     map_foreignTaxPaid_dbl pf d \<circ>
     map_investmentExpenses_dbl pf d \<circ>
     map_earlyWithdrawalPenalty_dbl pf d \<circ>
     map_stateInterest_dbl pf d \<circ>
     map_stateTaxWithheld_dbl pf d \<circ>
     map_bondPremium_dbl pf d \<circ>
     map_marketDiscount_dbl pf d \<circ>
     map_specifiedPrivateActivityBondInterest_dbl pf d \<circ>
     map_taxExemptInterest_dbl pf d \<circ>
     map_interestOnUSavingsBonds_dbl pf d \<circ>
     map_interestIncome_dbl pf d"

definition map1099ToForm1040_dbl :: "parseFloat \<Rightarrow> jsobj \<Rightarrow> Form1040Data \<Rightarrow> Form1040Data" where
  "map1099ToForm1040_dbl pf form1099Data existingForm1040 =
     recalculateForm1040Totals_dbl
       (income_mapping_dbl pf (actual1099Data form1099Data) existingForm1040)"

text \<open>The closed form of the recomputation in double precision.\<close>

definition new_line15_dbl :: "Form1040Data \<Rightarrow> rat" where
  "new_line15_dbl f =
     max 0 (dsub (dsub (calculateTotalIncome_dbl f) (or0 (new_line12 f))) (or0 (line13 f)))"

definition new_line24_dbl :: "Form1040Data \<Rightarrow> rat" where
  "new_line24_dbl f =
     dadd (dadd (calculateTaxLiability_dbl (new_line15_dbl f) (filingStatus f)) (or0 (line17 f)))
       (or0 (line23 f))"

definition new_line32_dbl :: "Form1040Data \<Rightarrow> rat" where
  "new_line32_dbl f =
     dadd (dadd (dadd (or0 (line25a f)) (or0 (line25b f))) (or0 (line25c f))) (or0 (line25d f))"

text \<open>
  The amounts a document adds to line 8 (rents, royalties, other income and nonemployee
  compensation, each when positive), the number of positive amounts it adds to line 2b and
  to line 8, and the statement that every amount the mapper accumulates is a double.
\<close>

definition line8Additions :: "parseFloat \<Rightarrow> jsobj \<Rightarrow> rat" where
  "line8Additions pf d =
     positive (parseAmount pf (getprop d ''rents'')) +
     positive (parseAmount pf (getprop d ''royalties'')) +
     positive (parseAmount pf (getprop d ''otherIncome'')) +
     positive (parseAmount pf (getprop d ''nonemployeeCompensation''))"

definition contributions2b :: "parseFloat \<Rightarrow> jsobj \<Rightarrow> rat list" where
  "contributions2b pf d =
     filter (\<lambda>x. x > 0)
       [parseAmount pf (getprop d ''interestIncome''),
        parseAmount pf (getprop d ''interestOnUSavingsBonds''),
        parseAmount pf (getprop d ''marketDiscount'')]"

definition contributions8 :: "parseFloat \<Rightarrow> jsobj \<Rightarrow> rat list" where
  "contributions8 pf d =
     filter (\<lambda>x. x > 0)
       [parseAmount pf (getprop d ''rents''),
        parseAmount pf (getprop d ''royalties''),
        parseAmount pf (getprop d ''otherIncome''),
        parseAmount pf (getprop d ''nonemployeeCompensation'')]"

definition federalTaxWithheldOf :: "parseFloat \<Rightarrow> jsobj \<Rightarrow> rat" where
  "federalTaxWithheldOf pf d =
     parseAmount pf
       (js_or (js_or (getprop d ''federalTaxWithheld'') (getprop d ''FederalIncomeTaxWithheld''))
          (getprop d ''FederalIncomeTaxWithheld''))"

definition amountsAreDoubles :: "parseFloat \<Rightarrow> jsobj \<Rightarrow> bool" where
  "amountsAreDoubles pf d =
     (isDouble (parseAmount pf (getprop d ''interestIncome'')) \<and>
      isDouble (parseAmount pf (getprop d ''interestOnUSavingsBonds'')) \<and>
      isDouble (parseAmount pf (getprop d ''marketDiscount'')) \<and>
      isDouble (parseAmount pf (getprop d ''ordinaryDividends'')) \<and>
      isDouble (parseAmount pf (getprop d ''totalCapitalGain'')) \<and>
      isDouble (parseAmount pf (getprop d ''rents'')) \<and>
      isDouble (parseAmount pf (getprop d ''royalties'')) \<and>
      isDouble (parseAmount pf (getprop d ''otherIncome'')) \<and>
      isDouble (parseAmount pf (getprop d ''nonemployeeCompensation'')) \<and>
      isDouble (federalTaxWithheldOf pf d))"

text \<open>An accumulating rule on one line: the amount is added when it is positive.\<close>

definition addPositive :: "rat \<Rightarrow> rat \<Rightarrow> rat" where
  "addPositive x v = (if v > 0 then dadd x v else x)"

text \<open>
  A document to which the amended claim C4 applies: no positive bond premium, at most one
  positive amount for line 2b and at most one for line 8, and amounts that are doubles.
\<close>

definition singleContributions :: "parseFloat \<Rightarrow> jsobj \<Rightarrow> bool" where
  "singleContributions pf d =
     (bondPremiumOf pf d = 0 \<and> length (contributions2b pf d) \<le> 1 \<and>
      length (contributions8 pf d) \<le> 1 \<and> amountsAreDoubles pf d)"

section \<open>Selection of the primary employee record\<close>

text \<open>
  The names this part of the program compares can hold any character, so a string is
  modelled here as the runtime has it: a list of UTF-16 code units, each an integer from
  0 to 65535. \<open>units\<close> turns a literal of ASCII characters into such a list.
\<close>

type_synonym jsstring = "int list"

definition units :: "string \<Rightarrow> jsstring" where
  "units s = map of_char s"

text \<open>
  \<^verbatim>\<open>toUpperCase\<close> and \<^verbatim>\<open>toLowerCase\<close> belong to the runtime and follow the Unicode case
  mappings (they map \<^verbatim>\<open>e\<close> with acute to its capital and the sharp s to \<^verbatim>\<open>SS\<close>). They
  are parameters of the model, written \<open>upper\<close> and \<open>lower\<close>.
\<close>

type_synonym caseMap = "jsstring \<Rightarrow> jsstring"

text \<open>
  The white space of the runtime, which \<^verbatim>\<open>trim\<close> strips and \<^verbatim>\<open>\s\<close> matches: tab, line
  feed, vertical tab, form feed, carriage return, space, no-break space, U+1680, U+2000
  to U+200A, U+2028, U+2029, U+202F, U+205F, U+3000 and U+FEFF.
\<close>

definition isWhiteSpace :: "int \<Rightarrow> bool" where
  "isWhiteSpace c =
     (c \<in> set [9, 10, 11, 12, 13, 32, 160, 5760, 8192, 8193, 8194, 8195, 8196, 8197, 8198,
                8199, 8200, 8201, 8202, 8232, 8233, 8239, 8287, 12288, 65279])"

definition trimUnits :: "jsstring \<Rightarrow> jsstring" where
  "trimUnits s = rev (dropWhile isWhiteSpace (rev (dropWhile isWhiteSpace s)))"

text \<open>\<^verbatim>\<open>s.includes(t)\<close> on code units.\<close>

fun unitsStartWith :: "jsstring \<Rightarrow> jsstring \<Rightarrow> bool" where
  "unitsStartWith t [] = True"
| "unitsStartWith [] (c # cs) = False"
| "unitsStartWith (x # xs) (c # cs) = (x = c \<and> unitsStartWith xs cs)"

fun unitsInclude :: "jsstring \<Rightarrow> jsstring \<Rightarrow> bool" where
  "unitsInclude [] s = (s = [])"
| "unitsInclude (x # xs) s = (unitsStartWith (x # xs) s \<or> unitsInclude xs s)"

text \<open>
  The records \<^verbatim>\<open>selectPrimaryEmployeeRecord\<close> chooses from
  (azure-document-intelligence-service.ts, 1793-1800); an optional field is \<open>None\<close> when
  it is missing.
\<close>

record EmployeeRecord =
  name :: "jsstring option"
  ssn :: "jsstring option"
  address :: "jsstring option"
  confidence :: rat
  sourceText :: jsstring

text \<open>Truthiness of an optional string: present and not empty.\<close>

definition str_truthy :: "jsstring option \<Rightarrow> bool" where
  "str_truthy x = (case x of None \<Rightarrow> False | Some s \<Rightarrow> s \<noteq> [])"

text \<open>
  \<^verbatim>\<open>s.replace(/\s+/g, ' ')\<close>: every run of white space becomes one space (code unit 32).
  The flag says that the previous code unit was white space.
\<close>

fun collapse_spaces :: "bool \<Rightarrow> jsstring \<Rightarrow> jsstring" where
  "collapse_spaces prev [] = []"
| "collapse_spaces prev (c # cs) =
     (if isWhiteSpace c
      then (if prev then collapse_spaces True cs else 32 # collapse_spaces True cs)
      else c # collapse_spaces False cs)"

text \<open>\<^verbatim>\<open>normalizeNameForMatching\<close> (1898-1900): trim, upper case, collapse the white space.\<close>

definition normalizeNameForMatching :: "caseMap \<Rightarrow> jsstring \<Rightarrow> jsstring" where
  "normalizeNameForMatching upper n = collapse_spaces False (upper (trimUnits n))"

text \<open>\<^verbatim>\<open>s.split(' ')\<close>; the accumulator holds the current piece, reversed.\<close>

fun split_loop :: "jsstring \<Rightarrow> jsstring \<Rightarrow> jsstring list" where
  "split_loop acc [] = [rev acc]"
| "split_loop acc (c # cs) =
     (if c = 32 then rev acc # split_loop [] cs else split_loop (c # acc) cs)"

definition split_space :: "jsstring \<Rightarrow> jsstring list" where
  "split_space s = split_loop [] s"

text \<open>
  The test of lines 1829-1845 on one record: the record has a name (not empty), and its
  normalized name equals the normalized target (exact match) or contains every word of
  the normalized target (word-subset match, "all words in target appear in record").
\<close>

definition matchesTarget :: "caseMap \<Rightarrow> jsstring \<Rightarrow> EmployeeRecord \<Rightarrow> bool" where
  "matchesTarget upper normalizedTarget r =
     (case name r of
        None \<Rightarrow> False
      | Some n \<Rightarrow>
          n \<noteq> [] \<and>
          (let normalizedRecordName = normalizeNameForMatching upper n;
               targetWords = split_space normalizedTarget;
               recordWords = split_space normalizedRecordName
           in normalizedRecordName = normalizedTarget \<or>
              list_all (\<lambda>word. word \<in> set recordWords) targetWords))"

text \<open>
  \<^verbatim>\<open>calculateNameSimilarity\<close> (1905-1925). The quotient is a double; \<^verbatim>\<open>split\<close> returns at
  least one piece, so the divisor is never zero.
\<close>

definition calculateNameSimilarity :: "caseMap \<Rightarrow> jsstring \<Rightarrow> jsstring \<Rightarrow> rat" where
  "calculateNameSimilarity upper name1 name2 =
     (let normalized1 = normalizeNameForMatching upper name1;
          normalized2 = normalizeNameForMatching upper name2
      in if normalized1 = normalized2 then 1
         else
           let words1 = split_space normalized1;
               words2 = split_space normalized2;
               matchingWords = length (filter (\<lambda>word1. word1 \<in> set words2) words1);
               totalWords = max (length words1) (length words2)
           in ddiv (of_nat matchingWords) (of_nat totalWords))"

text \<open>
  The composite score of one record (1853-1878), one \<open>let\<close> for each update of \<^verbatim>\<open>score\<close>,
  in the double arithmetic of the runtime. The confidence is a finite number (the
  extraction sets it to a whole number from 0 to 100).
\<close>

definition finalScore :: "caseMap \<Rightarrow> caseMap \<Rightarrow> jsstring option \<Rightarrow> EmployeeRecord \<Rightarrow> rat" where
  "finalScore upper lower targetEmployeeName r =
     (let score = confidence r;
          score = (if str_truthy (name r) then dadd score 10 else score);
          score = (if str_truthy (ssn r) then dadd score 20 else score);
          score = (if str_truthy (address r) then dadd score 15 else score);
          score = (case name r of
                     Some n \<Rightarrow> (if n \<noteq> [] \<and> length n < 6 then dsub score 10 else score)
                   | None \<Rightarrow> score);
          score = (case name r of
                     Some n \<Rightarrow>
                       (if n \<noteq> [] \<and> \<not> unitsInclude (lower n) (units ''inc'') \<and>
                           \<not> unitsInclude (lower n) (units ''llc'') \<and>
                           \<not> unitsInclude (lower n) (units ''corp'')
                        then dadd score 5 else score)
                   | None \<Rightarrow> score);
          score = (case (targetEmployeeName, name r) of
                     (Some t, Some n) \<Rightarrow>
                       (if t \<noteq> [] \<and> n \<noteq> []
                        then dadd score (dmul (calculateNameSimilarity upper t n) 30)
                        else score)
                   | _ \<Rightarrow> score)
      in score)"

text \<open>
  \<^verbatim>\<open>selectPrimaryEmployeeRecord\<close> (1793-1893). No record gives \<^verbatim>\<open>null\<close>, a single record
  is returned as it is. With a truthy target name the first record that matches it is
  returned. Otherwise the records are scored, sorted by descending score (the sort of the
  runtime is stable) and the first one is returned together with its score.
\<close>

definition targetMatch ::
  "caseMap \<Rightarrow> EmployeeRecord list \<Rightarrow> jsstring option \<Rightarrow> EmployeeRecord option" where
  "targetMatch upper employeeRecords targetEmployeeName =
     (case targetEmployeeName of
        None \<Rightarrow> None
      | Some t \<Rightarrow>
          if t \<noteq> []
          then find (matchesTarget upper (normalizeNameForMatching upper t)) employeeRecords
          else None)"

definition scoredRecords ::
  "caseMap \<Rightarrow> caseMap \<Rightarrow> EmployeeRecord list \<Rightarrow> jsstring option \<Rightarrow> (EmployeeRecord \<times> rat) list" where
  "scoredRecords upper lower employeeRecords targetEmployeeName =
     sort_key (\<lambda>(r, s). - s)
       (map (\<lambda>r. (r, finalScore upper lower targetEmployeeName r)) employeeRecords)"

definition selectPrimaryEmployeeRecord ::
  "caseMap \<Rightarrow> caseMap \<Rightarrow> EmployeeRecord list \<Rightarrow> jsstring option \<Rightarrow>
     (EmployeeRecord \<times> rat option) option" where
  "selectPrimaryEmployeeRecord upper lower employeeRecords targetEmployeeName =
     (case employeeRecords of
        [] \<Rightarrow> None
      | [r] \<Rightarrow> Some (r, None)
      | _ \<Rightarrow>
          (case targetMatch upper employeeRecords targetEmployeeName of
             Some r \<Rightarrow> Some (r, None)
           | None \<Rightarrow>
               (case scoredRecords upper lower employeeRecords targetEmployeeName of
                  [] \<Rightarrow> None
                | (r, s) # rest \<Rightarrow> Some (r, Some s))))"

text \<open>
  The case mappings of the runtime on strings of Latin-1 characters (code units below
  256), for the examples. Upper case: the letters a to z and the accented letters 224 to
  254 (without the division sign 247) lie 32 above their capitals, the sharp s (223)
  becomes \<^verbatim>\<open>SS\<close>, the micro sign (181) becomes the capital mu (924) and the y with
  diaeresis (255) its capital (376). Lower case: the capitals A to Z and 192 to 222
  (without the multiplication sign 215) lie 32 below their small letters.
\<close>

definition upperUnit :: "int \<Rightarrow> jsstring" where
  "upperUnit c =
     (if c = 223 then [83, 83]
      else if c = 181 then [924]
      else if c = 255 then [376]
      else if (97 \<le> c \<and> c \<le> 122) \<or> (224 \<le> c \<and> c \<le> 254 \<and> c \<noteq> 247) then [c - 32]
      else [c])"

definition upperLatin :: "caseMap" where
  "upperLatin s = concat (map upperUnit s)"

definition lowerLatin :: "caseMap" where
  "lowerLatin s =
     map (\<lambda>c. if (65 \<le> c \<and> c \<le> 90) \<or> (192 \<le> c \<and> c \<le> 222 \<and> c \<noteq> 215) then c + 32 else c) s"

text \<open>
  Two records of one document, for the scenario of the specification: the first block
  belongs to another person, the second to the person asked for. Code unit 201 is the
  capital E with acute, 233 the small one. The confidences are those of the extraction:
  50, and 30 more with a social security number.
\<close>

definition recordAlex :: "EmployeeRecord" where
  "recordAlex = \<lparr> name = Some (units ''Alex Smith''), ssn = Some (units ''123-45-6789''),
     address = None, confidence = 80, sourceText = units ''Alex Smith 123-45-6789'' \<rparr>"

definition recordJose :: "EmployeeRecord" where
  "recordJose = \<lparr> name = Some (units ''JOS'' @ [201] @ units ''  DIAZ''), ssn = None,
     address = None, confidence = 50, sourceText = units ''JOS'' @ [201] @ units ''  DIAZ'' \<rparr>"

definition targetJose :: "jsstring" where
  "targetJose = units ''Jos'' @ [233] @ units '' Diaz''"

text \<open>
  A detected name in capitals and a structured target name with a sharp s (code unit
  223).
\<close>

definition recordHans :: "EmployeeRecord" where
  "recordHans = \<lparr> name = Some (units ''HANS STRAUSS''), ssn = None,
     address = None, confidence = 50, sourceText = units ''HANS STRAUSS'' \<rparr>"

definition targetHans :: "jsstring" where
  "targetHans = units ''Hans Strau'' @ [223]"

section \<open>Facts about the recalculation and the box rules\<close>

lemma or0_Some [simp]: "or0 (Some x) = x"
  by (simp add: or0_def)

lemma or0_None [simp]: "or0 None = 0"
  by (simp add: or0_def)

lemma floor_rat_numeral_div [simp]: "\<lfloor>(numeral a :: rat) / numeral b\<rfloor> = numeral a div numeral b"
  using floor_divide_of_int_eq[of "numeral a" "numeral b", where ?'a = rat] by simp

lemma if_line12: "(if c then f\<lparr>line12 := a\<rparr> else f) = f\<lparr>line12 := (if c then a else line12 f)\<rparr>"
  by simp

lemma if_refund:
  "(if c then f\<lparr>line33 := a, line34 := b, line37 := d\<rparr> else f\<lparr>line33 := a', line34 := b', line37 := d'\<rparr>)
     = f\<lparr>line33 := (if c then a else a'), line34 := (if c then b else b'), line37 := (if c then d else d')\<rparr>"
  by simp

lemma recalc_closed: "recalculateForm1040Totals f =
   f\<lparr>line9 := Some (calculateTotalIncome f), line11 := Some (calculateTotalIncome f),
     line12 := new_line12 f, line15 := Some (new_line15 f),
     line16 := Some (calculateTaxLiability (new_line15 f) (filingStatus f)),
     line24 := Some (new_line24 f), line32 := Some (new_line32 f),
     line33 := (if new_line32 f > new_line24 f then Some (new_line32 f - new_line24 f) else Some 0),
     line34 := (if new_line32 f > new_line24 f then Some (new_line32 f - new_line24 f) else Some 0),
     line37 := (if new_line32 f > new_line24 f then Some 0 else Some (new_line24 f - new_line32 f))\<rparr>"
  unfolding recalculateForm1040Totals_def if_line12 if_refund new_line12_def new_line15_def new_line24_def new_line32_def
  by (simp add: Let_def split del: if_split cong: if_cong)

lemma map_interestIncome_keeps [simp]:
  "filingStatus (map_interestIncome pf d f) = filingStatus f"
  "line1 (map_interestIncome pf d f) = line1 f"
  "line3b (map_interestIncome pf d f) = line3b f"
  "line4b (map_interestIncome pf d f) = line4b f"
  "line5b (map_interestIncome pf d f) = line5b f"
  "line6b (map_interestIncome pf d f) = line6b f"
  "line7 (map_interestIncome pf d f) = line7 f"
  "line8 (map_interestIncome pf d f) = line8 f"
  "line12 (map_interestIncome pf d f) = line12 f"
  "line13 (map_interestIncome pf d f) = line13 f"
  "line17 (map_interestIncome pf d f) = line17 f"
  "line23 (map_interestIncome pf d f) = line23 f"
  "line25a (map_interestIncome pf d f) = line25a f"
  "line25b (map_interestIncome pf d f) = line25b f"
  "line25c (map_interestIncome pf d f) = line25c f"
  "line25d (map_interestIncome pf d f) = line25d f"
  by (simp_all add: map_interestIncome_def Let_def)

lemma map_interestIncome_adds [simp]:
  "or0 (line2b (map_interestIncome pf d f)) =
     or0 (line2b f) + positive (parseAmount pf (getprop d ''interestIncome''))"
  by (simp add: map_interestIncome_def Let_def positive_def)

lemma map_interestOnUSavingsBonds_keeps [simp]:
  "filingStatus (map_interestOnUSavingsBonds pf d f) = filingStatus f"
  "line1 (map_interestOnUSavingsBonds pf d f) = line1 f"
  "line3b (map_interestOnUSavingsBonds pf d f) = line3b f"
  "line4b (map_interestOnUSavingsBonds pf d f) = line4b f"
  "line5b (map_interestOnUSavingsBonds pf d f) = line5b f"
  "line6b (map_interestOnUSavingsBonds pf d f) = line6b f"
  "line7 (map_interestOnUSavingsBonds pf d f) = line7 f"
  "line8 (map_interestOnUSavingsBonds pf d f) = line8 f"
  "line12 (map_interestOnUSavingsBonds pf d f) = line12 f"
  "line13 (map_interestOnUSavingsBonds pf d f) = line13 f"
  "line17 (map_interestOnUSavingsBonds pf d f) = line17 f"
  "line23 (map_interestOnUSavingsBonds pf d f) = line23 f"
  "line25a (map_interestOnUSavingsBonds pf d f) = line25a f"
  "line25b (map_interestOnUSavingsBonds pf d f) = line25b f"
  "line25c (map_interestOnUSavingsBonds pf d f) = line25c f"
  "line25d (map_interestOnUSavingsBonds pf d f) = line25d f"
  by (simp_all add: map_interestOnUSavingsBonds_def Let_def)

lemma map_interestOnUSavingsBonds_adds [simp]:
  "or0 (line2b (map_interestOnUSavingsBonds pf d f)) =
     or0 (line2b f) + positive (parseAmount pf (getprop d ''interestOnUSavingsBonds''))"
  by (simp add: map_interestOnUSavingsBonds_def Let_def positive_def)

lemma map_taxExemptInterest_keeps [simp]:
  "filingStatus (map_taxExemptInterest pf d f) = filingStatus f"
  "line1 (map_taxExemptInterest pf d f) = line1 f"
  "line2b (map_taxExemptInterest pf d f) = line2b f"
  "line3b (map_taxExemptInterest pf d f) = line3b f"
  "line4b (map_taxExemptInterest pf d f) = line4b f"
  "line5b (map_taxExemptInterest pf d f) = line5b f"
  "line6b (map_taxExemptInterest pf d f) = line6b f"
  "line7 (map_taxExemptInterest pf d f) = line7 f"
  "line8 (map_taxExemptInterest pf d f) = line8 f"
  "line12 (map_taxExemptInterest pf d f) = line12 f"
  "line13 (map_taxExemptInterest pf d f) = line13 f"
  "line17 (map_taxExemptInterest pf d f) = line17 f"
  "line23 (map_taxExemptInterest pf d f) = line23 f"
  "line25a (map_taxExemptInterest pf d f) = line25a f"
  "line25b (map_taxExemptInterest pf d f) = line25b f"
  "line25c (map_taxExemptInterest pf d f) = line25c f"
  "line25d (map_taxExemptInterest pf d f) = line25d f"
  by (simp_all add: map_taxExemptInterest_def Let_def)

lemma map_specifiedPrivateActivityBondInterest_keeps [simp]:
  "filingStatus (map_specifiedPrivateActivityBondInterest pf d f) = filingStatus f"
  "line1 (map_specifiedPrivateActivityBondInterest pf d f) = line1 f"
  "line2b (map_specifiedPrivateActivityBondInterest pf d f) = line2b f"
  "line3b (map_specifiedPrivateActivityBondInterest pf d f) = line3b f"
  "line4b (map_specifiedPrivateActivityBondInterest pf d f) = line4b f"
  "line5b (map_specifiedPrivateActivityBondInterest pf d f) = line5b f"
  "line6b (map_specifiedPrivateActivityBondInterest pf d f) = line6b f"
  "line7 (map_specifiedPrivateActivityBondInterest pf d f) = line7 f"
  "line8 (map_specifiedPrivateActivityBondInterest pf d f) = line8 f"
  "line12 (map_specifiedPrivateActivityBondInterest pf d f) = line12 f"
  "line13 (map_specifiedPrivateActivityBondInterest pf d f) = line13 f"
  "line17 (map_specifiedPrivateActivityBondInterest pf d f) = line17 f"
  "line23 (map_specifiedPrivateActivityBondInterest pf d f) = line23 f"
  "line25a (map_specifiedPrivateActivityBondInterest pf d f) = line25a f"
  "line25b (map_specifiedPrivateActivityBondInterest pf d f) = line25b f"
  "line25c (map_specifiedPrivateActivityBondInterest pf d f) = line25c f"
  "line25d (map_specifiedPrivateActivityBondInterest pf d f) = line25d f"
  by (simp_all add: map_specifiedPrivateActivityBondInterest_def Let_def)

lemma map_marketDiscount_keeps [simp]:
  "filingStatus (map_marketDiscount pf d f) = filingStatus f"
  "line1 (map_marketDiscount pf d f) = line1 f"
  "line3b (map_marketDiscount pf d f) = line3b f"
  "line4b (map_marketDiscount pf d f) = line4b f"
  "line5b (map_marketDiscount pf d f) = line5b f"
  "line6b (map_marketDiscount pf d f) = line6b f"
  "line7 (map_marketDiscount pf d f) = line7 f"
  "line8 (map_marketDiscount pf d f) = line8 f"
  "line12 (map_marketDiscount pf d f) = line12 f"
  "line13 (map_marketDiscount pf d f) = line13 f"
  "line17 (map_marketDiscount pf d f) = line17 f"
  "line23 (map_marketDiscount pf d f) = line23 f"
  "line25a (map_marketDiscount pf d f) = line25a f"
  "line25b (map_marketDiscount pf d f) = line25b f"
  "line25c (map_marketDiscount pf d f) = line25c f"
  "line25d (map_marketDiscount pf d f) = line25d f"
  by (simp_all add: map_marketDiscount_def Let_def)

lemma map_marketDiscount_adds [simp]:
  "or0 (line2b (map_marketDiscount pf d f)) =
     or0 (line2b f) + positive (parseAmount pf (getprop d ''marketDiscount''))"
  by (simp add: map_marketDiscount_def Let_def positive_def)

lemma map_bondPremium_keeps [simp]:
  "filingStatus (map_bondPremium pf d f) = filingStatus f"
  "line1 (map_bondPremium pf d f) = line1 f"
  "line3b (map_bondPremium pf d f) = line3b f"
  "line4b (map_bondPremium pf d f) = line4b f"
  "line5b (map_bondPremium pf d f) = line5b f"
  "line6b (map_bondPremium pf d f) = line6b f"
  "line7 (map_bondPremium pf d f) = line7 f"
  "line8 (map_bondPremium pf d f) = line8 f"
  "line12 (map_bondPremium pf d f) = line12 f"
  "line13 (map_bondPremium pf d f) = line13 f"
  "line17 (map_bondPremium pf d f) = line17 f"
  "line23 (map_bondPremium pf d f) = line23 f"
  "line25a (map_bondPremium pf d f) = line25a f"
  "line25b (map_bondPremium pf d f) = line25b f"
  "line25c (map_bondPremium pf d f) = line25c f"
  "line25d (map_bondPremium pf d f) = line25d f"
  by (simp_all add: map_bondPremium_def Let_def)

lemma map_bondPremium_adds [simp]:
  "or0 (line2b (map_bondPremium pf d f)) =
     (if parseAmount pf (getprop d ''bondPremium'') > 0
      then max 0 (or0 (line2b f) - parseAmount pf (getprop d ''bondPremium''))
      else or0 (line2b f))"
  by (simp add: map_bondPremium_def Let_def positive_def)

lemma map_stateTaxWithheld_keeps [simp]:
  "filingStatus (map_stateTaxWithheld pf d f) = filingStatus f"
  "line1 (map_stateTaxWithheld pf d f) = line1 f"
  "line2b (map_stateTaxWithheld pf d f) = line2b f"
  "line3b (map_stateTaxWithheld pf d f) = line3b f"
  "line4b (map_stateTaxWithheld pf d f) = line4b f"
  "line5b (map_stateTaxWithheld pf d f) = line5b f"
  "line6b (map_stateTaxWithheld pf d f) = line6b f"
  "line7 (map_stateTaxWithheld pf d f) = line7 f"
  "line8 (map_stateTaxWithheld pf d f) = line8 f"
  "line12 (map_stateTaxWithheld pf d f) = line12 f"
  "line13 (map_stateTaxWithheld pf d f) = line13 f"
  "line17 (map_stateTaxWithheld pf d f) = line17 f"
  "line23 (map_stateTaxWithheld pf d f) = line23 f"
  "line25a (map_stateTaxWithheld pf d f) = line25a f"
  "line25b (map_stateTaxWithheld pf d f) = line25b f"
  "line25c (map_stateTaxWithheld pf d f) = line25c f"
  "line25d (map_stateTaxWithheld pf d f) = line25d f"
  by (simp_all add: map_stateTaxWithheld_def Let_def)

lemma map_stateInterest_keeps [simp]:
  "filingStatus (map_stateInterest pf d f) = filingStatus f"
  "line1 (map_stateInterest pf d f) = line1 f"
  "line2b (map_stateInterest pf d f) = line2b f"
  "line3b (map_stateInterest pf d f) = line3b f"
  "line4b (map_stateInterest pf d f) = line4b f"
  "line5b (map_stateInterest pf d f) = line5b f"
  "line6b (map_stateInterest pf d f) = line6b f"
  "line7 (map_stateInterest pf d f) = line7 f"
  "line8 (map_stateInterest pf d f) = line8 f"
  "line12 (map_stateInterest pf d f) = line12 f"
  "line13 (map_stateInterest pf d f) = line13 f"
  "line17 (map_stateInterest pf d f) = line17 f"
  "line23 (map_stateInterest pf d f) = line23 f"
  "line25a (map_stateInterest pf d f) = line25a f"
  "line25b (map_stateInterest pf d f) = line25b f"
  "line25c (map_stateInterest pf d f) = line25c f"
  "line25d (map_stateInterest pf d f) = line25d f"
  by (simp_all add: map_stateInterest_def Let_def)

lemma map_earlyWithdrawalPenalty_keeps [simp]:
  "filingStatus (map_earlyWithdrawalPenalty pf d f) = filingStatus f"
  "line1 (map_earlyWithdrawalPenalty pf d f) = line1 f"
  "line2b (map_earlyWithdrawalPenalty pf d f) = line2b f"
  "line3b (map_earlyWithdrawalPenalty pf d f) = line3b f"
  "line4b (map_earlyWithdrawalPenalty pf d f) = line4b f"
  "line5b (map_earlyWithdrawalPenalty pf d f) = line5b f"
  "line6b (map_earlyWithdrawalPenalty pf d f) = line6b f"
  "line7 (map_earlyWithdrawalPenalty pf d f) = line7 f"
  "line8 (map_earlyWithdrawalPenalty pf d f) = line8 f"
  "line12 (map_earlyWithdrawalPenalty pf d f) = line12 f"
  "line13 (map_earlyWithdrawalPenalty pf d f) = line13 f"
  "line17 (map_earlyWithdrawalPenalty pf d f) = line17 f"
  "line23 (map_earlyWithdrawalPenalty pf d f) = line23 f"
  "line25a (map_earlyWithdrawalPenalty pf d f) = line25a f"
  "line25b (map_earlyWithdrawalPenalty pf d f) = line25b f"
  "line25c (map_earlyWithdrawalPenalty pf d f) = line25c f"
  "line25d (map_earlyWithdrawalPenalty pf d f) = line25d f"
  by (simp_all add: map_earlyWithdrawalPenalty_def Let_def)

lemma map_investmentExpenses_keeps [simp]:
  "filingStatus (map_investmentExpenses pf d f) = filingStatus f"
  "line1 (map_investmentExpenses pf d f) = line1 f"
  "line2b (map_investmentExpenses pf d f) = line2b f"
  "line3b (map_investmentExpenses pf d f) = line3b f"
  "line4b (map_investmentExpenses pf d f) = line4b f"
  "line5b (map_investmentExpenses pf d f) = line5b f"
  "line6b (map_investmentExpenses pf d f) = line6b f"
  "line7 (map_investmentExpenses pf d f) = line7 f"
  "line8 (map_investmentExpenses pf d f) = line8 f"
  "line12 (map_investmentExpenses pf d f) = line12 f"
  "line13 (map_investmentExpenses pf d f) = line13 f"
  "line17 (map_investmentExpenses pf d f) = line17 f"
  "line23 (map_investmentExpenses pf d f) = line23 f"
  "line25a (map_investmentExpenses pf d f) = line25a f"
  "line25b (map_investmentExpenses pf d f) = line25b f"
  "line25c (map_investmentExpenses pf d f) = line25c f"
  "line25d (map_investmentExpenses pf d f) = line25d f"
  by (simp_all add: map_investmentExpenses_def Let_def)

lemma map_foreignTaxPaid_keeps [simp]:
  "filingStatus (map_foreignTaxPaid pf d f) = filingStatus f"
  "line1 (map_foreignTaxPaid pf d f) = line1 f"
  "line2b (map_foreignTaxPaid pf d f) = line2b f"
  "line3b (map_foreignTaxPaid pf d f) = line3b f"
  "line4b (map_foreignTaxPaid pf d f) = line4b f"
  "line5b (map_foreignTaxPaid pf d f) = line5b f"
  "line6b (map_foreignTaxPaid pf d f) = line6b f"
  "line7 (map_foreignTaxPaid pf d f) = line7 f"
  "line8 (map_foreignTaxPaid pf d f) = line8 f"
  "line12 (map_foreignTaxPaid pf d f) = line12 f"
  "line13 (map_foreignTaxPaid pf d f) = line13 f"
  "line17 (map_foreignTaxPaid pf d f) = line17 f"
  "line23 (map_foreignTaxPaid pf d f) = line23 f"
  "line25a (map_foreignTaxPaid pf d f) = line25a f"
  "line25b (map_foreignTaxPaid pf d f) = line25b f"
  "line25c (map_foreignTaxPaid pf d f) = line25c f"
  "line25d (map_foreignTaxPaid pf d f) = line25d f"
  by (simp_all add: map_foreignTaxPaid_def Let_def)

lemma map_ordinaryDividends_keeps [simp]:
  "filingStatus (map_ordinaryDividends pf d f) = filingStatus f"
  "line1 (map_ordinaryDividends pf d f) = line1 f"
  "line2b (map_ordinaryDividends pf d f) = line2b f"
  "line4b (map_ordinaryDividends pf d f) = line4b f"
  "line5b (map_ordinaryDividends pf d f) = line5b f"
  "line6b (map_ordinaryDividends pf d f) = line6b f"
  "line7 (map_ordinaryDividends pf d f) = line7 f"
  "line8 (map_ordinaryDividends pf d f) = line8 f"
  "line12 (map_ordinaryDividends pf d f) = line12 f"
  "line13 (map_ordinaryDividends pf d f) = line13 f"
  "line17 (map_ordinaryDividends pf d f) = line17 f"
  "line23 (map_ordinaryDividends pf d f) = line23 f"
  "line25a (map_ordinaryDividends pf d f) = line25a f"
  "line25b (map_ordinaryDividends pf d f) = line25b f"
  "line25c (map_ordinaryDividends pf d f) = line25c f"
  "line25d (map_ordinaryDividends pf d f) = line25d f"
  by (simp_all add: map_ordinaryDividends_def Let_def)

lemma map_ordinaryDividends_adds [simp]:
  "or0 (line3b (map_ordinaryDividends pf d f)) =
     or0 (line3b f) + positive (parseAmount pf (getprop d ''ordinaryDividends''))"
  by (simp add: map_ordinaryDividends_def Let_def positive_def)

lemma map_qualifiedDividends_keeps [simp]:
  "filingStatus (map_qualifiedDividends pf d f) = filingStatus f"
  "line1 (map_qualifiedDividends pf d f) = line1 f"
  "line2b (map_qualifiedDividends pf d f) = line2b f"
  "line3b (map_qualifiedDividends pf d f) = line3b f"
  "line4b (map_qualifiedDividends pf d f) = line4b f"
  "line5b (map_qualifiedDividends pf d f) = line5b f"
  "line6b (map_qualifiedDividends pf d f) = line6b f"
  "line7 (map_qualifiedDividends pf d f) = line7 f"
  "line8 (map_qualifiedDividends pf d f) = line8 f"
  "line12 (map_qualifiedDividends pf d f) = line12 f"
  "line13 (map_qualifiedDividends pf d f) = line13 f"
  "line17 (map_qualifiedDividends pf d f) = line17 f"
  "line23 (map_qualifiedDividends pf d f) = line23 f"
  "line25a (map_qualifiedDividends pf d f) = line25a f"
  "line25b (map_qualifiedDividends pf d f) = line25b f"
  "line25c (map_qualifiedDividends pf d f) = line25c f"
  "line25d (map_qualifiedDividends pf d f) = line25d f"
  by (simp_all add: map_qualifiedDividends_def Let_def)

lemma map_totalCapitalGain_keeps [simp]:
  "filingStatus (map_totalCapitalGain pf d f) = filingStatus f"
  "line1 (map_totalCapitalGain pf d f) = line1 f"
  "line2b (map_totalCapitalGain pf d f) = line2b f"
  "line3b (map_totalCapitalGain pf d f) = line3b f"
  "line4b (map_totalCapitalGain pf d f) = line4b f"
  "line5b (map_totalCapitalGain pf d f) = line5b f"
  "line6b (map_totalCapitalGain pf d f) = line6b f"
  "line8 (map_totalCapitalGain pf d f) = line8 f"
  "line12 (map_totalCapitalGain pf d f) = line12 f"
  "line13 (map_totalCapitalGain pf d f) = line13 f"
  "line17 (map_totalCapitalGain pf d f) = line17 f"
  "line23 (map_totalCapitalGain pf d f) = line23 f"
  "line25a (map_totalCapitalGain pf d f) = line25a f"
  "line25b (map_totalCapitalGain pf d f) = line25b f"
  "line25c (map_totalCapitalGain pf d f) = line25c f"
  "line25d (map_totalCapitalGain pf d f) = line25d f"
  by (simp_all add: map_totalCapitalGain_def Let_def)

lemma map_totalCapitalGain_adds [simp]:
  "or0 (line7 (map_totalCapitalGain pf d f)) =
     or0 (line7 f) + positive (parseAmount pf (getprop d ''totalCapitalGain''))"
  by (simp add: map_totalCapitalGain_def Let_def positive_def)

lemma map_rents_keeps [simp]:
  "filingStatus (map_rents pf d f) = filingStatus f"
  "line1 (map_rents pf d f) = line1 f"
  "line2b (map_rents pf d f) = line2b f"
  "line3b (map_rents pf d f) = line3b f"
  "line4b (map_rents pf d f) = line4b f"
  "line5b (map_rents pf d f) = line5b f"
  "line6b (map_rents pf d f) = line6b f"
  "line7 (map_rents pf d f) = line7 f"
  "line12 (map_rents pf d f) = line12 f"
  "line13 (map_rents pf d f) = line13 f"
  "line17 (map_rents pf d f) = line17 f"
  "line23 (map_rents pf d f) = line23 f"
  "line25a (map_rents pf d f) = line25a f"
  "line25b (map_rents pf d f) = line25b f"
  "line25c (map_rents pf d f) = line25c f"
  "line25d (map_rents pf d f) = line25d f"
  by (simp_all add: map_rents_def Let_def)

lemma map_rents_adds [simp]:
  "or0 (line8 (map_rents pf d f)) =
     or0 (line8 f) + positive (parseAmount pf (getprop d ''rents''))"
  by (simp add: map_rents_def Let_def positive_def)

lemma map_royalties_keeps [simp]:
  "filingStatus (map_royalties pf d f) = filingStatus f"
  "line1 (map_royalties pf d f) = line1 f"
  "line2b (map_royalties pf d f) = line2b f"
  "line3b (map_royalties pf d f) = line3b f"
  "line4b (map_royalties pf d f) = line4b f"
  "line5b (map_royalties pf d f) = line5b f"
  "line6b (map_royalties pf d f) = line6b f"
  "line7 (map_royalties pf d f) = line7 f"
  "line12 (map_royalties pf d f) = line12 f"
  "line13 (map_royalties pf d f) = line13 f"
  "line17 (map_royalties pf d f) = line17 f"
  "line23 (map_royalties pf d f) = line23 f"
  "line25a (map_royalties pf d f) = line25a f"
  "line25b (map_royalties pf d f) = line25b f"
  "line25c (map_royalties pf d f) = line25c f"
  "line25d (map_royalties pf d f) = line25d f"
  by (simp_all add: map_royalties_def Let_def)

lemma map_royalties_adds [simp]:
  "or0 (line8 (map_royalties pf d f)) =
     or0 (line8 f) + positive (parseAmount pf (getprop d ''royalties''))"
  by (simp add: map_royalties_def Let_def positive_def)

lemma map_otherIncome_keeps [simp]:
  "filingStatus (map_otherIncome pf d f) = filingStatus f"
  "line1 (map_otherIncome pf d f) = line1 f"
  "line2b (map_otherIncome pf d f) = line2b f"
  "line3b (map_otherIncome pf d f) = line3b f"
  "line4b (map_otherIncome pf d f) = line4b f"
  "line5b (map_otherIncome pf d f) = line5b f"
  "line6b (map_otherIncome pf d f) = line6b f"
  "line7 (map_otherIncome pf d f) = line7 f"
  "line12 (map_otherIncome pf d f) = line12 f"
  "line13 (map_otherIncome pf d f) = line13 f"
  "line17 (map_otherIncome pf d f) = line17 f"
  "line23 (map_otherIncome pf d f) = line23 f"
  "line25a (map_otherIncome pf d f) = line25a f"
  "line25b (map_otherIncome pf d f) = line25b f"
  "line25c (map_otherIncome pf d f) = line25c f"
  "line25d (map_otherIncome pf d f) = line25d f"
  by (simp_all add: map_otherIncome_def Let_def)

lemma map_otherIncome_adds [simp]:
  "or0 (line8 (map_otherIncome pf d f)) =
     or0 (line8 f) + positive (parseAmount pf (getprop d ''otherIncome''))"
  by (simp add: map_otherIncome_def Let_def positive_def)

lemma map_nonemployeeCompensation_keeps [simp]:
  "filingStatus (map_nonemployeeCompensation pf d f) = filingStatus f"
  "line1 (map_nonemployeeCompensation pf d f) = line1 f"
  "line2b (map_nonemployeeCompensation pf d f) = line2b f"
  "line3b (map_nonemployeeCompensation pf d f) = line3b f"
  "line4b (map_nonemployeeCompensation pf d f) = line4b f"
  "line5b (map_nonemployeeCompensation pf d f) = line5b f"
  "line6b (map_nonemployeeCompensation pf d f) = line6b f"
  "line7 (map_nonemployeeCompensation pf d f) = line7 f"
  "line12 (map_nonemployeeCompensation pf d f) = line12 f"
  "line13 (map_nonemployeeCompensation pf d f) = line13 f"
  "line17 (map_nonemployeeCompensation pf d f) = line17 f"
  "line23 (map_nonemployeeCompensation pf d f) = line23 f"
  "line25a (map_nonemployeeCompensation pf d f) = line25a f"
  "line25b (map_nonemployeeCompensation pf d f) = line25b f"
  "line25c (map_nonemployeeCompensation pf d f) = line25c f"
  "line25d (map_nonemployeeCompensation pf d f) = line25d f"
  by (simp_all add: map_nonemployeeCompensation_def Let_def)

lemma map_nonemployeeCompensation_adds [simp]:
  "or0 (line8 (map_nonemployeeCompensation pf d f)) =
     or0 (line8 f) + positive (parseAmount pf (getprop d ''nonemployeeCompensation''))"
  by (simp add: map_nonemployeeCompensation_def Let_def positive_def)

lemma map_federalTaxWithheld_keeps [simp]:
  "filingStatus (map_federalTaxWithheld pf d f) = filingStatus f"
  "line1 (map_federalTaxWithheld pf d f) = line1 f"
  "line2b (map_federalTaxWithheld pf d f) = line2b f"
  "line3b (map_federalTaxWithheld pf d f) = line3b f"
  "line4b (map_federalTaxWithheld pf d f) = line4b f"
  "line5b (map_federalTaxWithheld pf d f) = line5b f"
  "line6b (map_federalTaxWithheld pf d f) = line6b f"
  "line7 (map_federalTaxWithheld pf d f) = line7 f"
  "line8 (map_federalTaxWithheld pf d f) = line8 f"
  "line12 (map_federalTaxWithheld pf d f) = line12 f"
  "line13 (map_federalTaxWithheld pf d f) = line13 f"
  "line17 (map_federalTaxWithheld pf d f) = line17 f"
  "line23 (map_federalTaxWithheld pf d f) = line23 f"
  "line25b (map_federalTaxWithheld pf d f) = line25b f"
  "line25c (map_federalTaxWithheld pf d f) = line25c f"
  "line25d (map_federalTaxWithheld pf d f) = line25d f"
  by (simp_all add: map_federalTaxWithheld_def Let_def)

lemma map_federalTaxWithheld_adds [simp]:
  "or0 (line25a (map_federalTaxWithheld pf d f)) =
     or0 (line25a f) + positive (parseAmount pf (js_or (js_or (getprop d ''federalTaxWithheld'') (getprop d ''FederalIncomeTaxWithheld'')) (getprop d ''FederalIncomeTaxWithheld'')))"
  by (simp add: map_federalTaxWithheld_def Let_def positive_def)

lemma income_mapping_keeps [simp]:
  "filingStatus (income_mapping pf d f) = filingStatus f"
  "line1 (income_mapping pf d f) = line1 f"
  "line4b (income_mapping pf d f) = line4b f"
  "line5b (income_mapping pf d f) = line5b f"
  "line6b (income_mapping pf d f) = line6b f"
  "line12 (income_mapping pf d f) = line12 f"
  "line13 (income_mapping pf d f) = line13 f"
  "line17 (income_mapping pf d f) = line17 f"
  "line23 (income_mapping pf d f) = line23 f"
  "line25b (income_mapping pf d f) = line25b f"
  "line25c (income_mapping pf d f) = line25c f"
  "line25d (income_mapping pf d f) = line25d f"
  by (simp_all add: income_mapping_def)

lemma income_mapping_line2b:
  "or0 (line2b (income_mapping pf d f)) =
     (if parseAmount pf (getprop d ''bondPremium'') > 0
      then max 0 (or0 (line2b f) + line2bAdditions pf d - parseAmount pf (getprop d ''bondPremium''))
      else or0 (line2b f) + line2bAdditions pf d)"
  by (simp add: income_mapping_def line2bAdditions_def add.assoc)

lemma income_mapping_line3b:
  "or0 (line3b (income_mapping pf d f)) =
     or0 (line3b f) + positive (parseAmount pf (getprop d ''ordinaryDividends''))"
  by (simp add: income_mapping_def)

lemma income_mapping_line7:
  "or0 (line7 (income_mapping pf d f)) =
     or0 (line7 f) + positive (parseAmount pf (getprop d ''totalCapitalGain''))"
  by (simp add: income_mapping_def)

lemma income_mapping_line8:
  "or0 (line8 (income_mapping pf d f)) =
     or0 (line8 f) + (positive (parseAmount pf (getprop d ''rents'')) +
       positive (parseAmount pf (getprop d ''royalties'')) +
       positive (parseAmount pf (getprop d ''otherIncome'')) +
       positive (parseAmount pf (getprop d ''nonemployeeCompensation'')))"
  by (simp add: income_mapping_def add.assoc)

lemma income_mapping_line25a:
  "or0 (line25a (income_mapping pf d f)) =
     or0 (line25a f) + positive (parseAmount pf
       (js_or (js_or (getprop d ''federalTaxWithheld'') (getprop d ''FederalIncomeTaxWithheld''))
          (getprop d ''FederalIncomeTaxWithheld'')))"
  by (simp add: income_mapping_def)

lemma recalc_keeps [simp]:
  "filingStatus (recalculateForm1040Totals f) = filingStatus f"
  "line1 (recalculateForm1040Totals f) = line1 f"
  "line2b (recalculateForm1040Totals f) = line2b f"
  "line3b (recalculateForm1040Totals f) = line3b f"
  "line4b (recalculateForm1040Totals f) = line4b f"
  "line5b (recalculateForm1040Totals f) = line5b f"
  "line6b (recalculateForm1040Totals f) = line6b f"
  "line7 (recalculateForm1040Totals f) = line7 f"
  "line8 (recalculateForm1040Totals f) = line8 f"
  "line13 (recalculateForm1040Totals f) = line13 f"
  "line17 (recalculateForm1040Totals f) = line17 f"
  "line23 (recalculateForm1040Totals f) = line23 f"
  "line25a (recalculateForm1040Totals f) = line25a f"
  "line25b (recalculateForm1040Totals f) = line25b f"
  "line25c (recalculateForm1040Totals f) = line25c f"
  "line25d (recalculateForm1040Totals f) = line25d f"
  by (simp_all add: recalc_closed)

lemma recalc_derived [simp]:
  "line9 (recalculateForm1040Totals f) = Some (calculateTotalIncome f)"
  "line11 (recalculateForm1040Totals f) = Some (calculateTotalIncome f)"
  "line12 (recalculateForm1040Totals f) = new_line12 f"
  "line15 (recalculateForm1040Totals f) = Some (new_line15 f)"
  "line16 (recalculateForm1040Totals f) = Some (calculateTaxLiability (new_line15 f) (filingStatus f))"
  "line24 (recalculateForm1040Totals f) = Some (new_line24 f)"
  "line32 (recalculateForm1040Totals f) = Some (new_line32 f)"
  "line33 (recalculateForm1040Totals f) =
     (if new_line32 f > new_line24 f then Some (new_line32 f - new_line24 f) else Some 0)"
  "line34 (recalculateForm1040Totals f) =
     (if new_line32 f > new_line24 f then Some (new_line32 f - new_line24 f) else Some 0)"
  "line37 (recalculateForm1040Totals f) =
     (if new_line32 f > new_line24 f then Some 0 else Some (new_line24 f - new_line32 f))"
  by (simp_all add: recalc_closed)

lemma positive_nonneg [simp]: "0 \<le> positive x"
  by (simp add: positive_def)

lemma line2bAdditions_nonneg [simp]: "0 \<le> line2bAdditions pf d"
  by (simp add: line2bAdditions_def)

section \<open>Facts about the classifier\<close>

lemma countLoop_count: "countLoop text inds n = n + length (filter (js_includes text) inds)"
  by (induction inds arbitrary: n) auto

lemma bestMatchLoop_score_ge: "snd best \<le> snd (bestMatchLoop text ps best)"
proof (induction ps arbitrary: best)
  case Nil
  show ?case by simp
next
  case (Cons p ps)
  have "snd best \<le> snd (if patternScore text p > snd best then (fst p, patternScore text p) else best)"
    by simp
  also have "\<dots> \<le> snd (bestMatchLoop text ps (if patternScore text p > snd best then (fst p, patternScore text p) else best))"
    by (rule Cons.IH)
  finally show ?case by (simp add: Let_def)
qed

lemma bestMatchLoop_max:
  "p \<in> set ps \<Longrightarrow> patternScore text p \<le> snd (bestMatchLoop text ps best)"
proof (induction ps arbitrary: best)
  case Nil
  then show ?case by simp
next
  case (Cons q ps)
  let ?b = "if patternScore text q > snd best then (fst q, patternScore text q) else best"
  show ?case
  proof (cases "p = q")
    case True
    have "patternScore text q \<le> snd ?b" by simp
    also have "\<dots> \<le> snd (bestMatchLoop text ps ?b)" by (rule bestMatchLoop_score_ge)
    finally show ?thesis using True by (simp add: Let_def)
  next
    case False
    with Cons.prems have "p \<in> set ps" by simp
    from Cons.IH[OF this, of ?b] show ?thesis by (simp add: Let_def)
  qed
qed

lemma bestMatchLoop_result:
  "bestMatchLoop text ps best = best \<or>
   (\<exists>p \<in> set ps. bestMatchLoop text ps best = (fst p, patternScore text p) \<and> snd best < patternScore text p)"
proof (induction ps arbitrary: best)
  case Nil
  show ?case by simp
next
  case (Cons q ps)
  let ?b = "if patternScore text q > snd best then (fst q, patternScore text q) else best"
  have r: "bestMatchLoop text (q # ps) best = bestMatchLoop text ps ?b"
    by (simp add: Let_def)
  from Cons.IH[of ?b] show ?case
  proof
    assume "bestMatchLoop text ps ?b = ?b"
    then show ?thesis unfolding r by (cases "patternScore text q > snd best") auto
  next
    assume "\<exists>p\<in>set ps. bestMatchLoop text ps ?b = (fst p, patternScore text p) \<and> snd ?b < patternScore text p"
    then obtain p where p: "p \<in> set ps" "bestMatchLoop text ps ?b = (fst p, patternScore text p)"
      "snd ?b < patternScore text p" by blast
    have "snd best \<le> snd ?b" by simp
    with p(3) have "snd best < patternScore text p" by linarith
    with p(1,2) show ?thesis unfolding r by auto
  qed
qed

lemma typeScore_entry:
  "p \<in> set formTypePatterns \<Longrightarrow> typeScore t (fst p) = patternScore (toLowerCase t) p"
  by (auto simp add: formTypePatterns_def typeScore_def patternScore_def simp del: countLoop.simps)

lemma formTypePatterns_names:
  "p \<in> set formTypePatterns \<Longrightarrow>
     fst p \<in> {''FORM_1099_DIV'', ''FORM_1099_INT'', ''FORM_1099_MISC'', ''FORM_1099_NEC''}"
  by (auto simp add: formTypePatterns_def)

lemma detectSpecific1099Type_cases:
  "(detectSpecific1099Type t = ''FORM_1099_MISC'' \<and>
      snd (bestMatchLoop (toLowerCase t) formTypePatterns (''FORM_1099_MISC'', 0)) = 0) \<or>
   (\<exists>p \<in> set formTypePatterns. detectSpecific1099Type t = fst p \<and>
      snd (bestMatchLoop (toLowerCase t) formTypePatterns (''FORM_1099_MISC'', 0)) =
        patternScore (toLowerCase t) p \<and> 0 < patternScore (toLowerCase t) p)"
proof -
  from bestMatchLoop_result[of "toLowerCase t" formTypePatterns "(''FORM_1099_MISC'', 0)"]
  show ?thesis
  proof
    assume "bestMatchLoop (toLowerCase t) formTypePatterns (''FORM_1099_MISC'', 0) = (''FORM_1099_MISC'', 0)"
    then show ?thesis by (simp add: detectSpecific1099Type_def)
  next
    assume "\<exists>p\<in>set formTypePatterns.
       bestMatchLoop (toLowerCase t) formTypePatterns (''FORM_1099_MISC'', 0) =
         (fst p, patternScore (toLowerCase t) p) \<and>
       snd (''FORM_1099_MISC'', 0::nat) < patternScore (toLowerCase t) p"
    then obtain p where p: "p \<in> set formTypePatterns"
      "bestMatchLoop (toLowerCase t) formTypePatterns (''FORM_1099_MISC'', 0) =
         (fst p, patternScore (toLowerCase t) p)"
      "0 < patternScore (toLowerCase t) p" by auto
    have "detectSpecific1099Type t = fst p \<and>
      snd (bestMatchLoop (toLowerCase t) formTypePatterns (''FORM_1099_MISC'', 0)) =
        patternScore (toLowerCase t) p \<and> 0 < patternScore (toLowerCase t) p"
      using p(2,3) by (simp add: detectSpecific1099Type_def)
    with p(1) show ?thesis by blast
  qed
qed

lemma detectSpecific1099Type_maximal:
  assumes "p \<in> set formTypePatterns"
  shows "patternScore (toLowerCase t) p \<le> typeScore t (detectSpecific1099Type t)"
proof -
  have le: "patternScore (toLowerCase t) p \<le>
      snd (bestMatchLoop (toLowerCase t) formTypePatterns (''FORM_1099_MISC'', 0))"
    by (rule bestMatchLoop_max[OF assms])
  from detectSpecific1099Type_cases[of t] show ?thesis
  proof
    assume "detectSpecific1099Type t = ''FORM_1099_MISC'' \<and>
      snd (bestMatchLoop (toLowerCase t) formTypePatterns (''FORM_1099_MISC'', 0)) = 0"
    with le show ?thesis by simp
  next
    assume "\<exists>q \<in> set formTypePatterns. detectSpecific1099Type t = fst q \<and>
      snd (bestMatchLoop (toLowerCase t) formTypePatterns (''FORM_1099_MISC'', 0)) =
        patternScore (toLowerCase t) q \<and> 0 < patternScore (toLowerCase t) q"
    then obtain q where q: "q \<in> set formTypePatterns" "detectSpecific1099Type t = fst q"
      "snd (bestMatchLoop (toLowerCase t) formTypePatterns (''FORM_1099_MISC'', 0)) =
        patternScore (toLowerCase t) q" by blast
    with le show ?thesis by (simp add: typeScore_entry)
  qed
qed

lemma detectSpecific1099Type_range:
  "detectSpecific1099Type t \<in> {''FORM_1099_DIV'', ''FORM_1099_INT'', ''FORM_1099_MISC'', ''FORM_1099_NEC''}"
proof -
  from detectSpecific1099Type_cases[of t] show ?thesis
  proof
    assume "detectSpecific1099Type t = ''FORM_1099_MISC'' \<and>
      snd (bestMatchLoop (toLowerCase t) formTypePatterns (''FORM_1099_MISC'', 0)) = 0"
    then show ?thesis by simp
  next
    assume "\<exists>p \<in> set formTypePatterns. detectSpecific1099Type t = fst p \<and>
      snd (bestMatchLoop (toLowerCase t) formTypePatterns (''FORM_1099_MISC'', 0)) =
        patternScore (toLowerCase t) p \<and> 0 < patternScore (toLowerCase t) p"
    then obtain p where "p \<in> set formTypePatterns" "detectSpecific1099Type t = fst p" by blast
    then show ?thesis using formTypePatterns_names[of p] by simp
  qed
qed

lemma detectSpecific1099Type_default:
  assumes "typeScore t ''FORM_1099_DIV'' = 0" and "typeScore t ''FORM_1099_INT'' = 0"
    and "typeScore t ''FORM_1099_MISC'' = 0" and "typeScore t ''FORM_1099_NEC'' = 0"
  shows "detectSpecific1099Type t = ''FORM_1099_MISC''"
proof -
  from detectSpecific1099Type_cases[of t] show ?thesis
  proof
    assume "detectSpecific1099Type t = ''FORM_1099_MISC'' \<and>
      snd (bestMatchLoop (toLowerCase t) formTypePatterns (''FORM_1099_MISC'', 0)) = 0"
    then show ?thesis by simp
  next
    assume "\<exists>p \<in> set formTypePatterns. detectSpecific1099Type t = fst p \<and>
      snd (bestMatchLoop (toLowerCase t) formTypePatterns (''FORM_1099_MISC'', 0)) =
        patternScore (toLowerCase t) p \<and> 0 < patternScore (toLowerCase t) p"
    then obtain p where p: "p \<in> set formTypePatterns" "0 < patternScore (toLowerCase t) p" by blast
    from formTypePatterns_names[OF p(1)] assms have "typeScore t (fst p) = 0" by auto
    with typeScore_entry[OF p(1), of t] p(2) show ?thesis by simp
  qed
qed

section \<open>Facts about the reconciliation\<close>

lemma getprop_setprop [simp]:
  "getprop (setprop kvs k v) k' = (if k' = k then v else getprop kvs k')"
  by (simp add: getprop_def setprop_def update_conv')




lemma adjacentSwapLoop_Cons:
  "adjacentSwapLoop pf sd od ((a, b) # ps) cd =
     adjacentSwapLoop pf sd od ps
       (if swapFires pf sd od a b
        then setprop (setprop cd a (JNum (amountOr0 pf (getprop od a)))) b
               (JNum (amountOr0 pf (getprop od b)))
        else cd)"
  by (simp add: Let_def swapFires_def)




lemma adjacentSwapLoop_quiet:
  "\<forall>(a, b) \<in> set ps. \<not> swapFires pf sd od a b \<Longrightarrow> adjacentSwapLoop pf sd od ps cd = cd"
proof (induction ps arbitrary: cd)
  case Nil
  show ?case by simp
next
  case (Cons p ps)
  obtain a b where p: "p = (a, b)" by (cases p)
  from Cons.prems p have "\<not> swapFires pf sd od a b" and "\<forall>(a, b) \<in> set ps. \<not> swapFires pf sd od a b"
    by simp_all
  with Cons.IH[of cd] show ?case
    unfolding p adjacentSwapLoop_Cons by simp
qed







section \<open>Facts about the 1099-INT extractor\<close>

lemma extractFieldValue_defined:
  "extractFieldValue pf sm t box label nxt \<noteq> JUndefined"
  by (simp add: extractFieldValue_def split: option.splits)

lemma extractFieldValue_unmatched:
  "sm box label nxt t = None \<Longrightarrow> extractFieldValue pf sm t box label nxt = JNum 0"
  by (simp add: extractFieldValue_def)

lemma extract1099Int_unfold:
  "extract1099IntFieldsFromOCR pf sm pinfo t base =
   setprop (setprop (setprop (setprop (setprop (setprop (setprop (setprop (setprop (setprop
   (setprop (setprop (setprop (setprop (copyPersonalInfo pinfo base)
     ''interestIncome'' (extractFieldValue pf sm t ''1'' ''Interest income'' ''2''))
     ''earlyWithdrawalPenalty'' (extractFieldValue pf sm t ''2'' ''Early withdrawal penalty'' ''3''))
     ''interestOnUSavingsBonds'' (extractFieldValue pf sm t ''3'' label_box3 ''4''))
     ''federalTaxWithheld'' (extractFieldValue pf sm t ''4'' ''Federal income tax withheld'' ''5''))
     ''investmentExpenses'' (extractFieldValue pf sm t ''5'' ''Investment expenses'' ''6''))
     ''foreignTaxPaid'' (extractFieldValue pf sm t ''6'' ''Foreign tax paid'' ''7''))
     ''foreignCountry'' (extractTextFieldValue sm t ''7'' label_box7 ''8''))
     ''taxExemptInterest'' (extractFieldValue pf sm t ''8'' ''Tax-exempt interest'' ''9''))
     ''specifiedPrivateActivityBondInterest''
        (extractFieldValue pf sm t ''9'' ''Specified private activity bond interest'' ''10''))
     ''marketDiscount'' (extractFieldValue pf sm t ''10'' ''Market discount'' ''11''))
     ''bondPremium'' (extractFieldValue pf sm t ''11'' ''Bond premium'' ''13''))
     ''stateTaxWithheld'' (extractFieldValue pf sm t ''13'' ''State tax withheld'' ''14''))
     ''statePayerNumber'' (extractTextFieldValue sm t ''14'' label_box14 ''15''))
     ''stateInterest'' (extractFieldValue pf sm t ''15'' ''State interest'' ''16'')"
  unfolding extract1099IntFieldsFromOCR_def Let_def ..

lemma extract1099Int_amount:
  assumes "(k, box, label, nxt) \<in> set amountFields1099Int"
  shows "getprop (extract1099IntFieldsFromOCR pf sm pinfo t base) k =
           extractFieldValue pf sm t box label nxt"
proof -
  from assms have
    "(k, box, label, nxt) = (''interestIncome'', ''1'', ''Interest income'', ''2'') \<or>
     (k, box, label, nxt) = (''earlyWithdrawalPenalty'', ''2'', ''Early withdrawal penalty'', ''3'') \<or>
     (k, box, label, nxt) = (''interestOnUSavingsBonds'', ''3'', label_box3, ''4'') \<or>
     (k, box, label, nxt) = (''federalTaxWithheld'', ''4'', ''Federal income tax withheld'', ''5'') \<or>
     (k, box, label, nxt) = (''investmentExpenses'', ''5'', ''Investment expenses'', ''6'') \<or>
     (k, box, label, nxt) = (''foreignTaxPaid'', ''6'', ''Foreign tax paid'', ''7'') \<or>
     (k, box, label, nxt) = (''taxExemptInterest'', ''8'', ''Tax-exempt interest'', ''9'') \<or>
     (k, box, label, nxt) = (''specifiedPrivateActivityBondInterest'', ''9'',
        ''Specified private activity bond interest'', ''10'') \<or>
     (k, box, label, nxt) = (''marketDiscount'', ''10'', ''Market discount'', ''11'') \<or>
     (k, box, label, nxt) = (''bondPremium'', ''11'', ''Bond premium'', ''13'') \<or>
     (k, box, label, nxt) = (''stateTaxWithheld'', ''13'', ''State tax withheld'', ''14'') \<or>
     (k, box, label, nxt) = (''stateInterest'', ''15'', ''State interest'', ''16'')"
    unfolding amountFields1099Int_def by simp
  then show ?thesis
    by (elim disjE) (simp_all add: extract1099Int_unfold)
qed

lemma valueMatch_example: "valueMatch '' $ 1,234.507 x'' = Some ''1,234.50''"
  by (simp add: valueMatch_def is_digit_def Let_def)

lemma textMatch_example: "textMatch ''12 New  York 5'' = Some ''12''"
  "textMatch ''  New  York 5'' = Some ''New  York''" "textMatch ''X-1 a'' = Some ''X-1''"
  by (simp_all add: textMatch_def is_digit_def is_alpha_def is_space_def Let_def)

section \<open>Facts about the mapper in double precision\<close>

lemma recalc_dbl_closed: "recalculateForm1040Totals_dbl f =
   f\<lparr>line9 := Some (calculateTotalIncome_dbl f), line11 := Some (calculateTotalIncome_dbl f),
     line12 := new_line12 f, line15 := Some (new_line15_dbl f),
     line16 := Some (calculateTaxLiability_dbl (new_line15_dbl f) (filingStatus f)),
     line24 := Some (new_line24_dbl f), line32 := Some (new_line32_dbl f),
     line33 := (if new_line32_dbl f > new_line24_dbl f
                then Some (dsub (new_line32_dbl f) (new_line24_dbl f)) else Some 0),
     line34 := (if new_line32_dbl f > new_line24_dbl f
                then Some (dsub (new_line32_dbl f) (new_line24_dbl f)) else Some 0),
     line37 := (if new_line32_dbl f > new_line24_dbl f
                then Some 0 else Some (dsub (new_line24_dbl f) (new_line32_dbl f)))\<rparr>"
  unfolding recalculateForm1040Totals_dbl_def if_line12 if_refund new_line12_def new_line15_dbl_def
    new_line24_dbl_def new_line32_dbl_def
  by (simp add: Let_def split del: if_split cong: if_cong)

lemma recalc_dbl_keeps [simp]:
  "filingStatus (recalculateForm1040Totals_dbl f) = filingStatus f"
  "line1 (recalculateForm1040Totals_dbl f) = line1 f"
  "line2b (recalculateForm1040Totals_dbl f) = line2b f"
  "line3b (recalculateForm1040Totals_dbl f) = line3b f"
  "line4b (recalculateForm1040Totals_dbl f) = line4b f"
  "line5b (recalculateForm1040Totals_dbl f) = line5b f"
  "line6b (recalculateForm1040Totals_dbl f) = line6b f"
  "line7 (recalculateForm1040Totals_dbl f) = line7 f"
  "line8 (recalculateForm1040Totals_dbl f) = line8 f"
  "line13 (recalculateForm1040Totals_dbl f) = line13 f"
  "line17 (recalculateForm1040Totals_dbl f) = line17 f"
  "line23 (recalculateForm1040Totals_dbl f) = line23 f"
  "line25a (recalculateForm1040Totals_dbl f) = line25a f"
  "line25b (recalculateForm1040Totals_dbl f) = line25b f"
  "line25c (recalculateForm1040Totals_dbl f) = line25c f"
  "line25d (recalculateForm1040Totals_dbl f) = line25d f"
  by (simp_all add: recalc_dbl_closed)

lemma recalc_dbl_derived [simp]:
  "line9 (recalculateForm1040Totals_dbl f) = Some (calculateTotalIncome_dbl f)"
  "line11 (recalculateForm1040Totals_dbl f) = Some (calculateTotalIncome_dbl f)"
  "line12 (recalculateForm1040Totals_dbl f) = new_line12 f"
  "line15 (recalculateForm1040Totals_dbl f) = Some (new_line15_dbl f)"
  "line16 (recalculateForm1040Totals_dbl f) =
     Some (calculateTaxLiability_dbl (new_line15_dbl f) (filingStatus f))"
  "line24 (recalculateForm1040Totals_dbl f) = Some (new_line24_dbl f)"
  "line32 (recalculateForm1040Totals_dbl f) = Some (new_line32_dbl f)"
  "line33 (recalculateForm1040Totals_dbl f) =
     (if new_line32_dbl f > new_line24_dbl f
      then Some (dsub (new_line32_dbl f) (new_line24_dbl f)) else Some 0)"
  "line34 (recalculateForm1040Totals_dbl f) =
     (if new_line32_dbl f > new_line24_dbl f
      then Some (dsub (new_line32_dbl f) (new_line24_dbl f)) else Some 0)"
  "line37 (recalculateForm1040Totals_dbl f) =
     (if new_line32_dbl f > new_line24_dbl f
      then Some 0 else Some (dsub (new_line24_dbl f) (new_line32_dbl f)))"
  by (simp_all add: recalc_dbl_closed)

lemma map_interestIncome_dbl_keeps [simp]:
  "filingStatus (map_interestIncome_dbl pf d f) = filingStatus f"
  "line1 (map_interestIncome_dbl pf d f) = line1 f"
  "line3b (map_interestIncome_dbl pf d f) = line3b f"
  "line4b (map_interestIncome_dbl pf d f) = line4b f"
  "line5b (map_interestIncome_dbl pf d f) = line5b f"
  "line6b (map_interestIncome_dbl pf d f) = line6b f"
  "line7 (map_interestIncome_dbl pf d f) = line7 f"
  "line8 (map_interestIncome_dbl pf d f) = line8 f"
  "line12 (map_interestIncome_dbl pf d f) = line12 f"
  "line13 (map_interestIncome_dbl pf d f) = line13 f"
  "line17 (map_interestIncome_dbl pf d f) = line17 f"
  "line23 (map_interestIncome_dbl pf d f) = line23 f"
  "line25a (map_interestIncome_dbl pf d f) = line25a f"
  "line25b (map_interestIncome_dbl pf d f) = line25b f"
  "line25c (map_interestIncome_dbl pf d f) = line25c f"
  "line25d (map_interestIncome_dbl pf d f) = line25d f"
  by (simp_all add: map_interestIncome_dbl_def Let_def)

lemma map_interestIncome_dbl_adds [simp]:
  "or0 (line2b (map_interestIncome_dbl pf d f)) =
     addPositive (or0 (line2b f)) (parseAmount pf (getprop d ''interestIncome''))"
  by (simp add: map_interestIncome_dbl_def Let_def addPositive_def)

lemma map_interestOnUSavingsBonds_dbl_keeps [simp]:
  "filingStatus (map_interestOnUSavingsBonds_dbl pf d f) = filingStatus f"
  "line1 (map_interestOnUSavingsBonds_dbl pf d f) = line1 f"
  "line3b (map_interestOnUSavingsBonds_dbl pf d f) = line3b f"
  "line4b (map_interestOnUSavingsBonds_dbl pf d f) = line4b f"
  "line5b (map_interestOnUSavingsBonds_dbl pf d f) = line5b f"
  "line6b (map_interestOnUSavingsBonds_dbl pf d f) = line6b f"
  "line7 (map_interestOnUSavingsBonds_dbl pf d f) = line7 f"
  "line8 (map_interestOnUSavingsBonds_dbl pf d f) = line8 f"
  "line12 (map_interestOnUSavingsBonds_dbl pf d f) = line12 f"
  "line13 (map_interestOnUSavingsBonds_dbl pf d f) = line13 f"
  "line17 (map_interestOnUSavingsBonds_dbl pf d f) = line17 f"
  "line23 (map_interestOnUSavingsBonds_dbl pf d f) = line23 f"
  "line25a (map_interestOnUSavingsBonds_dbl pf d f) = line25a f"
  "line25b (map_interestOnUSavingsBonds_dbl pf d f) = line25b f"
  "line25c (map_interestOnUSavingsBonds_dbl pf d f) = line25c f"
  "line25d (map_interestOnUSavingsBonds_dbl pf d f) = line25d f"
  by (simp_all add: map_interestOnUSavingsBonds_dbl_def Let_def)

lemma map_interestOnUSavingsBonds_dbl_adds [simp]:
  "or0 (line2b (map_interestOnUSavingsBonds_dbl pf d f)) =
     addPositive (or0 (line2b f)) (parseAmount pf (getprop d ''interestOnUSavingsBonds''))"
  by (simp add: map_interestOnUSavingsBonds_dbl_def Let_def addPositive_def)

lemma map_taxExemptInterest_dbl_keeps [simp]:
  "filingStatus (map_taxExemptInterest_dbl pf d f) = filingStatus f"
  "line1 (map_taxExemptInterest_dbl pf d f) = line1 f"
  "line2b (map_taxExemptInterest_dbl pf d f) = line2b f"
  "line3b (map_taxExemptInterest_dbl pf d f) = line3b f"
  "line4b (map_taxExemptInterest_dbl pf d f) = line4b f"
  "line5b (map_taxExemptInterest_dbl pf d f) = line5b f"
  "line6b (map_taxExemptInterest_dbl pf d f) = line6b f"
  "line7 (map_taxExemptInterest_dbl pf d f) = line7 f"
  "line8 (map_taxExemptInterest_dbl pf d f) = line8 f"
  "line12 (map_taxExemptInterest_dbl pf d f) = line12 f"
  "line13 (map_taxExemptInterest_dbl pf d f) = line13 f"
  "line17 (map_taxExemptInterest_dbl pf d f) = line17 f"
  "line23 (map_taxExemptInterest_dbl pf d f) = line23 f"
  "line25a (map_taxExemptInterest_dbl pf d f) = line25a f"
  "line25b (map_taxExemptInterest_dbl pf d f) = line25b f"
  "line25c (map_taxExemptInterest_dbl pf d f) = line25c f"
  "line25d (map_taxExemptInterest_dbl pf d f) = line25d f"
  by (simp_all add: map_taxExemptInterest_dbl_def Let_def)

lemma map_specifiedPrivateActivityBondInterest_dbl_keeps [simp]:
  "filingStatus (map_specifiedPrivateActivityBondInterest_dbl pf d f) = filingStatus f"
  "line1 (map_specifiedPrivateActivityBondInterest_dbl pf d f) = line1 f"
  "line2b (map_specifiedPrivateActivityBondInterest_dbl pf d f) = line2b f"
  "line3b (map_specifiedPrivateActivityBondInterest_dbl pf d f) = line3b f"
  "line4b (map_specifiedPrivateActivityBondInterest_dbl pf d f) = line4b f"
  "line5b (map_specifiedPrivateActivityBondInterest_dbl pf d f) = line5b f"
  "line6b (map_specifiedPrivateActivityBondInterest_dbl pf d f) = line6b f"
  "line7 (map_specifiedPrivateActivityBondInterest_dbl pf d f) = line7 f"
  "line8 (map_specifiedPrivateActivityBondInterest_dbl pf d f) = line8 f"
  "line12 (map_specifiedPrivateActivityBondInterest_dbl pf d f) = line12 f"
  "line13 (map_specifiedPrivateActivityBondInterest_dbl pf d f) = line13 f"
  "line17 (map_specifiedPrivateActivityBondInterest_dbl pf d f) = line17 f"
  "line23 (map_specifiedPrivateActivityBondInterest_dbl pf d f) = line23 f"
  "line25a (map_specifiedPrivateActivityBondInterest_dbl pf d f) = line25a f"
  "line25b (map_specifiedPrivateActivityBondInterest_dbl pf d f) = line25b f"
  "line25c (map_specifiedPrivateActivityBondInterest_dbl pf d f) = line25c f"
  "line25d (map_specifiedPrivateActivityBondInterest_dbl pf d f) = line25d f"
  by (simp_all add: map_specifiedPrivateActivityBondInterest_dbl_def Let_def)

lemma map_marketDiscount_dbl_keeps [simp]:
  "filingStatus (map_marketDiscount_dbl pf d f) = filingStatus f"
  "line1 (map_marketDiscount_dbl pf d f) = line1 f"
  "line3b (map_marketDiscount_dbl pf d f) = line3b f"
  "line4b (map_marketDiscount_dbl pf d f) = line4b f"
  "line5b (map_marketDiscount_dbl pf d f) = line5b f"
  "line6b (map_marketDiscount_dbl pf d f) = line6b f"
  "line7 (map_marketDiscount_dbl pf d f) = line7 f"
  "line8 (map_marketDiscount_dbl pf d f) = line8 f"
  "line12 (map_marketDiscount_dbl pf d f) = line12 f"
  "line13 (map_marketDiscount_dbl pf d f) = line13 f"
  "line17 (map_marketDiscount_dbl pf d f) = line17 f"
  "line23 (map_marketDiscount_dbl pf d f) = line23 f"
  "line25a (map_marketDiscount_dbl pf d f) = line25a f"
  "line25b (map_marketDiscount_dbl pf d f) = line25b f"
  "line25c (map_marketDiscount_dbl pf d f) = line25c f"
  "line25d (map_marketDiscount_dbl pf d f) = line25d f"
  by (simp_all add: map_marketDiscount_dbl_def Let_def)

lemma map_marketDiscount_dbl_adds [simp]:
  "or0 (line2b (map_marketDiscount_dbl pf d f)) =
     addPositive (or0 (line2b f)) (parseAmount pf (getprop d ''marketDiscount''))"
  by (simp add: map_marketDiscount_dbl_def Let_def addPositive_def)

lemma map_bondPremium_dbl_keeps [simp]:
  "filingStatus (map_bondPremium_dbl pf d f) = filingStatus f"
  "line1 (map_bondPremium_dbl pf d f) = line1 f"
  "line3b (map_bondPremium_dbl pf d f) = line3b f"
  "line4b (map_bondPremium_dbl pf d f) = line4b f"
  "line5b (map_bondPremium_dbl pf d f) = line5b f"
  "line6b (map_bondPremium_dbl pf d f) = line6b f"
  "line7 (map_bondPremium_dbl pf d f) = line7 f"
  "line8 (map_bondPremium_dbl pf d f) = line8 f"
  "line12 (map_bondPremium_dbl pf d f) = line12 f"
  "line13 (map_bondPremium_dbl pf d f) = line13 f"
  "line17 (map_bondPremium_dbl pf d f) = line17 f"
  "line23 (map_bondPremium_dbl pf d f) = line23 f"
  "line25a (map_bondPremium_dbl pf d f) = line25a f"
  "line25b (map_bondPremium_dbl pf d f) = line25b f"
  "line25c (map_bondPremium_dbl pf d f) = line25c f"
  "line25d (map_bondPremium_dbl pf d f) = line25d f"
  by (simp_all add: map_bondPremium_dbl_def Let_def)

lemma map_bondPremium_dbl_adds [simp]:
  "or0 (line2b (map_bondPremium_dbl pf d f)) =
     (if parseAmount pf (getprop d ''bondPremium'') > 0
      then max 0 (dsub (or0 (line2b f)) (parseAmount pf (getprop d ''bondPremium'')))
      else or0 (line2b f))"
  by (simp add: map_bondPremium_dbl_def Let_def addPositive_def)

lemma map_stateTaxWithheld_dbl_keeps [simp]:
  "filingStatus (map_stateTaxWithheld_dbl pf d f) = filingStatus f"
  "line1 (map_stateTaxWithheld_dbl pf d f) = line1 f"
  "line2b (map_stateTaxWithheld_dbl pf d f) = line2b f"
  "line3b (map_stateTaxWithheld_dbl pf d f) = line3b f"
  "line4b (map_stateTaxWithheld_dbl pf d f) = line4b f"
  "line5b (map_stateTaxWithheld_dbl pf d f) = line5b f"
  "line6b (map_stateTaxWithheld_dbl pf d f) = line6b f"
  "line7 (map_stateTaxWithheld_dbl pf d f) = line7 f"
  "line8 (map_stateTaxWithheld_dbl pf d f) = line8 f"
  "line12 (map_stateTaxWithheld_dbl pf d f) = line12 f"
  "line13 (map_stateTaxWithheld_dbl pf d f) = line13 f"
  "line17 (map_stateTaxWithheld_dbl pf d f) = line17 f"
  "line23 (map_stateTaxWithheld_dbl pf d f) = line23 f"
  "line25a (map_stateTaxWithheld_dbl pf d f) = line25a f"
  "line25b (map_stateTaxWithheld_dbl pf d f) = line25b f"
  "line25c (map_stateTaxWithheld_dbl pf d f) = line25c f"
  "line25d (map_stateTaxWithheld_dbl pf d f) = line25d f"
  by (simp_all add: map_stateTaxWithheld_dbl_def Let_def)

lemma map_stateInterest_dbl_keeps [simp]:
  "filingStatus (map_stateInterest_dbl pf d f) = filingStatus f"
  "line1 (map_stateInterest_dbl pf d f) = line1 f"
  "line2b (map_stateInterest_dbl pf d f) = line2b f"
  "line3b (map_stateInterest_dbl pf d f) = line3b f"
  "line4b (map_stateInterest_dbl pf d f) = line4b f"
  "line5b (map_stateInterest_dbl pf d f) = line5b f"
  "line6b (map_stateInterest_dbl pf d f) = line6b f"
  "line7 (map_stateInterest_dbl pf d f) = line7 f"
  "line8 (map_stateInterest_dbl pf d f) = line8 f"
  "line12 (map_stateInterest_dbl pf d f) = line12 f"
  "line13 (map_stateInterest_dbl pf d f) = line13 f"
  "line17 (map_stateInterest_dbl pf d f) = line17 f"
  "line23 (map_stateInterest_dbl pf d f) = line23 f"
  "line25a (map_stateInterest_dbl pf d f) = line25a f"
  "line25b (map_stateInterest_dbl pf d f) = line25b f"
  "line25c (map_stateInterest_dbl pf d f) = line25c f"
  "line25d (map_stateInterest_dbl pf d f) = line25d f"
  by (simp_all add: map_stateInterest_dbl_def Let_def)

lemma map_earlyWithdrawalPenalty_dbl_keeps [simp]:
  "filingStatus (map_earlyWithdrawalPenalty_dbl pf d f) = filingStatus f"
  "line1 (map_earlyWithdrawalPenalty_dbl pf d f) = line1 f"
  "line2b (map_earlyWithdrawalPenalty_dbl pf d f) = line2b f"
  "line3b (map_earlyWithdrawalPenalty_dbl pf d f) = line3b f"
  "line4b (map_earlyWithdrawalPenalty_dbl pf d f) = line4b f"
  "line5b (map_earlyWithdrawalPenalty_dbl pf d f) = line5b f"
  "line6b (map_earlyWithdrawalPenalty_dbl pf d f) = line6b f"
  "line7 (map_earlyWithdrawalPenalty_dbl pf d f) = line7 f"
  "line8 (map_earlyWithdrawalPenalty_dbl pf d f) = line8 f"
  "line12 (map_earlyWithdrawalPenalty_dbl pf d f) = line12 f"
  "line13 (map_earlyWithdrawalPenalty_dbl pf d f) = line13 f"
  "line17 (map_earlyWithdrawalPenalty_dbl pf d f) = line17 f"
  "line23 (map_earlyWithdrawalPenalty_dbl pf d f) = line23 f"
  "line25a (map_earlyWithdrawalPenalty_dbl pf d f) = line25a f"
  "line25b (map_earlyWithdrawalPenalty_dbl pf d f) = line25b f"
  "line25c (map_earlyWithdrawalPenalty_dbl pf d f) = line25c f"
  "line25d (map_earlyWithdrawalPenalty_dbl pf d f) = line25d f"
  by (simp_all add: map_earlyWithdrawalPenalty_dbl_def Let_def)

lemma map_investmentExpenses_dbl_keeps [simp]:
  "filingStatus (map_investmentExpenses_dbl pf d f) = filingStatus f"
  "line1 (map_investmentExpenses_dbl pf d f) = line1 f"
  "line2b (map_investmentExpenses_dbl pf d f) = line2b f"
  "line3b (map_investmentExpenses_dbl pf d f) = line3b f"
  "line4b (map_investmentExpenses_dbl pf d f) = line4b f"
  "line5b (map_investmentExpenses_dbl pf d f) = line5b f"
  "line6b (map_investmentExpenses_dbl pf d f) = line6b f"
  "line7 (map_investmentExpenses_dbl pf d f) = line7 f"
  "line8 (map_investmentExpenses_dbl pf d f) = line8 f"
  "line12 (map_investmentExpenses_dbl pf d f) = line12 f"
  "line13 (map_investmentExpenses_dbl pf d f) = line13 f"
  "line17 (map_investmentExpenses_dbl pf d f) = line17 f"
  "line23 (map_investmentExpenses_dbl pf d f) = line23 f"
  "line25a (map_investmentExpenses_dbl pf d f) = line25a f"
  "line25b (map_investmentExpenses_dbl pf d f) = line25b f"
  "line25c (map_investmentExpenses_dbl pf d f) = line25c f"
  "line25d (map_investmentExpenses_dbl pf d f) = line25d f"
  by (simp_all add: map_investmentExpenses_dbl_def Let_def)

lemma map_foreignTaxPaid_dbl_keeps [simp]:
  "filingStatus (map_foreignTaxPaid_dbl pf d f) = filingStatus f"
  "line1 (map_foreignTaxPaid_dbl pf d f) = line1 f"
  "line2b (map_foreignTaxPaid_dbl pf d f) = line2b f"
  "line3b (map_foreignTaxPaid_dbl pf d f) = line3b f"
  "line4b (map_foreignTaxPaid_dbl pf d f) = line4b f"
  "line5b (map_foreignTaxPaid_dbl pf d f) = line5b f"
  "line6b (map_foreignTaxPaid_dbl pf d f) = line6b f"
  "line7 (map_foreignTaxPaid_dbl pf d f) = line7 f"
  "line8 (map_foreignTaxPaid_dbl pf d f) = line8 f"
  "line12 (map_foreignTaxPaid_dbl pf d f) = line12 f"
  "line13 (map_foreignTaxPaid_dbl pf d f) = line13 f"
  "line17 (map_foreignTaxPaid_dbl pf d f) = line17 f"
  "line23 (map_foreignTaxPaid_dbl pf d f) = line23 f"
  "line25a (map_foreignTaxPaid_dbl pf d f) = line25a f"
  "line25b (map_foreignTaxPaid_dbl pf d f) = line25b f"
  "line25c (map_foreignTaxPaid_dbl pf d f) = line25c f"
  "line25d (map_foreignTaxPaid_dbl pf d f) = line25d f"
  by (simp_all add: map_foreignTaxPaid_dbl_def Let_def)

lemma map_ordinaryDividends_dbl_keeps [simp]:
  "filingStatus (map_ordinaryDividends_dbl pf d f) = filingStatus f"
  "line1 (map_ordinaryDividends_dbl pf d f) = line1 f"
  "line2b (map_ordinaryDividends_dbl pf d f) = line2b f"
  "line4b (map_ordinaryDividends_dbl pf d f) = line4b f"
  "line5b (map_ordinaryDividends_dbl pf d f) = line5b f"
  "line6b (map_ordinaryDividends_dbl pf d f) = line6b f"
  "line7 (map_ordinaryDividends_dbl pf d f) = line7 f"
  "line8 (map_ordinaryDividends_dbl pf d f) = line8 f"
  "line12 (map_ordinaryDividends_dbl pf d f) = line12 f"
  "line13 (map_ordinaryDividends_dbl pf d f) = line13 f"
  "line17 (map_ordinaryDividends_dbl pf d f) = line17 f"
  "line23 (map_ordinaryDividends_dbl pf d f) = line23 f"
  "line25a (map_ordinaryDividends_dbl pf d f) = line25a f"
  "line25b (map_ordinaryDividends_dbl pf d f) = line25b f"
  "line25c (map_ordinaryDividends_dbl pf d f) = line25c f"
  "line25d (map_ordinaryDividends_dbl pf d f) = line25d f"
  by (simp_all add: map_ordinaryDividends_dbl_def Let_def)

lemma map_ordinaryDividends_dbl_adds [simp]:
  "or0 (line3b (map_ordinaryDividends_dbl pf d f)) =
     addPositive (or0 (line3b f)) (parseAmount pf (getprop d ''ordinaryDividends''))"
  by (simp add: map_ordinaryDividends_dbl_def Let_def addPositive_def)

lemma map_qualifiedDividends_dbl_keeps [simp]:
  "filingStatus (map_qualifiedDividends_dbl pf d f) = filingStatus f"
  "line1 (map_qualifiedDividends_dbl pf d f) = line1 f"
  "line2b (map_qualifiedDividends_dbl pf d f) = line2b f"
  "line3b (map_qualifiedDividends_dbl pf d f) = line3b f"
  "line4b (map_qualifiedDividends_dbl pf d f) = line4b f"
  "line5b (map_qualifiedDividends_dbl pf d f) = line5b f"
  "line6b (map_qualifiedDividends_dbl pf d f) = line6b f"
  "line7 (map_qualifiedDividends_dbl pf d f) = line7 f"
  "line8 (map_qualifiedDividends_dbl pf d f) = line8 f"
  "line12 (map_qualifiedDividends_dbl pf d f) = line12 f"
  "line13 (map_qualifiedDividends_dbl pf d f) = line13 f"
  "line17 (map_qualifiedDividends_dbl pf d f) = line17 f"
  "line23 (map_qualifiedDividends_dbl pf d f) = line23 f"
  "line25a (map_qualifiedDividends_dbl pf d f) = line25a f"
  "line25b (map_qualifiedDividends_dbl pf d f) = line25b f"
  "line25c (map_qualifiedDividends_dbl pf d f) = line25c f"
  "line25d (map_qualifiedDividends_dbl pf d f) = line25d f"
  by (simp_all add: map_qualifiedDividends_dbl_def Let_def)

lemma map_totalCapitalGain_dbl_keeps [simp]:
  "filingStatus (map_totalCapitalGain_dbl pf d f) = filingStatus f"
  "line1 (map_totalCapitalGain_dbl pf d f) = line1 f"
  "line2b (map_totalCapitalGain_dbl pf d f) = line2b f"
  "line3b (map_totalCapitalGain_dbl pf d f) = line3b f"
  "line4b (map_totalCapitalGain_dbl pf d f) = line4b f"
  "line5b (map_totalCapitalGain_dbl pf d f) = line5b f"
  "line6b (map_totalCapitalGain_dbl pf d f) = line6b f"
  "line8 (map_totalCapitalGain_dbl pf d f) = line8 f"
  "line12 (map_totalCapitalGain_dbl pf d f) = line12 f"
  "line13 (map_totalCapitalGain_dbl pf d f) = line13 f"
  "line17 (map_totalCapitalGain_dbl pf d f) = line17 f"
  "line23 (map_totalCapitalGain_dbl pf d f) = line23 f"
  "line25a (map_totalCapitalGain_dbl pf d f) = line25a f"
  "line25b (map_totalCapitalGain_dbl pf d f) = line25b f"
  "line25c (map_totalCapitalGain_dbl pf d f) = line25c f"
  "line25d (map_totalCapitalGain_dbl pf d f) = line25d f"
  by (simp_all add: map_totalCapitalGain_dbl_def Let_def)

lemma map_totalCapitalGain_dbl_adds [simp]:
  "or0 (line7 (map_totalCapitalGain_dbl pf d f)) =
     addPositive (or0 (line7 f)) (parseAmount pf (getprop d ''totalCapitalGain''))"
  by (simp add: map_totalCapitalGain_dbl_def Let_def addPositive_def)

lemma map_rents_dbl_keeps [simp]:
  "filingStatus (map_rents_dbl pf d f) = filingStatus f"
  "line1 (map_rents_dbl pf d f) = line1 f"
  "line2b (map_rents_dbl pf d f) = line2b f"
  "line3b (map_rents_dbl pf d f) = line3b f"
  "line4b (map_rents_dbl pf d f) = line4b f"
  "line5b (map_rents_dbl pf d f) = line5b f"
  "line6b (map_rents_dbl pf d f) = line6b f"
  "line7 (map_rents_dbl pf d f) = line7 f"
  "line12 (map_rents_dbl pf d f) = line12 f"
  "line13 (map_rents_dbl pf d f) = line13 f"
  "line17 (map_rents_dbl pf d f) = line17 f"
  "line23 (map_rents_dbl pf d f) = line23 f"
  "line25a (map_rents_dbl pf d f) = line25a f"
  "line25b (map_rents_dbl pf d f) = line25b f"
  "line25c (map_rents_dbl pf d f) = line25c f"
  "line25d (map_rents_dbl pf d f) = line25d f"
  by (simp_all add: map_rents_dbl_def Let_def)

lemma map_rents_dbl_adds [simp]:
  "or0 (line8 (map_rents_dbl pf d f)) =
     addPositive (or0 (line8 f)) (parseAmount pf (getprop d ''rents''))"
  by (simp add: map_rents_dbl_def Let_def addPositive_def)

lemma map_royalties_dbl_keeps [simp]:
  "filingStatus (map_royalties_dbl pf d f) = filingStatus f"
  "line1 (map_royalties_dbl pf d f) = line1 f"
  "line2b (map_royalties_dbl pf d f) = line2b f"
  "line3b (map_royalties_dbl pf d f) = line3b f"
  "line4b (map_royalties_dbl pf d f) = line4b f"
  "line5b (map_royalties_dbl pf d f) = line5b f"
  "line6b (map_royalties_dbl pf d f) = line6b f"
  "line7 (map_royalties_dbl pf d f) = line7 f"
  "line12 (map_royalties_dbl pf d f) = line12 f"
  "line13 (map_royalties_dbl pf d f) = line13 f"
  "line17 (map_royalties_dbl pf d f) = line17 f"
  "line23 (map_royalties_dbl pf d f) = line23 f"
  "line25a (map_royalties_dbl pf d f) = line25a f"
  "line25b (map_royalties_dbl pf d f) = line25b f"
  "line25c (map_royalties_dbl pf d f) = line25c f"
  "line25d (map_royalties_dbl pf d f) = line25d f"
  by (simp_all add: map_royalties_dbl_def Let_def)

lemma map_royalties_dbl_adds [simp]:
  "or0 (line8 (map_royalties_dbl pf d f)) =
     addPositive (or0 (line8 f)) (parseAmount pf (getprop d ''royalties''))"
  by (simp add: map_royalties_dbl_def Let_def addPositive_def)

lemma map_otherIncome_dbl_keeps [simp]:
  "filingStatus (map_otherIncome_dbl pf d f) = filingStatus f"
  "line1 (map_otherIncome_dbl pf d f) = line1 f"
  "line2b (map_otherIncome_dbl pf d f) = line2b f"
  "line3b (map_otherIncome_dbl pf d f) = line3b f"
  "line4b (map_otherIncome_dbl pf d f) = line4b f"
  "line5b (map_otherIncome_dbl pf d f) = line5b f"
  "line6b (map_otherIncome_dbl pf d f) = line6b f"
  "line7 (map_otherIncome_dbl pf d f) = line7 f"
  "line12 (map_otherIncome_dbl pf d f) = line12 f"
  "line13 (map_otherIncome_dbl pf d f) = line13 f"
  "line17 (map_otherIncome_dbl pf d f) = line17 f"
  "line23 (map_otherIncome_dbl pf d f) = line23 f"
  "line25a (map_otherIncome_dbl pf d f) = line25a f"
  "line25b (map_otherIncome_dbl pf d f) = line25b f"
  "line25c (map_otherIncome_dbl pf d f) = line25c f"
  "line25d (map_otherIncome_dbl pf d f) = line25d f"
  by (simp_all add: map_otherIncome_dbl_def Let_def)

lemma map_otherIncome_dbl_adds [simp]:
  "or0 (line8 (map_otherIncome_dbl pf d f)) =
     addPositive (or0 (line8 f)) (parseAmount pf (getprop d ''otherIncome''))"
  by (simp add: map_otherIncome_dbl_def Let_def addPositive_def)

lemma map_nonemployeeCompensation_dbl_keeps [simp]:
  "filingStatus (map_nonemployeeCompensation_dbl pf d f) = filingStatus f"
  "line1 (map_nonemployeeCompensation_dbl pf d f) = line1 f"
  "line2b (map_nonemployeeCompensation_dbl pf d f) = line2b f"
  "line3b (map_nonemployeeCompensation_dbl pf d f) = line3b f"
  "line4b (map_nonemployeeCompensation_dbl pf d f) = line4b f"
  "line5b (map_nonemployeeCompensation_dbl pf d f) = line5b f"
  "line6b (map_nonemployeeCompensation_dbl pf d f) = line6b f"
  "line7 (map_nonemployeeCompensation_dbl pf d f) = line7 f"
  "line12 (map_nonemployeeCompensation_dbl pf d f) = line12 f"
  "line13 (map_nonemployeeCompensation_dbl pf d f) = line13 f"
  "line17 (map_nonemployeeCompensation_dbl pf d f) = line17 f"
  "line23 (map_nonemployeeCompensation_dbl pf d f) = line23 f"
  "line25a (map_nonemployeeCompensation_dbl pf d f) = line25a f"
  "line25b (map_nonemployeeCompensation_dbl pf d f) = line25b f"
  "line25c (map_nonemployeeCompensation_dbl pf d f) = line25c f"
  "line25d (map_nonemployeeCompensation_dbl pf d f) = line25d f"
  by (simp_all add: map_nonemployeeCompensation_dbl_def Let_def)

lemma map_nonemployeeCompensation_dbl_adds [simp]:
  "or0 (line8 (map_nonemployeeCompensation_dbl pf d f)) =
     addPositive (or0 (line8 f)) (parseAmount pf (getprop d ''nonemployeeCompensation''))"
  by (simp add: map_nonemployeeCompensation_dbl_def Let_def addPositive_def)

lemma map_federalTaxWithheld_dbl_keeps [simp]:
  "filingStatus (map_federalTaxWithheld_dbl pf d f) = filingStatus f"
  "line1 (map_federalTaxWithheld_dbl pf d f) = line1 f"
  "line2b (map_federalTaxWithheld_dbl pf d f) = line2b f"
  "line3b (map_federalTaxWithheld_dbl pf d f) = line3b f"
  "line4b (map_federalTaxWithheld_dbl pf d f) = line4b f"
  "line5b (map_federalTaxWithheld_dbl pf d f) = line5b f"
  "line6b (map_federalTaxWithheld_dbl pf d f) = line6b f"
  "line7 (map_federalTaxWithheld_dbl pf d f) = line7 f"
  "line8 (map_federalTaxWithheld_dbl pf d f) = line8 f"
  "line12 (map_federalTaxWithheld_dbl pf d f) = line12 f"
  "line13 (map_federalTaxWithheld_dbl pf d f) = line13 f"
  "line17 (map_federalTaxWithheld_dbl pf d f) = line17 f"
  "line23 (map_federalTaxWithheld_dbl pf d f) = line23 f"
  "line25b (map_federalTaxWithheld_dbl pf d f) = line25b f"
  "line25c (map_federalTaxWithheld_dbl pf d f) = line25c f"
  "line25d (map_federalTaxWithheld_dbl pf d f) = line25d f"
  by (simp_all add: map_federalTaxWithheld_dbl_def Let_def)

lemma map_federalTaxWithheld_dbl_adds [simp]:
  "or0 (line25a (map_federalTaxWithheld_dbl pf d f)) =
     addPositive (or0 (line25a f)) (parseAmount pf (js_or (js_or (getprop d ''federalTaxWithheld'') (getprop d ''FederalIncomeTaxWithheld'')) (getprop d ''FederalIncomeTaxWithheld'')))"
  by (simp add: map_federalTaxWithheld_dbl_def Let_def addPositive_def)

lemma income_mapping_dbl_keeps [simp]:
  "filingStatus (income_mapping_dbl pf d f) = filingStatus f"
  "line1 (income_mapping_dbl pf d f) = line1 f"
  "line4b (income_mapping_dbl pf d f) = line4b f"
  "line5b (income_mapping_dbl pf d f) = line5b f"
  "line6b (income_mapping_dbl pf d f) = line6b f"
  "line12 (income_mapping_dbl pf d f) = line12 f"
  "line13 (income_mapping_dbl pf d f) = line13 f"
  "line17 (income_mapping_dbl pf d f) = line17 f"
  "line23 (income_mapping_dbl pf d f) = line23 f"
  "line25b (income_mapping_dbl pf d f) = line25b f"
  "line25c (income_mapping_dbl pf d f) = line25c f"
  "line25d (income_mapping_dbl pf d f) = line25d f"
  by (simp_all add: income_mapping_dbl_def)

lemma income_mapping_dbl_line2b:
  "or0 (line2b (income_mapping_dbl pf d f)) =
     (if parseAmount pf (getprop d ''bondPremium'') > 0
      then max 0 (dsub
        (addPositive (addPositive (addPositive (or0 (line2b f))
           (parseAmount pf (getprop d ''interestIncome'')))
           (parseAmount pf (getprop d ''interestOnUSavingsBonds'')))
           (parseAmount pf (getprop d ''marketDiscount'')))
        (parseAmount pf (getprop d ''bondPremium'')))
      else
        addPositive (addPositive (addPositive (or0 (line2b f))
           (parseAmount pf (getprop d ''interestIncome'')))
           (parseAmount pf (getprop d ''interestOnUSavingsBonds'')))
           (parseAmount pf (getprop d ''marketDiscount'')))"
  by (simp add: income_mapping_dbl_def)

lemma income_mapping_dbl_line3b:
  "or0 (line3b (income_mapping_dbl pf d f)) =
     addPositive (or0 (line3b f)) (parseAmount pf (getprop d ''ordinaryDividends''))"
  by (simp add: income_mapping_dbl_def)

lemma income_mapping_dbl_line7:
  "or0 (line7 (income_mapping_dbl pf d f)) =
     addPositive (or0 (line7 f)) (parseAmount pf (getprop d ''totalCapitalGain''))"
  by (simp add: income_mapping_dbl_def)

lemma income_mapping_dbl_line8:
  "or0 (line8 (income_mapping_dbl pf d f)) =
     addPositive (addPositive (addPositive (addPositive (or0 (line8 f))
       (parseAmount pf (getprop d ''rents'')))
       (parseAmount pf (getprop d ''royalties'')))
       (parseAmount pf (getprop d ''otherIncome'')))
       (parseAmount pf (getprop d ''nonemployeeCompensation''))"
  by (simp add: income_mapping_dbl_def)

lemma income_mapping_dbl_line25a:
  "or0 (line25a (income_mapping_dbl pf d f)) =
     addPositive (or0 (line25a f)) (federalTaxWithheldOf pf d)"
  by (simp add: income_mapping_dbl_def federalTaxWithheldOf_def)

lemma isDouble_zero [simp]: "isDouble 0"
  by (simp add: isDouble_def roundDouble_def)

lemma dadd_commute: "dadd a b = dadd b a"
  by (simp add: dadd_def add.commute)

lemma dadd_zero_left: "isDouble a \<Longrightarrow> dadd 0 a = a"
  by (simp add: dadd_def isDouble_def)

lemma addPositive_zero [simp]: "addPositive x 0 = x"
  by (simp add: addPositive_def)

lemma addPositive_positive: "addPositive x (positive v) = addPositive x v"
  by (simp add: addPositive_def positive_def)

lemma addPositive_from_zero: "isDouble a \<Longrightarrow> addPositive 0 a = positive a"
  by (simp add: addPositive_def positive_def dadd_zero_left)

lemma isDouble_positive: "isDouble a \<Longrightarrow> isDouble (positive a)"
  by (simp add: positive_def)

lemma addPositive_two_orders:
  assumes "isDouble a" and "isDouble b"
  shows "addPositive (addPositive 0 a) b = addPositive (addPositive 0 b) a"
proof -
  have "addPositive (addPositive 0 a) b =
        (if a > 0 then (if b > 0 then dadd a b else a) else (if b > 0 then b else 0))"
    using assms by (simp add: addPositive_def dadd_zero_left)
  moreover have "addPositive (addPositive 0 b) a =
        (if a > 0 then (if b > 0 then dadd b a else a) else (if b > 0 then b else 0))"
    using assms by (simp add: addPositive_def dadd_zero_left)
  ultimately show ?thesis
    by (simp add: dadd_commute[of a b])
qed

lemma single3:
  assumes "length (filter (\<lambda>x. x > 0) [i, s, m]) \<le> 1"
  shows "addPositive (addPositive (addPositive x i) s) m = addPositive x (positive i + positive s + positive m)"
  using assms by (auto simp add: addPositive_def positive_def split: if_splits)

lemma single3_double:
  assumes "length (filter (\<lambda>x. x > 0) [i, s, m]) \<le> 1"
    and "isDouble i" and "isDouble s" and "isDouble m"
  shows "isDouble (positive i + positive s + positive m)"
  using assms by (auto simp add: positive_def split: if_splits)

lemma single4:
  assumes "length (filter (\<lambda>x. x > 0) [a, b, c, e]) \<le> 1"
  shows "addPositive (addPositive (addPositive (addPositive x a) b) c) e =
         addPositive x (positive a + positive b + positive c + positive e)"
  using assms by (auto simp add: addPositive_def positive_def split: if_splits)

lemma single4_double:
  assumes "length (filter (\<lambda>x. x > 0) [a, b, c, e]) \<le> 1"
    and "isDouble a" and "isDouble b" and "isDouble c" and "isDouble e"
  shows "isDouble (positive a + positive b + positive c + positive e)"
  using assms by (auto simp add: positive_def split: if_splits)

lemma line2b_single:
  assumes "bondPremiumOf pf d = 0" and "length (contributions2b pf d) \<le> 1"
  shows "or0 (line2b (income_mapping_dbl pf d f)) = addPositive (or0 (line2b f)) (line2bAdditions pf d)"
proof -
  from assms(1) have "\<not> parseAmount pf (getprop d ''bondPremium'') > 0"
    by (simp add: bondPremiumOf_def positive_def split: if_splits)
  then show ?thesis
    using single3[OF assms(2)[unfolded contributions2b_def], of "or0 (line2b f)"]
    by (simp add: income_mapping_dbl_line2b line2bAdditions_def)
qed

lemma line8_single:
  assumes "length (contributions8 pf d) \<le> 1"
  shows "or0 (line8 (income_mapping_dbl pf d f)) = addPositive (or0 (line8 f)) (line8Additions pf d)"
  using single4[OF assms[unfolded contributions8_def], of "or0 (line8 f)"]
  by (simp add: income_mapping_dbl_line8 line8Additions_def)

lemma line2bAdditions_double:
  assumes "length (contributions2b pf d) \<le> 1" and "amountsAreDoubles pf d"
  shows "isDouble (line2bAdditions pf d)"
  unfolding line2bAdditions_def
  using assms by (intro single3_double) (simp_all add: contributions2b_def amountsAreDoubles_def)

lemma line8Additions_double:
  assumes "length (contributions8 pf d) \<le> 1" and "amountsAreDoubles pf d"
  shows "isDouble (line8Additions pf d)"
  unfolding line8Additions_def
  using assms by (intro single4_double) (simp_all add: contributions8_def amountsAreDoubles_def)

lemma derivedTotals_dbl_cong:
  assumes "calculateTotalIncome_dbl f = calculateTotalIncome_dbl g"
    and "new_line12 f = new_line12 g"
    and "filingStatus f = filingStatus g"
    and "line13 f = line13 g" and "line17 f = line17 g" and "line23 f = line23 g"
    and "new_line32_dbl f = new_line32_dbl g"
  shows "derivedTotals (recalculateForm1040Totals_dbl f) = derivedTotals (recalculateForm1040Totals_dbl g)"
proof -
  have l15: "new_line15_dbl f = new_line15_dbl g"
    by (simp add: new_line15_dbl_def assms)
  have l24: "new_line24_dbl f = new_line24_dbl g"
    by (simp add: new_line24_dbl_def l15 assms)
  show ?thesis
    by (simp add: derivedTotals_def assms l15 l24)
qed

lemma new_line12_map_dbl: "new_line12 (income_mapping_dbl pf d f) = new_line12 f"
  by (auto simp add: new_line12_def)

lemma new_line12_recalc_dbl:
  "new_line12 (recalculateForm1040Totals_dbl f) =
     (if or0 (new_line12 f) = 0 \<and> filingStatus f \<noteq> None
      then Some (getStandardDeduction (filingStatus f)) else new_line12 f)"
  by (auto simp add: new_line12_def[of "recalculateForm1040Totals_dbl f"])

lemma mapping_dbl_commutes:
  assumes d1: "singleContributions pf d1" and d2: "singleContributions pf d2"
  shows "derivedTotals (recalculateForm1040Totals_dbl (income_mapping_dbl pf d2
            (recalculateForm1040Totals_dbl (income_mapping_dbl pf d1 emptyForm)))) =
         derivedTotals (recalculateForm1040Totals_dbl (income_mapping_dbl pf d1
            (recalculateForm1040Totals_dbl (income_mapping_dbl pf d2 emptyForm))))"
proof (rule derivedTotals_dbl_cong)
  have e: "or0 (line1 emptyForm) = 0" "or0 (line2b emptyForm) = 0" "or0 (line3b emptyForm) = 0"
    "or0 (line7 emptyForm) = 0" "or0 (line8 emptyForm) = 0" "or0 (line25a emptyForm) = 0"
    by (simp_all add: emptyForm_def)
  note s1 = d1[unfolded singleContributions_def] and s2 = d2[unfolded singleContributions_def]
  have a1: "amountsAreDoubles pf d1" and a2: "amountsAreDoubles pf d2"
    using s1 s2 by simp_all
  have l2b: "or0 (line2b (income_mapping_dbl pf d2 (recalculateForm1040Totals_dbl (income_mapping_dbl pf d1 emptyForm)))) =
             or0 (line2b (income_mapping_dbl pf d1 (recalculateForm1040Totals_dbl (income_mapping_dbl pf d2 emptyForm))))"
    using s1 s2
    by (simp add: line2b_single e addPositive_two_orders line2bAdditions_double)
  have l8: "or0 (line8 (income_mapping_dbl pf d2 (recalculateForm1040Totals_dbl (income_mapping_dbl pf d1 emptyForm)))) =
            or0 (line8 (income_mapping_dbl pf d1 (recalculateForm1040Totals_dbl (income_mapping_dbl pf d2 emptyForm))))"
    using s1 s2
    by (simp add: line8_single e addPositive_two_orders line8Additions_double)
  have l3b: "or0 (line3b (income_mapping_dbl pf d2 (recalculateForm1040Totals_dbl (income_mapping_dbl pf d1 emptyForm)))) =
             or0 (line3b (income_mapping_dbl pf d1 (recalculateForm1040Totals_dbl (income_mapping_dbl pf d2 emptyForm))))"
    using a1 a2
    by (simp add: income_mapping_dbl_line3b e addPositive_two_orders amountsAreDoubles_def)
  have l7: "or0 (line7 (income_mapping_dbl pf d2 (recalculateForm1040Totals_dbl (income_mapping_dbl pf d1 emptyForm)))) =
            or0 (line7 (income_mapping_dbl pf d1 (recalculateForm1040Totals_dbl (income_mapping_dbl pf d2 emptyForm))))"
    using a1 a2
    by (simp add: income_mapping_dbl_line7 e addPositive_two_orders amountsAreDoubles_def)
  have l25a: "or0 (line25a (income_mapping_dbl pf d2 (recalculateForm1040Totals_dbl (income_mapping_dbl pf d1 emptyForm)))) =
              or0 (line25a (income_mapping_dbl pf d1 (recalculateForm1040Totals_dbl (income_mapping_dbl pf d2 emptyForm))))"
    using a1 a2
    by (simp add: income_mapping_dbl_line25a e addPositive_two_orders amountsAreDoubles_def)
  show "calculateTotalIncome_dbl (income_mapping_dbl pf d2 (recalculateForm1040Totals_dbl (income_mapping_dbl pf d1 emptyForm))) =
        calculateTotalIncome_dbl (income_mapping_dbl pf d1 (recalculateForm1040Totals_dbl (income_mapping_dbl pf d2 emptyForm)))"
    unfolding calculateTotalIncome_dbl_def l2b l8 l3b l7 by simp
  show "new_line12 (income_mapping_dbl pf d2 (recalculateForm1040Totals_dbl (income_mapping_dbl pf d1 emptyForm))) =
        new_line12 (income_mapping_dbl pf d1 (recalculateForm1040Totals_dbl (income_mapping_dbl pf d2 emptyForm)))"
    by (auto simp add: new_line12_map_dbl new_line12_recalc_dbl)
  show "new_line32_dbl (income_mapping_dbl pf d2 (recalculateForm1040Totals_dbl (income_mapping_dbl pf d1 emptyForm))) =
        new_line32_dbl (income_mapping_dbl pf d1 (recalculateForm1040Totals_dbl (income_mapping_dbl pf d2 emptyForm)))"
    unfolding new_line32_dbl_def l25a by simp
qed simp_all

lemma actual1099Data_plain:
  "getprop d ''extractedData'' = JUndefined \<Longrightarrow> actual1099Data d = d"
  by (simp add: actual1099Data_def)

lemma emptyForm_lines:
  "or0 (line1 emptyForm) = 0" "or0 (line2b emptyForm) = 0" "or0 (line3b emptyForm) = 0"
  "or0 (line4b emptyForm) = 0" "or0 (line5b emptyForm) = 0" "or0 (line6b emptyForm) = 0"
  "or0 (line7 emptyForm) = 0" "or0 (line8 emptyForm) = 0" "or0 (line25a emptyForm) = 0"
  by (simp_all add: emptyForm_def)

lemma line9_two_documents:
  "line9 (map1099ToForm1040_dbl pf D2 (map1099ToForm1040_dbl pf D1 emptyForm)) =
     Some (calculateTotalIncome_dbl
       (income_mapping_dbl pf (actual1099Data D2)
          (recalculateForm1040Totals_dbl (income_mapping_dbl pf (actual1099Data D1) emptyForm))))"
  by (simp add: map1099ToForm1040_dbl_def)

text \<open>
  Addition of doubles is not associative: with two amounts for line 2b in one document and
  one in the other, the total income depends on the order of the documents (6343.05 and
  6343.049999999999).
\<close>

lemma double_sums_depend_on_order:
  "line9 (map1099ToForm1040_dbl (\<lambda>s. None) [(''interestIncome'', JNum (roundDouble (194121 / 100)))]
     (map1099ToForm1040_dbl (\<lambda>s. None)
        [(''interestIncome'', JNum (roundDouble (379536 / 100))),
         (''interestOnUSavingsBonds'', JNum (roundDouble (60648 / 100)))] emptyForm))
     = Some (roundDouble (634305 / 100))"
  "line9 (map1099ToForm1040_dbl (\<lambda>s. None)
        [(''interestIncome'', JNum (roundDouble (379536 / 100))),
         (''interestOnUSavingsBonds'', JNum (roundDouble (60648 / 100)))]
     (map1099ToForm1040_dbl (\<lambda>s. None) [(''interestIncome'', JNum (roundDouble (194121 / 100)))] emptyForm))
     = Some (roundDouble (634305 / 100) - pow2 (- 40))"
  unfolding line9_two_documents calculateTotalIncome_dbl_def
    income_mapping_dbl_line2b income_mapping_dbl_line3b income_mapping_dbl_line7
    income_mapping_dbl_line8 income_mapping_dbl_keeps recalc_dbl_keeps emptyForm_lines
  by (simp_all add: actual1099Data_plain getprop_def del: One_nat_def) code_simp+

text \<open>
  The rounding to cents of the tax also differs between the two arithmetics at a tie: for
  a single filer with a taxable income of 81958.25 the exact sum is 13338.315, while the
  sum of the doubles lies just below it.
\<close>

lemma tie_rounding:
  "calculateTaxLiability (8195825 / 100) (Some SINGLE) = 1333832 / 100"
  "calculateTaxLiability_dbl (roundDouble (8195825 / 100)) (Some SINGLE) =
     roundDouble (1333831 / 100)"
  by code_simp+

section \<open>Facts about the selection of the primary record\<close>

lemma find_member: "find P xs = Some x \<Longrightarrow> x \<in> set xs \<and> P x"
  by (induction xs) (auto split: if_splits)

lemma find_exists: "\<exists>x \<in> set xs. P x \<Longrightarrow> \<exists>y. find P xs = Some y"
  by (induction xs) auto

lemma find_none: "find P xs = None \<Longrightarrow> x \<in> set xs \<Longrightarrow> \<not> P x"
  by (induction xs) (auto split: if_splits)

lemma scoredRecords_head:
  assumes "scoredRecords upper lower rs t = (r, s) # rest"
  shows "r \<in> set rs \<and> s = finalScore upper lower t r \<and> (\<forall>r' \<in> set rs. finalScore upper lower t r' \<le> s)"
proof -
  let ?xs = "map (\<lambda>r. (r, finalScore upper lower t r)) rs"
  let ?k = "\<lambda>(r, s). - (s::rat)"
  have set_eq: "set (scoredRecords upper lower rs t) = set ?xs"
    by (simp add: scoredRecords_def)
  have "(r, s) \<in> set (scoredRecords upper lower rs t)"
    using assms by simp
  then have mem: "(r, s) \<in> set ?xs"
    using set_eq by simp
  then have a: "r \<in> set rs" "s = finalScore upper lower t r"
    by auto
  have "sorted (map ?k (scoredRecords upper lower rs t))"
    by (simp add: scoredRecords_def)
  then have le: "\<forall>p \<in> set rest. ?k (r, s) \<le> ?k p"
    using assms by simp
  have "finalScore upper lower t r' \<le> s" if "r' \<in> set rs" for r'
  proof -
    from that have "(r', finalScore upper lower t r') \<in> set (scoredRecords upper lower rs t)"
      using set_eq by auto
    then have "(r', finalScore upper lower t r') = (r, s) \<or> (r', finalScore upper lower t r') \<in> set rest"
      using assms by simp
    then show ?thesis
      using le by auto
  qed
  with a show ?thesis by blast
qed

lemma scoredRecords_nonempty: "rs \<noteq> [] \<Longrightarrow> scoredRecords upper lower rs t \<noteq> []"
proof
  assume "rs \<noteq> []" and "scoredRecords upper lower rs t = []"
  then have "length (scoredRecords upper lower rs t) = 0" by simp
  then have "length rs = 0" by (simp add: scoredRecords_def)
  with \<open>rs \<noteq> []\<close> show False by simp
qed

lemma select_many:
  "2 \<le> length rs \<Longrightarrow>
   selectPrimaryEmployeeRecord upper lower rs target =
     (case targetMatch upper rs target of
        Some r \<Rightarrow> Some (r, None)
      | None \<Rightarrow>
          (case scoredRecords upper lower rs target of
             [] \<Rightarrow> None
           | (r, s) # rest \<Rightarrow> Some (r, Some s)))"
  by (cases rs; cases "tl rs") (auto simp add: selectPrimaryEmployeeRecord_def)

lemma select_scored:
  assumes "selectPrimaryEmployeeRecord upper lower rs target = Some (r, Some s)"
  shows "2 \<le> length rs \<and> targetMatch upper rs target = None \<and>
         (\<exists>rest. scoredRecords upper lower rs target = (r, s) # rest)"
proof -
  have len: "2 \<le> length rs"
    using assms by (cases rs; cases "tl rs") (auto simp add: selectPrimaryEmployeeRecord_def)
  from assms select_many[OF len, of upper lower target] show ?thesis
    using len by (auto split: option.splits list.splits)
qed

lemma targetMatch_none:
  assumes "targetMatch upper rs (Some t) = None" and "t \<noteq> []" and "r \<in> set rs"
  shows "\<not> matchesTarget upper (normalizeNameForMatching upper t) r"
  using assms by (auto simp add: targetMatch_def dest: find_none)

lemma select_matching:
  assumes "t \<noteq> []" and "\<exists>r \<in> set rs. matchesTarget upper (normalizeNameForMatching upper t) r"
  shows "\<exists>r. selectPrimaryEmployeeRecord upper lower rs (Some t) = Some (r, None) \<and> r \<in> set rs \<and>
             matchesTarget upper (normalizeNameForMatching upper t) r"
proof -
  from find_exists[OF assms(2)] obtain y where
    y: "find (matchesTarget upper (normalizeNameForMatching upper t)) rs = Some y" by blast
  from find_member[OF y] have ym: "y \<in> set rs" "matchesTarget upper (normalizeNameForMatching upper t) y"
    by simp_all
  have tm: "targetMatch upper rs (Some t) = Some y"
    using assms(1) y by (simp add: targetMatch_def)
  show ?thesis
  proof (cases "2 \<le> length rs")
    case True
    from select_many[OF True, of upper lower "Some t"] tm ym show ?thesis by simp
  next
    case False
    with ym(1) obtain x where x: "rs = [x]"
      by (cases rs; cases "tl rs") auto
    with ym have "x = y" by simp
    with x ym show ?thesis by (simp add: selectPrimaryEmployeeRecord_def)
  qed
qed

text \<open>
  The examples, evaluated with the case mappings of Latin-1: the target with the small e
  with acute matches the record in capitals, and the target with the sharp s matches the
  record written with \<^verbatim>\<open>SS\<close>.
\<close>

lemma example_normalized:
  "normalizeNameForMatching upperLatin targetJose = units ''JOS'' @ [201] @ units '' DIAZ''"
  "normalizeNameForMatching upperLatin targetHans = units ''HANS STRAUSS''"
  by code_simp+

lemma example_matches:
  "matchesTarget upperLatin (normalizeNameForMatching upperLatin targetJose) recordJose"
  "\<not> matchesTarget upperLatin (normalizeNameForMatching upperLatin targetJose) recordAlex"
  by code_simp+

lemma example_scored:
  "selectPrimaryEmployeeRecord upperLatin lowerLatin [recordAlex, recordJose] None =
     Some (recordAlex, Some 115)"
  by code_simp

lemma example_sharp_s:
  "selectPrimaryEmployeeRecord upperLatin lowerLatin [recordAlex, recordHans] (Some targetHans) =
     Some (recordHans, None)"
  by code_simp

lemma example_fallback:
  "selectPrimaryEmployeeRecord upperLatin lowerLatin [recordHans, recordAlex] (Some targetJose) =
     Some (recordAlex, Some 115)"
  by code_simp

section \<open>The claims\<close>

text \<open>
  Claim C1. A form holding wages of 50,000.00 on line 1 and a federal withholding of
  6,000.00 on line 25a (what a wage statement contributes), with filing status
  \<^verbatim>\<open>SINGLE\<close>: the standard deduction of 2023 is 13,850, the recomputation yields a
  taxable income of 36,150.00, a bracket liability of 4,118.00, a refund of 1,882.00 and
  an amount owed of 0.
\<close>

theorem C1_wage_statement_scenario:
  "getStandardDeduction (Some SINGLE) = 13850 \<and>
   calculateTaxLiability 36150 (Some SINGLE) = 4118 \<and>
   line9 (recalculateForm1040Totals
      (emptyForm\<lparr>filingStatus := Some SINGLE, line1 := Some 50000, line25a := Some 6000\<rparr>)) = Some 50000 \<and>
   line12 (recalculateForm1040Totals
      (emptyForm\<lparr>filingStatus := Some SINGLE, line1 := Some 50000, line25a := Some 6000\<rparr>)) = Some 13850 \<and>
   line15 (recalculateForm1040Totals
      (emptyForm\<lparr>filingStatus := Some SINGLE, line1 := Some 50000, line25a := Some 6000\<rparr>)) = Some 36150 \<and>
   line16 (recalculateForm1040Totals
      (emptyForm\<lparr>filingStatus := Some SINGLE, line1 := Some 50000, line25a := Some 6000\<rparr>)) = Some 4118 \<and>
   line32 (recalculateForm1040Totals
      (emptyForm\<lparr>filingStatus := Some SINGLE, line1 := Some 50000, line25a := Some 6000\<rparr>)) = Some 6000 \<and>
   line33 (recalculateForm1040Totals
      (emptyForm\<lparr>filingStatus := Some SINGLE, line1 := Some 50000, line25a := Some 6000\<rparr>)) = Some 1882 \<and>
   line37 (recalculateForm1040Totals
      (emptyForm\<lparr>filingStatus := Some SINGLE, line1 := Some 50000, line25a := Some 6000\<rparr>)) = Some 0"
proof -
  let ?f = "emptyForm\<lparr>filingStatus := Some SINGLE, line1 := Some 50000, line25a := Some 6000\<rparr>"
  have sd: "getStandardDeduction (Some SINGLE) = 13850"
    by (simp add: getStandardDeduction_def)
  have tax: "calculateTaxLiability 36150 (Some SINGLE) = 4118"
    by (simp add: calculateTaxLiability_def brackets_other_def js_round_def)
  have ti: "calculateTotalIncome ?f = 50000"
    by (simp add: calculateTotalIncome_def emptyForm_def)
  have l12: "new_line12 ?f = Some 13850"
    by (simp add: new_line12_def emptyForm_def sd)
  have sel: "filingStatus ?f = Some SINGLE" "line13 ?f = None" "line17 ?f = None" "line23 ?f = None"
    by (simp_all add: emptyForm_def)
  have l15: "new_line15 ?f = 36150"
    by (simp add: new_line15_def ti l12 sel)
  have l24: "new_line24 ?f = 4118"
    by (simp add: new_line24_def l15 tax sel)
  have l32: "new_line32 ?f = 6000"
    by (simp add: new_line32_def emptyForm_def)
  show ?thesis
    by (simp add: sd tax ti l12 l15 l24 l32 sel)
qed

text \<open>
  Claim C2. After the recomputation of any form: when the total payments (line 32) are
  strictly greater than the total tax (line 24), the refund (line 33) is their difference
  and the amount owed (line 37) is 0; otherwise the refund is 0 and the amount owed is
  total tax minus payments. Refund and amount owed are never both nonzero and neither is
  negative.
\<close>

theorem C2_refund_or_owed:
  "(if or0 (line32 (recalculateForm1040Totals f)) > or0 (line24 (recalculateForm1040Totals f))
    then line33 (recalculateForm1040Totals f) =
           Some (or0 (line32 (recalculateForm1040Totals f)) - or0 (line24 (recalculateForm1040Totals f)))
         \<and> line37 (recalculateForm1040Totals f) = Some 0
    else line33 (recalculateForm1040Totals f) = Some 0
         \<and> line37 (recalculateForm1040Totals f) =
           Some (or0 (line24 (recalculateForm1040Totals f)) - or0 (line32 (recalculateForm1040Totals f))))
   \<and> (or0 (line33 (recalculateForm1040Totals f)) = 0 \<or> or0 (line37 (recalculateForm1040Totals f)) = 0)
   \<and> 0 \<le> or0 (line33 (recalculateForm1040Totals f))
   \<and> 0 \<le> or0 (line37 (recalculateForm1040Totals f))"
  by simp

text \<open>
  Claim C3. The taxable income the recomputation produces is never negative, for every
  form and filing status, also through the mapper and in the form classes'
  \<^verbatim>\<open>calculateTaxableIncome\<close>; and the bond-premium rule never drives line 2b below
  zero: when the rule fires line 2b ends at zero or above, whatever the premium and the
  prior value, and when it does not fire line 2b is not lowered.
\<close>

theorem C3_never_negative:
  "0 \<le> or0 (line15 (recalculateForm1040Totals f)) \<and>
   line15 (recalculateForm1040Totals f) \<noteq> None \<and>
   0 \<le> or0 (line15 (map1099ToForm1040 pf d f)) \<and>
   0 \<le> calculateTaxableIncome gsd f \<and>
   (if parseAmount pf (getprop d ''bondPremium'') > 0
    then 0 \<le> or0 (line2b (map_bondPremium pf d f))
    else line2b (map_bondPremium pf d f) = line2b f) \<and>
   (if parseAmount pf (getprop (actual1099Data d) ''bondPremium'') > 0
    then 0 \<le> or0 (line2b (map1099ToForm1040 pf d f))
    else or0 (line2b f) \<le> or0 (line2b (map1099ToForm1040 pf d f)))"
proof -
  have adds: "0 \<le> line2bAdditions pf (actual1099Data d)"
    by simp
  have a: "0 \<le> or0 (line15 (recalculateForm1040Totals f))" "line15 (recalculateForm1040Totals f) \<noteq> None"
    by (simp_all add: new_line15_def)
  have b: "0 \<le> or0 (line15 (map1099ToForm1040 pf d f))"
    by (simp add: map1099ToForm1040_def new_line15_def)
  have c: "0 \<le> calculateTaxableIncome gsd f"
    by (simp add: calculateTaxableIncome_def Let_def)
  have d: "(if parseAmount pf (getprop d ''bondPremium'') > 0
    then 0 \<le> or0 (line2b (map_bondPremium pf d f))
    else line2b (map_bondPremium pf d f) = line2b f)"
    by (simp add: map_bondPremium_def Let_def)
  have e: "(if parseAmount pf (getprop (actual1099Data d) ''bondPremium'') > 0
    then 0 \<le> or0 (line2b (map1099ToForm1040 pf d f))
    else or0 (line2b f) \<le> or0 (line2b (map1099ToForm1040 pf d f)))"
    using adds by (simp add: map1099ToForm1040_def income_mapping_line2b)
  from a b c d e show ?thesis by blast
qed

text \<open>
  Claim C4, as stated, fails: the bond-premium rule floors line 2b at zero, so a premium
  applied before the interest it offsets is lost. Interest of 100 followed by a premium of
  50 gives a total income of 50; the premium first and the interest second gives 100.
\<close>

theorem C4_order_counterexample:
  "line9 (map1099ToForm1040_dbl (\<lambda>s. None) [(''bondPremium'', JNum 50)]
       (map1099ToForm1040_dbl (\<lambda>s. None) [(''interestIncome'', JNum 100)] emptyForm)) = Some 50 \<and>
   line9 (map1099ToForm1040_dbl (\<lambda>s. None) [(''interestIncome'', JNum 100)]
       (map1099ToForm1040_dbl (\<lambda>s. None) [(''bondPremium'', JNum 50)] emptyForm)) = Some 100 \<and>
   derivedTotals (map1099ToForm1040_dbl (\<lambda>s. None) [(''bondPremium'', JNum 50)]
       (map1099ToForm1040_dbl (\<lambda>s. None) [(''interestIncome'', JNum 100)] emptyForm)) \<noteq>
   derivedTotals (map1099ToForm1040_dbl (\<lambda>s. None) [(''interestIncome'', JNum 100)]
       (map1099ToForm1040_dbl (\<lambda>s. None) [(''bondPremium'', JNum 50)] emptyForm))"
proof -
  have a: "line9 (map1099ToForm1040_dbl (\<lambda>s. None) [(''bondPremium'', JNum 50)]
       (map1099ToForm1040_dbl (\<lambda>s. None) [(''interestIncome'', JNum 100)] emptyForm)) = Some 50"
    unfolding line9_two_documents calculateTotalIncome_dbl_def
      income_mapping_dbl_line2b income_mapping_dbl_line3b income_mapping_dbl_line7
      income_mapping_dbl_line8 income_mapping_dbl_keeps recalc_dbl_keeps emptyForm_lines
    by (simp add: actual1099Data_plain getprop_def del: One_nat_def) code_simp
  have b: "line9 (map1099ToForm1040_dbl (\<lambda>s. None) [(''interestIncome'', JNum 100)]
       (map1099ToForm1040_dbl (\<lambda>s. None) [(''bondPremium'', JNum 50)] emptyForm)) = Some 100"
    unfolding line9_two_documents calculateTotalIncome_dbl_def
      income_mapping_dbl_line2b income_mapping_dbl_line3b income_mapping_dbl_line7
      income_mapping_dbl_line8 income_mapping_dbl_keeps recalc_dbl_keeps emptyForm_lines
    by (simp add: actual1099Data_plain getprop_def del: One_nat_def) code_simp
  from a b show ?thesis
    by (simp add: derivedTotals_def)
qed

text \<open>
  Claim C4, amended, in the arithmetic of the runtime. When neither document carries a
  positive bond premium and each of them adds at most one positive amount to line 2b and
  at most one to line 8, mapping D1 then D2 onto the empty form yields the same derived
  totals as mapping D2 then D1. With two amounts for one line in a document the sums are
  rounded in a different order and can differ, as \<open>double_sums_depend_on_order\<close> shows.
\<close>

theorem C4_order_independent_single_contributions:
  assumes "singleContributions pf (actual1099Data D1)"
    and "singleContributions pf (actual1099Data D2)"
  shows "derivedTotals (map1099ToForm1040_dbl pf D2 (map1099ToForm1040_dbl pf D1 emptyForm)) =
         derivedTotals (map1099ToForm1040_dbl pf D1 (map1099ToForm1040_dbl pf D2 emptyForm))"
  using mapping_dbl_commutes[OF assms]
  by (simp add: map1099ToForm1040_dbl_def)

text \<open>
  The amended claim C4 at two concrete documents.
\<close>

theorem C4_order_independent_witness:
  "singleContributions (\<lambda>s. None)
     (actual1099Data [(''interestIncome'', JNum 100), (''rents'', JNum (1 / 2))]) \<and>
   singleContributions (\<lambda>s. None)
     (actual1099Data [(''interestOnUSavingsBonds'', JNum 70), (''federalTaxWithheld'', JNum 7)]) \<and>
   derivedTotals (map1099ToForm1040_dbl (\<lambda>s. None)
       [(''interestOnUSavingsBonds'', JNum 70), (''federalTaxWithheld'', JNum 7)]
       (map1099ToForm1040_dbl (\<lambda>s. None)
          [(''interestIncome'', JNum 100), (''rents'', JNum (1 / 2))] emptyForm)) =
   derivedTotals (map1099ToForm1040_dbl (\<lambda>s. None)
       [(''interestIncome'', JNum 100), (''rents'', JNum (1 / 2))]
       (map1099ToForm1040_dbl (\<lambda>s. None)
          [(''interestOnUSavingsBonds'', JNum 70), (''federalTaxWithheld'', JNum 7)] emptyForm))"
proof -
  have h1: "singleContributions (\<lambda>s. None)
     (actual1099Data [(''interestIncome'', JNum 100), (''rents'', JNum (1 / 2))])"
    by code_simp
  have h2: "singleContributions (\<lambda>s. None)
     (actual1099Data [(''interestOnUSavingsBonds'', JNum 70), (''federalTaxWithheld'', JNum 7)])"
    by code_simp
  from h1 h2 C4_order_independent_single_contributions[OF h1 h2] show ?thesis
    by blast
qed

text \<open>
  Claim C7, as stated, fails on ties: \<^verbatim>\<open>detectFormType\<close> answers \<^verbatim>\<open>W2\<close> only when
  the wage-statement score is strictly higher. The text below scores 1 for both lists and is
  classified in the information-return family.
\<close>

theorem C7_tie_counterexample:
  "w2Score ''Form W-2 payer'' = 1 \<and> form1099Score ''Form W-2 payer'' = 1 \<and>
   analyzeDocumentTypeFromOCR ''Form W-2 payer'' = ''FORM_1099_MISC'' \<and>
   analyzeDocumentTypeFromOCR ''Form W-2 payer'' \<noteq> ''W2''"
  by code_simp

text \<open>
  Claim C7, amended. Each score is the number of indicators of the list that occur in the
  lower-cased text. The wage-statement category wins when its score is strictly higher;
  otherwise, when the information-return score is positive (a tie included), the result is
  the subtype chosen by \<^verbatim>\<open>detectSpecific1099Type\<close>; when no list scores above zero the
  result is \<^verbatim>\<open>UNKNOWN\<close>. The classifier is a total function of the text.
\<close>

theorem C7_classifier:
  "w2Score t = length (filter (js_includes (toLowerCase t)) w2Indicators) \<and>
   form1099Score t = length (filter (js_includes (toLowerCase t)) form1099Indicators) \<and>
   analyzeDocumentTypeFromOCR t =
     (if w2Score t > form1099Score t then ''W2''
      else if form1099Score t > 0 then detectSpecific1099Type t
      else ''UNKNOWN'') \<and>
   (w2Score t = 0 \<and> form1099Score t = 0 \<longrightarrow> analyzeDocumentTypeFromOCR t = ''UNKNOWN'') \<and>
   (w2Score t = form1099Score t \<and> 0 < w2Score t \<longrightarrow>
      analyzeDocumentTypeFromOCR t = detectSpecific1099Type t \<and>
      analyzeDocumentTypeFromOCR t \<noteq> ''W2'') \<and>
   (analyzeDocumentTypeFromOCR t = ''W2'' \<longrightarrow> form1099Score t < w2Score t)"
proof -
  have a: "w2Score t = length (filter (js_includes (toLowerCase t)) w2Indicators)"
    by (simp add: w2Score_def countLoop_count)
  have b: "form1099Score t = length (filter (js_includes (toLowerCase t)) form1099Indicators)"
    by (simp add: form1099Score_def countLoop_count)
  have c: "analyzeDocumentTypeFromOCR t =
     (if w2Score t > form1099Score t then ''W2''
      else if form1099Score t > 0 then detectSpecific1099Type t
      else ''UNKNOWN'')"
    by (simp add: analyzeDocumentTypeFromOCR_def detectFormType_def Let_def)
  have n: "detectSpecific1099Type t \<noteq> ''W2''"
    using detectSpecific1099Type_range[of t] by auto
  from a b c n show ?thesis
    by (auto split: if_splits)
qed

text \<open>
  The amended claim C7 at a tie, at a wage statement and at a text without indicators.
\<close>

theorem C7_classifier_witness:
  "w2Score ''form w-2 recipient'' = form1099Score ''form w-2 recipient'' \<and>
   0 < w2Score ''form w-2 recipient'' \<and>
   analyzeDocumentTypeFromOCR ''form w-2 recipient'' = detectSpecific1099Type ''form w-2 recipient'' \<and>
   w2Score ''wage and tax statement'' = 1 \<and> form1099Score ''wage and tax statement'' = 0 \<and>
   analyzeDocumentTypeFromOCR ''wage and tax statement'' = ''W2'' \<and>
   w2Score ''hello'' = 0 \<and> form1099Score ''hello'' = 0 \<and>
   analyzeDocumentTypeFromOCR ''hello'' = ''UNKNOWN''"
proof -
  have h1: "w2Score ''form w-2 recipient'' = form1099Score ''form w-2 recipient''"
    "0 < w2Score ''form w-2 recipient''"
    by code_simp+
  have h2: "w2Score ''wage and tax statement'' = 1" "form1099Score ''wage and tax statement'' = 0"
    by code_simp+
  have h3: "w2Score ''hello'' = 0" "form1099Score ''hello'' = 0"
    by code_simp+
  from h1 h2 h3 C7_classifier[of "''form w-2 recipient''"] C7_classifier[of "''wage and tax statement''"]
    C7_classifier[of "''hello''"]
  show ?thesis by simp
qed

text \<open>
  Claim C10. \<^verbatim>\<open>detectSpecific1099Type\<close> returns one of the four subtypes for every
  text, never an unknown result; when every subtype scores zero it returns
  \<^verbatim>\<open>FORM_1099_MISC\<close>; and the subtype it returns has a maximal score.
\<close>

theorem C10_subtype_is_concrete_and_maximal:
  "detectSpecific1099Type t \<in>
     {''FORM_1099_DIV'', ''FORM_1099_INT'', ''FORM_1099_MISC'', ''FORM_1099_NEC''} \<and>
   detectSpecific1099Type t \<noteq> ''UNKNOWN'' \<and>
   (typeScore t ''FORM_1099_DIV'' = 0 \<and> typeScore t ''FORM_1099_INT'' = 0 \<and>
    typeScore t ''FORM_1099_MISC'' = 0 \<and> typeScore t ''FORM_1099_NEC'' = 0
      \<longrightarrow> detectSpecific1099Type t = ''FORM_1099_MISC'') \<and>
   typeScore t ''FORM_1099_DIV'' \<le> typeScore t (detectSpecific1099Type t) \<and>
   typeScore t ''FORM_1099_INT'' \<le> typeScore t (detectSpecific1099Type t) \<and>
   typeScore t ''FORM_1099_MISC'' \<le> typeScore t (detectSpecific1099Type t) \<and>
   typeScore t ''FORM_1099_NEC'' \<le> typeScore t (detectSpecific1099Type t)"
proof -
  have r: "detectSpecific1099Type t \<in>
     {''FORM_1099_DIV'', ''FORM_1099_INT'', ''FORM_1099_MISC'', ''FORM_1099_NEC''}"
    by (rule detectSpecific1099Type_range)
  then have u: "detectSpecific1099Type t \<noteq> ''UNKNOWN''"
    by auto
  have m: "typeScore t (fst p) \<le> typeScore t (detectSpecific1099Type t)"
    if "p \<in> set formTypePatterns" for p
    using detectSpecific1099Type_maximal[OF that, of t] typeScore_entry[OF that, of t] by simp
  have m1: "typeScore t ''FORM_1099_DIV'' \<le> typeScore t (detectSpecific1099Type t)"
    using m[of "formTypePatterns ! 0"] by (simp add: formTypePatterns_def)
  have m2: "typeScore t ''FORM_1099_INT'' \<le> typeScore t (detectSpecific1099Type t)"
    using m[of "formTypePatterns ! 1"] by (simp add: formTypePatterns_def)
  have m3: "typeScore t ''FORM_1099_MISC'' \<le> typeScore t (detectSpecific1099Type t)"
    using m[of "formTypePatterns ! 2"] by (simp add: formTypePatterns_def)
  have m4: "typeScore t ''FORM_1099_NEC'' \<le> typeScore t (detectSpecific1099Type t)"
    using m[of "formTypePatterns ! 3"] by (simp add: formTypePatterns_def)
  from r u m1 m2 m3 m4 detectSpecific1099Type_default[of t] show ?thesis
    by blast
qed

text \<open>
  Claim C10 at a text without any indicator.
\<close>

theorem C10_subtype_witness:
  "typeScore ''no indicator here'' ''FORM_1099_DIV'' = 0 \<and>
   typeScore ''no indicator here'' ''FORM_1099_INT'' = 0 \<and>
   typeScore ''no indicator here'' ''FORM_1099_MISC'' = 0 \<and>
   typeScore ''no indicator here'' ''FORM_1099_NEC'' = 0 \<and>
   detectSpecific1099Type ''no indicator here'' = ''FORM_1099_MISC''"
proof -
  have h: "typeScore ''no indicator here'' ''FORM_1099_DIV'' = 0"
    "typeScore ''no indicator here'' ''FORM_1099_INT'' = 0"
    "typeScore ''no indicator here'' ''FORM_1099_MISC'' = 0"
    "typeScore ''no indicator here'' ''FORM_1099_NEC'' = 0"
    by code_simp+
  from h C10_subtype_is_concrete_and_maximal[of "''no indicator here''"] show ?thesis
    by blast
qed







text \<open>
  Claim C8, as stated, fails: \<^verbatim>\<open>extractFieldValue\<close> returns 0 when the section
  pattern does not match, and the result is always assigned. On the empty text, where no
  pattern matches, the interest income is present with the value 0.
\<close>

theorem C8_unmatched_field_counterexample:
  "getprop (extract1099IntFieldsFromOCR (\<lambda>s. None) (\<lambda>box label nxt t. None) [] '''' [])
     ''interestIncome'' = JNum 0 \<and>
   getprop (extract1099IntFieldsFromOCR (\<lambda>s. None) (\<lambda>box label nxt t. None) [] '''' [])
     ''interestIncome'' \<noteq> JUndefined"
  by (simp add: extract1099Int_unfold extractFieldValue_def)

text \<open>
  Claim C8, amended. For every raw text and every canonical numeric field of the interest
  statement, the field is present in the output of the text-pattern extractor with the
  value its extraction returns; when the section pattern of the field does not match, the
  value is the number 0, as for a matched section that holds no amount.
\<close>

theorem C8_numeric_fields_always_present:
  assumes "(k, box, label, nxt) \<in> set amountFields1099Int"
  shows "getprop (extract1099IntFieldsFromOCR pf sectionMatch personalInfo ocrText baseData) k =
           extractFieldValue pf sectionMatch ocrText box label nxt \<and>
         getprop (extract1099IntFieldsFromOCR pf sectionMatch personalInfo ocrText baseData) k
           \<noteq> JUndefined \<and>
         (sectionMatch box label nxt ocrText = None \<longrightarrow>
            getprop (extract1099IntFieldsFromOCR pf sectionMatch personalInfo ocrText baseData) k
              = JNum 0)"
  using extract1099Int_amount[OF assms, of pf sectionMatch personalInfo ocrText baseData]
    extractFieldValue_defined[of pf sectionMatch ocrText box label nxt]
    extractFieldValue_unmatched[of sectionMatch box label nxt ocrText pf]
  by simp

text \<open>
  The amended claim C8 at a text where only the pattern of Box 1 matches: the bond premium
  is present with the value 0.
\<close>

theorem C8_numeric_fields_witness:
  "(''bondPremium'', ''11'', ''Bond premium'', ''13'') \<in> set amountFields1099Int \<and>
   (\<lambda>box label nxt t. if box = ''1'' then Some '' $ 1,234.50 '' else None)
      ''11'' ''Bond premium'' ''13'' ''1 Interest income $ 1,234.50 '' = None \<and>
   getprop (extract1099IntFieldsFromOCR (\<lambda>s. None)
       (\<lambda>box label nxt t. if box = ''1'' then Some '' $ 1,234.50 '' else None) []
       ''1 Interest income $ 1,234.50 '' []) ''bondPremium'' = JNum 0"
proof -
  have m: "(''bondPremium'', ''11'', ''Bond premium'', ''13'') \<in> set amountFields1099Int"
    by (simp add: amountFields1099Int_def)
  have n: "(\<lambda>box label nxt t. if box = ''1'' then Some '' $ 1,234.50 '' else None)
      ''11'' ''Bond premium'' ''13'' ''1 Interest income $ 1,234.50 '' = (None :: string option)"
    by simp
  have r: "getprop (extract1099IntFieldsFromOCR (\<lambda>s. None)
       (\<lambda>box label nxt t. if box = ''1'' then Some '' $ 1,234.50 '' else None) []
       ''1 Interest income $ 1,234.50 '' []) ''bondPremium'' = JNum 0"
    using C8_numeric_fields_always_present[OF m, of "\<lambda>s. None"
      "\<lambda>box label nxt t. if box = ''1'' then Some '' $ 1,234.50 '' else None" "[]"
      "''1 Interest income $ 1,234.50 ''" "[]"] n
    by blast
  from m n r show ?thesis by blast
qed

text \<open>
  Claim C9. Whatever the case mappings of the runtime are: with a target name supplied
  (not empty), when some record has a name whose normalized form equals the normalized
  target or contains every word of it, the selection returns such a record, wherever it
  stands in the list. The composite score is used only when no record matches the target
  (or none is supplied): a result that carries a score comes from a list of at least two
  records none of which matches, is a record of the list, and no record of the list
  scores higher; and with at least two records and no match the result always carries a
  score.
\<close>

theorem C9_matching_record_is_selected:
  "(t \<noteq> [] \<and>
    (\<exists>r \<in> set employeeRecords. matchesTarget upper (normalizeNameForMatching upper t) r) \<longrightarrow>
      (\<exists>r. selectPrimaryEmployeeRecord upper lower employeeRecords (Some t) = Some (r, None) \<and>
           r \<in> set employeeRecords \<and>
           matchesTarget upper (normalizeNameForMatching upper t) r)) \<and>
   (selectPrimaryEmployeeRecord upper lower employeeRecords targetEmployeeName =
      Some (r, Some s) \<longrightarrow>
      2 \<le> length employeeRecords \<and>
      targetMatch upper employeeRecords targetEmployeeName = None \<and>
      (\<forall>t'. targetEmployeeName = Some t' \<and> t' \<noteq> [] \<longrightarrow>
         (\<forall>r' \<in> set employeeRecords.
            \<not> matchesTarget upper (normalizeNameForMatching upper t') r')) \<and>
      r \<in> set employeeRecords \<and> s = finalScore upper lower targetEmployeeName r \<and>
      (\<forall>r' \<in> set employeeRecords. finalScore upper lower targetEmployeeName r' \<le> s)) \<and>
   (2 \<le> length employeeRecords \<and>
    targetMatch upper employeeRecords targetEmployeeName = None \<longrightarrow>
      (\<exists>r' s'. selectPrimaryEmployeeRecord upper lower employeeRecords targetEmployeeName =
         Some (r', Some s')))"
proof (intro conjI impI)
  assume "t \<noteq> [] \<and>
    (\<exists>r \<in> set employeeRecords. matchesTarget upper (normalizeNameForMatching upper t) r)"
  then show "\<exists>r. selectPrimaryEmployeeRecord upper lower employeeRecords (Some t) = Some (r, None) \<and>
           r \<in> set employeeRecords \<and> matchesTarget upper (normalizeNameForMatching upper t) r"
    using select_matching[of t employeeRecords upper lower] by blast
next
  assume a: "selectPrimaryEmployeeRecord upper lower employeeRecords targetEmployeeName =
      Some (r, Some s)"
  from select_scored[OF a] obtain rest where
    l: "2 \<le> length employeeRecords" and
    n: "targetMatch upper employeeRecords targetEmployeeName = None" and
    h: "scoredRecords upper lower employeeRecords targetEmployeeName = (r, s) # rest" by blast
  show "2 \<le> length employeeRecords" by (rule l)
  show "targetMatch upper employeeRecords targetEmployeeName = None" by (rule n)
  show "\<forall>t'. targetEmployeeName = Some t' \<and> t' \<noteq> [] \<longrightarrow>
         (\<forall>r' \<in> set employeeRecords.
            \<not> matchesTarget upper (normalizeNameForMatching upper t') r')"
    using n targetMatch_none by blast
  from scoredRecords_head[OF h]
  show "r \<in> set employeeRecords" "s = finalScore upper lower targetEmployeeName r"
    "\<forall>r' \<in> set employeeRecords. finalScore upper lower targetEmployeeName r' \<le> s"
    by blast+
next
  assume b: "2 \<le> length employeeRecords \<and>
    targetMatch upper employeeRecords targetEmployeeName = None"
  then have "employeeRecords \<noteq> []" by auto
  from scoredRecords_nonempty[OF this, of upper lower targetEmployeeName] obtain r' s' rest where
    "scoredRecords upper lower employeeRecords targetEmployeeName = (r', s') # rest"
    by (cases "scoredRecords upper lower employeeRecords targetEmployeeName") auto
  with b select_many[of employeeRecords upper lower targetEmployeeName]
  show "\<exists>r' s'. selectPrimaryEmployeeRecord upper lower employeeRecords targetEmployeeName =
         Some (r', Some s')"
    by simp
qed

text \<open>
  Claim C9 at two blocks of one document, with the case mappings of Latin-1. With the
  target written with the small e with acute, the second record, whose name is in
  capitals with two spaces, is selected although the first one has the higher score;
  without a target the first one wins on its score of 115.
\<close>

theorem C9_matching_record_witness:
  "targetJose \<noteq> [] \<and>
   matchesTarget upperLatin (normalizeNameForMatching upperLatin targetJose) recordJose \<and>
   \<not> matchesTarget upperLatin (normalizeNameForMatching upperLatin targetJose) recordAlex \<and>
   selectPrimaryEmployeeRecord upperLatin lowerLatin [recordAlex, recordJose] (Some targetJose) =
     Some (recordJose, None) \<and>
   selectPrimaryEmployeeRecord upperLatin lowerLatin [recordAlex, recordJose] None =
     Some (recordAlex, Some 115) \<and>
   targetMatch upperLatin [recordAlex, recordJose] None = None \<and>
   finalScore upperLatin lowerLatin None recordJose \<le> 115"
proof -
  have ex: "\<exists>r \<in> set [recordAlex, recordJose].
      matchesTarget upperLatin (normalizeNameForMatching upperLatin targetJose) r"
    using example_matches(1) by simp
  have ne: "targetJose \<noteq> []" by (simp add: targetJose_def)
  from C9_matching_record_is_selected[of targetJose "[recordAlex, recordJose]" upperLatin
      lowerLatin None recordAlex 115] ne ex
  obtain r where r: "selectPrimaryEmployeeRecord upperLatin lowerLatin [recordAlex, recordJose]
      (Some targetJose) = Some (r, None)" "r \<in> set [recordAlex, recordJose]"
      "matchesTarget upperLatin (normalizeNameForMatching upperLatin targetJose) r"
    by blast
  from r(2,3) example_matches(2) have "r = recordJose" by auto
  with r(1) have sel: "selectPrimaryEmployeeRecord upperLatin lowerLatin [recordAlex, recordJose]
      (Some targetJose) = Some (recordJose, None)" by simp
  from C9_matching_record_is_selected[of targetJose "[recordAlex, recordJose]" upperLatin
      lowerLatin None recordAlex 115] example_scored
  have "targetMatch upperLatin [recordAlex, recordJose] None = None"
    and "\<forall>r' \<in> set [recordAlex, recordJose]. finalScore upperLatin lowerLatin None r' \<le> 115"
    by blast+
  then have sc: "targetMatch upperLatin [recordAlex, recordJose] None = None"
    "finalScore upperLatin lowerLatin None recordJose \<le> 115" by simp_all
  from ne example_matches sel example_scored sc show ?thesis by blast
qed

end
